theory Spec2Isabelle
  imports Main
begin

unbundle bit_operations_syntax

chapter \<open>zcert: a local certificate authority and its trust-store backends\<close>

text \<open>
  A shallow embedding of \<^verbatim>\<open>zcert.go\<close>, of the error group copied from
  \<^verbatim>\<open>zgo.at/errors\<close> and of the \<^verbatim>\<open>truststore\<close> package. Go's standard library
  (\<^verbatim>\<open>crypto/x509\<close>, \<^verbatim>\<open>encoding/pem\<close>, \<^verbatim>\<open>net\<close>, \<^verbatim>\<open>net/mail\<close>, \<^verbatim>\<open>net/url\<close>,
  \<^verbatim>\<open>os/exec\<close>) and the operating system are not part of the repository: their
  functions are parameters of the model (records of functions), and the file system, the
  entropy source, the clock and the standard streams are explicit state.
\<close>

section \<open>Errors, outcomes and the error group\<close>

type_synonym bytes = string

text \<open>
  \<^verbatim>\<open>Group\<close> of the error group file: \<^verbatim>\<open>MaxSize\<close>, \<^verbatim>\<open>errs\<close>, \<^verbatim>\<open>nerrs\<close>
  (the mutex guards nothing in a sequential run and is left out).
\<close>

datatype 'e Group = Group (MaxSize: int) (errs: "'e list") (nerrs: int)

text \<open>
  A Go \<^verbatim>\<open>error\<close> value: \<^verbatim>\<open>errors.New\<close> or \<^verbatim>\<open>fmt.Errorf\<close> without \<^verbatim>\<open>%w\<close> is
  \<open>Error msg\<close>; \<^verbatim>\<open>fmt.Errorf("prefix: %w", err)\<close> is \<open>Wrap prefix err\<close>; a
  \<^verbatim>\<open>*Group\<close> returned as an error is \<open>GroupError g\<close>. The nil error is \<open>None\<close> of
  \<open>error option\<close>.
\<close>

datatype error = Error string | Wrap string error | GroupError "error Group"

text \<open>
  How a call ends: it returns to its caller, it panics (an index out of range, a failed
  type assertion, a nil dereference), or it ends the process (\<^verbatim>\<open>log.Fatalln\<close> calls
  \<^verbatim>\<open>os.Exit(1)\<close>).
\<close>

datatype 'a outcome = Returns 'a | Panics string | Exits int

definition NewGroup :: "int \<Rightarrow> error Group" where
  "NewGroup maxSize = Group maxSize [] 0"

definition Len :: "error Group \<Rightarrow> int" where
  "Len g = int (length (errs g))"

text \<open>\<^verbatim>\<open>Append\<close> mutates the group behind the pointer: the model returns the flag and the group.\<close>

definition Append :: "error Group \<Rightarrow> error option \<Rightarrow> bool \<times> error Group" where
  "Append g err =
     (case err of
        None \<Rightarrow> (False, g)
      | Some e \<Rightarrow>
          (True,
           Group (MaxSize g)
             (if MaxSize g = 0 \<or> int (length (errs g)) < MaxSize g then errs g @ [e] else errs g)
             (nerrs g + 1)))"

definition ErrorOrNil :: "error Group \<Rightarrow> error option" where
  "ErrorOrNil g = (if Len g = 0 then None else Some (GroupError g))"

section \<open>Certificates and keys\<close>

text \<open>
  Keys are opaque to the program: \<^verbatim>\<open>crypto.PrivateKey\<close> and the public key are
  values it only passes on to the library.
\<close>

datatype PrivateKey = PrivateKey nat
datatype PublicKey = PublicKey nat

record pkix_Name =
  Organization :: "string list"
  OrganizationalUnit :: "string list"
  CommonName :: string

datatype ExtKeyUsage =
  ExtKeyUsageClientAuth | ExtKeyUsageServerAuth | ExtKeyUsageCodeSigning | ExtKeyUsageEmailProtection

definition KeyUsageDigitalSignature :: nat where "KeyUsageDigitalSignature = 1"
definition KeyUsageKeyEncipherment :: nat where "KeyUsageKeyEncipherment = 4"
definition KeyUsageCertSign :: nat where "KeyUsageCertSign = 32"

text \<open>\<^verbatim>\<open>url.URL\<close> and \<^verbatim>\<open>mail.Address\<close>, with the fields the program reads.\<close>

record URL =
  Scheme :: string
  Host :: string
  Rest :: string

record Address =
  Name :: string
  Address :: string

text \<open>
  \<^verbatim>\<open>x509.Certificate\<close> with the fields the program sets or reads. \<^verbatim>\<open>SerialNumber\<close> is a
  \<^verbatim>\<open>*big.Int\<close> and \<^verbatim>\<open>PublicKey\<close> an interface: both may be nil. Times are clock readings.
\<close>

record Certificate =
  SerialNumber :: "int option"
  Subject :: pkix_Name
  SubjectKeyId :: bytes
  NotAfter :: nat
  NotBefore :: nat
  KeyUsage :: nat
  ExtKeyUsages :: "ExtKeyUsage list"
  BasicConstraintsValid :: bool
  IsCA :: bool
  MaxPathLenZero :: bool
  IPAddresses :: "bytes list"
  EmailAddresses :: "string list"
  URIs :: "URL list"
  DNSNames :: "string list"
  CertPublicKey :: "PublicKey option"

text \<open>The zero value \<^verbatim>\<open>x509.Certificate{}\<close>.\<close>

definition zeroCertificate :: Certificate where
  "zeroCertificate =
     \<lparr>SerialNumber = None,
      Subject = \<lparr>Organization = [], OrganizationalUnit = [], CommonName = []\<rparr>,
      SubjectKeyId = [], NotAfter = 0, NotBefore = 0, KeyUsage = 0, ExtKeyUsages = [],
      BasicConstraintsValid = False, IsCA = False, MaxPathLenZero = False,
      IPAddresses = [], EmailAddresses = [], URIs = [], DNSNames = [],
      CertPublicKey = None\<rparr>"

section \<open>The Windows root store (the Windows file of \<^verbatim>\<open>truststore\<close>)\<close>

text \<open>
  A certificate context of the store: its encoded bytes, and what the two system calls
  made on it return (\<^verbatim>\<open>CertDuplicateCertificateContext\<close> and
  \<^verbatim>\<open>CertDeleteCertificateFromStore\<close>: non-zero is success).
\<close>

record CertContext =
  EncodedCert :: bytes
  dup_ok :: bool
  del_ok :: bool

text \<open>
  The store behind the handle: the contexts the enumeration yields in turn, and the
  \<^verbatim>\<open>syscall.Errno\<close> reported when \<^verbatim>\<open>CertEnumCertificatesInStore\<close> returns NULL.
  \<open>open_ok\<close> says whether \<^verbatim>\<open>CertOpenSystemStoreW\<close> returned a handle.
\<close>

record windowsRootStore =
  open_ok :: bool
  contexts :: "CertContext list"
  enum_errno :: nat

definition CRYPT_E_NOT_FOUND :: nat where
  "CRYPT_E_NOT_FOUND = 0x80092004"

text \<open>
  The loop of \<^verbatim>\<open>deleteCertsWithSerial\<close>, over the contexts still to enumerate, with
  \<^verbatim>\<open>deletedAny\<close> as accumulator. \<open>parse\<close> is \<^verbatim>\<open>x509.ParseCertificate\<close>.
  \<^verbatim>\<open>parsedCert.SerialNumber.Cmp(serial)\<close> dereferences \<^verbatim>\<open>serial\<close>.
\<close>

fun deleteCertsLoop ::
  "(bytes \<Rightarrow> error + Certificate) \<Rightarrow> nat \<Rightarrow> int option \<Rightarrow> CertContext list \<Rightarrow> bool
     \<Rightarrow> (bool \<times> error option) outcome" where
  "deleteCertsLoop parse eno serial [] deletedAny =
     (if eno = CRYPT_E_NOT_FOUND then Returns (deletedAny, None)
      else Returns (deletedAny, Some (Error ''enumerating certs'')))"
| "deleteCertsLoop parse eno serial (c # cs) deletedAny =
     (case parse (EncodedCert c) of
        Inl _ \<Rightarrow> deleteCertsLoop parse eno serial cs deletedAny
      | Inr parsedCert \<Rightarrow>
          (case SerialNumber parsedCert of
             None \<Rightarrow> deleteCertsLoop parse eno serial cs deletedAny
           | Some n \<Rightarrow>
               (case serial of
                  None \<Rightarrow> Panics ''nil pointer dereference''
                | Some s \<Rightarrow>
                    if n = s then
                      (if \<not> dup_ok c then Returns (deletedAny, Some (Error ''duplicating context''))
                       else if \<not> del_ok c then
                         Returns (deletedAny, Some (Error ''deleting certificate''))
                       else deleteCertsLoop parse eno serial cs True)
                    else deleteCertsLoop parse eno serial cs deletedAny)))"

definition deleteCertsWithSerial ::
  "(bytes \<Rightarrow> error + Certificate) \<Rightarrow> windowsRootStore \<Rightarrow> int option
     \<Rightarrow> (bool \<times> error option) outcome" where
  "deleteCertsWithSerial parse w serial =
     deleteCertsLoop parse (enum_errno w) serial (contexts w) False"

text \<open>
  \<^verbatim>\<open>Windows.Uninstall\<close>. The last two statements of the source are
  \<^verbatim>\<open>if !deletedAny { err = fmt.Errorf(...) }\<close> and \<^verbatim>\<open>return nil\<close>: the assignment to
  \<^verbatim>\<open>err\<close> is dead, both branches return nil.
\<close>

definition Windows_Uninstall ::
  "(bytes \<Rightarrow> error + Certificate) \<Rightarrow> windowsRootStore \<Rightarrow> string \<Rightarrow> Certificate
     \<Rightarrow> error option outcome" where
  "Windows_Uninstall parse store rootCert caCert =
     (if \<not> open_ok store then
        Returns (Some (Wrap ''truststore.Windows: open root store''
                         (Error ''Failed to open windows root store'')))
      else
        (case deleteCertsWithSerial parse store (SerialNumber caCert) of
           Panics p \<Rightarrow> Panics p
         | Exits n \<Rightarrow> Exits n
         | Returns (deletedAny, Some err) \<Rightarrow>
             Returns (Some (Wrap ''truststore.Windows: delete cert'' err))
         | Returns (deletedAny, None) \<Rightarrow>
             (if \<not> deletedAny then Returns None else Returns None)))"

section \<open>Paths and the file system\<close>

text \<open>
  \<^verbatim>\<open>os.PathSeparator\<close> of the platform the program was built for (\<^verbatim>\<open>runtime.GOOS\<close>).
\<close>

definition Separator :: "string \<Rightarrow> char" where
  "Separator goos = (if goos = ''windows'' then CHR 0x5C else CHR ''/'')"

text \<open>
  \<^verbatim>\<open>filepath.Join\<close>: empty elements are ignored and the others are joined with the
  separator. The final \<^verbatim>\<open>Clean\<close> is the identity on the paths the program joins (a
  directory taken from the environment in clean form, and fixed names).
\<close>

fun Join :: "char \<Rightarrow> string list \<Rightarrow> string" where
  "Join sep [] = []"
| "Join sep (e # es) =
     (if e = [] then Join sep es
      else (case Join sep es of [] \<Rightarrow> e | r # rs \<Rightarrow> e @ sep # r # rs))"

text \<open>
  \<^verbatim>\<open>filepath.Dir\<close>: everything up to the last separator, without trailing separators;
  \<^verbatim>\<open>"."\<close> when there is no separator and the separator alone for an entry of the root.
\<close>

definition Dir :: "char \<Rightarrow> string \<Rightarrow> string" where
  "Dir sep p =
     (let d = rev (dropWhile (\<lambda>c. c \<noteq> sep) (rev p));
          d' = rev (dropWhile (\<lambda>c. c = sep) (rev d))
      in if d = [] then ''.'' else if d' = [] then [sep] else d')"

text \<open>A file with its content and mode, or a directory with its mode.\<close>

datatype node = File bytes nat | Directory nat

type_synonym filesystem = "(string \<times> node) list"

definition fs_update :: "string \<Rightarrow> node \<Rightarrow> filesystem \<Rightarrow> filesystem" where
  "fs_update p n fs = (p, n) # filter (\<lambda>e. fst e \<noteq> p) fs"

definition fs_delete :: "string \<Rightarrow> filesystem \<Rightarrow> filesystem" where
  "fs_delete p fs = filter (\<lambda>e. fst e \<noteq> p) fs"

text \<open>\<^verbatim>\<open>os.Stat(path)\<close> returns no error: the empty path names nothing.\<close>

definition stat_ok :: "filesystem \<Rightarrow> string \<Rightarrow> bool" where
  "stat_ok fs p = (p \<noteq> [] \<and> map_of fs p \<noteq> None)"

text \<open>The current directory and the root always exist.\<close>

definition is_dir :: "char \<Rightarrow> filesystem \<Rightarrow> string \<Rightarrow> bool" where
  "is_dir sep fs d =
     (d = ''.'' \<or> d = [sep] \<or> (case map_of fs d of Some (Directory _) \<Rightarrow> True | _ \<Rightarrow> False))"

text \<open>\<^verbatim>\<open>os.Mkdir\<close>: the parent must be a directory and the name free.\<close>

definition Mkdir :: "char \<Rightarrow> filesystem \<Rightarrow> string \<Rightarrow> nat \<Rightarrow> error + filesystem" where
  "Mkdir sep fs p perm =
     (if map_of fs p \<noteq> None then Inl (Error ''mkdir: file exists'')
      else if \<not> is_dir sep fs (Dir sep p) then Inl (Error ''mkdir: no such file or directory'')
      else Inr (fs_update p (Directory perm) fs))"

text \<open>
  \<^verbatim>\<open>os.MkdirAll\<close>: nothing to do for a directory, an error for a file in the way;
  otherwise the prefix before the last element is created first (when it is longer than
  one character), then the directory itself.
\<close>

definition parentPrefix :: "char \<Rightarrow> string \<Rightarrow> string" where
  "parentPrefix sep p =
     rev (dropWhile (\<lambda>c. c \<noteq> sep) (dropWhile (\<lambda>c. c = sep) (rev p)))"

function MkdirAll :: "char \<Rightarrow> filesystem \<Rightarrow> string \<Rightarrow> nat \<Rightarrow> error + filesystem" where
  "MkdirAll sep fs p perm =
     (case map_of fs p of
        Some (Directory _) \<Rightarrow> Inr fs
      | Some (File _ _) \<Rightarrow> Inl (Error ''mkdir: not a directory'')
      | None \<Rightarrow>
          (if 1 < length (parentPrefix sep p) then
             (case MkdirAll sep fs (butlast (parentPrefix sep p)) perm of
                Inl e \<Rightarrow> Inl e
              | Inr fs' \<Rightarrow> Mkdir sep fs' p perm)
           else Mkdir sep fs p perm))"
  by pat_completeness auto

text \<open>
  \<^verbatim>\<open>os.Remove\<close>: a file, or a directory with no entry left in it. An entry of a
  directory is a path whose \<^verbatim>\<open>Dir\<close> it is.
\<close>

definition Remove :: "char \<Rightarrow> filesystem \<Rightarrow> string \<Rightarrow> error + filesystem" where
  "Remove sep fs p =
     (case map_of fs p of
        None \<Rightarrow> Inl (Error ''remove: no such file or directory'')
      | Some (File _ _) \<Rightarrow> Inr (fs_delete p fs)
      | Some (Directory _) \<Rightarrow>
          (if list_ex (\<lambda>e. fst e \<noteq> p \<and> Dir sep (fst e) = p) fs
           then Inl (Error ''remove: directory not empty'')
           else Inr (fs_delete p fs)))"

text \<open>
  \<^verbatim>\<open>ioutil.WriteFile\<close>: truncates an existing file the user may write (its mode has the
  owner's write bit, octal 0200 = 128, or the user is root) and keeps its mode; creates a new file with
  \<open>perm\<close> in an existing directory.
\<close>

definition WriteFile ::
  "char \<Rightarrow> bool \<Rightarrow> filesystem \<Rightarrow> string \<Rightarrow> bytes \<Rightarrow> nat \<Rightarrow> error + filesystem" where
  "WriteFile sep root fs p data perm =
     (case map_of fs p of
        Some (Directory _) \<Rightarrow> Inl (Error ''open: is a directory'')
      | Some (File _ mode) \<Rightarrow>
          (if root \<or> mode AND 128 \<noteq> 0 then Inr (fs_update p (File data mode) fs)
           else Inl (Error ''open: permission denied''))
      | None \<Rightarrow>
          (if p \<noteq> [] \<and> is_dir sep fs (Dir sep p) then Inr (fs_update p (File data perm) fs)
           else Inl (Error ''open: no such file or directory'')))"

definition ReadFile :: "filesystem \<Rightarrow> string \<Rightarrow> error + bytes" where
  "ReadFile fs p =
     (case map_of fs p of
        Some (File data _) \<Rightarrow> Inr data
      | Some (Directory _) \<Rightarrow> Inl (Error ''read: is a directory'')
      | None \<Rightarrow> Inl (Error ''open: no such file or directory''))"

section \<open>The process, the machine and the standard library\<close>

text \<open>\<^verbatim>\<open>user.User\<close>, as \<^verbatim>\<open>user.Current()\<close> returns it.\<close>

record User =
  Uid :: string
  Username :: string
  FullName :: string

text \<open>\<^verbatim>\<open>tls.Certificate\<close>: the chain of DER certificates and the private key.\<close>

record tls_Certificate =
  Chain :: "bytes list"
  TLSPrivateKey :: PrivateKey

text \<open>
  What the program reads and changes outside its own variables: the environment
  variables (\<^verbatim>\<open>os.Getenv\<close> gives the empty string for an unset one), \<^verbatim>\<open>runtime.GOOS\<close>,
  the current user and the host name (each may fail), the files, the number of values
  drawn so far from \<^verbatim>\<open>rand.Reader\<close>, the clock, the heap of
  \<^verbatim>\<open>tls.Certificate\<close> values (a pointer is an index in it), the lines printed on the
  standard output and the standard error, the programs found in \<^verbatim>\<open>PATH\<close> (name and full
  path), the argument vectors of the commands started so far, and whether the
  \<^verbatim>\<open>sync.Once\<close> of the privilege warning has fired.
\<close>

record world =
  environ :: "(string \<times> string) list"
  GOOS :: string
  current_user :: "User option"
  hostname :: "string option"
  files :: filesystem
  entropy :: nat
  clock :: nat
  tls_heap :: "tls_Certificate list"
  stdout :: "string list"
  stderr :: "string list"
  path_bins :: "(string \<times> string) list"
  executed_cmds :: "string list list"
  privWarning_done :: bool

text \<open>
  The functions of Go's standard library the certificate authority calls. Those that read
  \<^verbatim>\<open>rand.Reader\<close> take the position in the entropy stream.
\<close>

record stdlib =
  rand_Int :: "nat \<Rightarrow> error + int"
  ecdsa_GenerateKey :: "nat \<Rightarrow> error + PrivateKey"
  Public :: "PrivateKey \<Rightarrow> PublicKey"
  MarshalPKIXPublicKey :: "PublicKey \<Rightarrow> error + bytes"
  asn1_Unmarshal :: "bytes \<Rightarrow> error + bytes"
  sha1_Sum :: "bytes \<Rightarrow> bytes"
  AddDate :: "nat \<Rightarrow> int \<Rightarrow> int \<Rightarrow> int \<Rightarrow> nat"
  CreateCertificate :: "nat \<Rightarrow> Certificate \<Rightarrow> Certificate \<Rightarrow> PublicKey \<Rightarrow> PrivateKey option \<Rightarrow> error + bytes"
  ParseCertificate :: "bytes \<Rightarrow> error + Certificate"
  MarshalPKCS8PrivateKey :: "PrivateKey \<Rightarrow> error + bytes"
  pem_EncodeToMemory :: "string \<Rightarrow> bytes \<Rightarrow> bytes"
  X509KeyPair :: "bytes \<Rightarrow> bytes \<Rightarrow> error + tls_Certificate"
  ParseIP :: "string \<Rightarrow> bytes option"
  ParseAddress :: "string \<Rightarrow> error + Address"
  url_Parse :: "string \<Rightarrow> error + URL"

definition Getenv :: "world \<Rightarrow> string \<Rightarrow> string" where
  "Getenv w k = (case map_of (environ w) k of None \<Rightarrow> [] | Some v \<Rightarrow> v)"

definition is_root :: "world \<Rightarrow> bool" where
  "is_root w = (case current_user w of None \<Rightarrow> False | Some u \<Rightarrow> Uid u = ''0'')"

text \<open>\<^verbatim>\<open>tls.LoadX509KeyPair\<close> reads the two files and calls \<^verbatim>\<open>tls.X509KeyPair\<close>.\<close>

definition LoadX509KeyPair ::
  "stdlib \<Rightarrow> filesystem \<Rightarrow> string \<Rightarrow> string \<Rightarrow> error + tls_Certificate" where
  "LoadX509KeyPair L fs certFile keyFile =
     (case ReadFile fs certFile of
        Inl e \<Rightarrow> Inl e
      | Inr certPEMBlock \<Rightarrow>
          (case ReadFile fs keyFile of
             Inl e \<Rightarrow> Inl e
           | Inr keyPEMBlock \<Rightarrow> X509KeyPair L certPEMBlock keyPEMBlock))"

section \<open>The certificate authority (\<^verbatim>\<open>zcert.go\<close>)\<close>

record CARoot =
  Verbose :: bool
  cert :: "Certificate option"
  key :: "PrivateKey option"

definition zeroCARoot :: CARoot where
  "zeroCARoot = \<lparr>Verbose = False, cert = None, key = None\<rparr>"

text \<open>\<^verbatim>\<open>StorePath\<close>: the first case of the switch that applies decides the directory.\<close>

definition StorePath :: "world \<Rightarrow> string \<times> string" where
  "StorePath w =
     (let sep = Separator (GOOS w);
          dir =
            (if Getenv w ''CAROOT'' \<noteq> [] then Some (Getenv w ''CAROOT'')
             else if GOOS w = ''windows'' then Some (Getenv w ''LocalAppData'')
             else if Getenv w ''XDG_DATA_HOME'' \<noteq> [] then Some (Getenv w ''XDG_DATA_HOME'')
             else if GOOS w = ''darwin'' then
               (if Getenv w ''HOME'' = [] then None
                else Some (Join sep [Getenv w ''HOME'', ''Library'', ''Application Support'']))
             else
               (if Getenv w ''HOME'' = [] then None
                else Some (Join sep [Getenv w ''HOME'', ''.local'', ''share''])))
      in case dir of
           None \<Rightarrow> ([], [])
         | Some d \<Rightarrow>
             if d = [] then ([], [])
             else (Join sep [Join sep [d, ''zcert''], ''rootCA.pem''],
                   Join sep [Join sep [d, ''zcert''], ''rootCA-key.pem'']))"

definition pathExists :: "world \<Rightarrow> string \<Rightarrow> bool" where
  "pathExists w path = stat_ok (files w) path"

definition Exists :: "world \<Rightarrow> bool" where
  "Exists w = pathExists w (fst (StorePath w))"

text \<open>
  \<^verbatim>\<open>userAndHostname\<close>: computed once per process (\<^verbatim>\<open>sync.Once\<close>) from the current user
  and the host name, which do not change while the process runs.
\<close>

definition userAndHostname :: "world \<Rightarrow> string" where
  "userAndHostname w =
     (let ret1 = (case current_user w of None \<Rightarrow> [] | Some u \<Rightarrow> Username u @ ''@'');
          ret2 = (case hostname w of None \<Rightarrow> ret1 | Some h \<Rightarrow> ret1 @ h)
      in case current_user w of
           None \<Rightarrow> ret2
         | Some u \<Rightarrow>
             if FullName u \<noteq> [] \<and> FullName u \<noteq> Username u
             then ret2 @ '' ('' @ FullName u @ '')'' else ret2)"

definition randomSerialNumber :: "stdlib \<Rightarrow> world \<Rightarrow> (error + int) \<times> world" where
  "randomSerialNumber L w = (rand_Int L (entropy w), w\<lparr>entropy := Suc (entropy w)\<rparr>)"

definition generateKey :: "stdlib \<Rightarrow> world \<Rightarrow> (error + PrivateKey) \<times> world" where
  "generateKey L w = (ecdsa_GenerateKey L (entropy w), w\<lparr>entropy := Suc (entropy w)\<rparr>)"

text \<open>The template of the root certificate that \<^verbatim>\<open>Create\<close> builds.\<close>

definition rootTemplate :: "stdlib \<Rightarrow> world \<Rightarrow> int \<Rightarrow> bytes \<Rightarrow> Certificate" where
  "rootTemplate L w serial skid =
     zeroCertificate
       \<lparr>SerialNumber := Some serial,
        Subject := \<lparr>Organization = [''zcert development CA''],
                    OrganizationalUnit = [userAndHostname w],
                    CommonName = ''zcert '' @ userAndHostname w\<rparr>,
        SubjectKeyId := skid,
        NotAfter := AddDate L (clock w) 10 0 0,
        NotBefore := clock w,
        KeyUsage := KeyUsageCertSign,
        BasicConstraintsValid := True,
        IsCA := True,
        MaxPathLenZero := True\<rparr>"

text \<open>
  \<^verbatim>\<open>Create\<close>, statement by statement. The result is the error, the receiver (written
  through the pointer only on success) and the world. The modes are 0755 = 493,
  0400 = 256 and 0644 = 420.
\<close>

definition Create :: "stdlib \<Rightarrow> CARoot \<Rightarrow> world \<Rightarrow> error option \<times> CARoot \<times> world" where
  "Create L ca w =
     (let rootCert = fst (StorePath w); rootKey = snd (StorePath w); sep = Separator (GOOS w) in
      if rootCert = [] then
        (Some (Error ''zcert.Create: can't find a location to store the root certificate; set CAROOT''),
         ca, w)
      else if Exists w then
        (Some (Error (''zcert.Create: CA root already exists at '' @ rootCert)), ca, w)
      else
        (case MkdirAll sep (files w) (Dir sep rootCert) 493 of
           Inl e \<Rightarrow> (Some (Wrap ''zcert.Create'' e), ca, w)
         | Inr fs1 \<Rightarrow>
        (case generateKey L (w\<lparr>files := fs1\<rparr>) of
           (Inl e, w2) \<Rightarrow> (Some (Wrap ''zcert.Create: generating private key'' e), ca, w2)
         | (Inr privKey, w2) \<Rightarrow>
        (case MarshalPKIXPublicKey L (Public L privKey) of
           Inl e \<Rightarrow> (Some (Wrap ''zcert.Create: encode public key'' e), ca, w2)
         | Inr spkiASN1 \<Rightarrow>
        (case asn1_Unmarshal L spkiASN1 of
           Inl e \<Rightarrow> (Some (Wrap ''zcert.Create: decode public key'' e), ca, w2)
         | Inr spki \<Rightarrow>
        (case randomSerialNumber L w2 of
           (Inl e, w3) \<Rightarrow> (Some (Wrap ''zcert.Create: generating serial number'' e), ca, w3)
         | (Inr serial, w3) \<Rightarrow>
        (let tpl = rootTemplate L w3 serial (sha1_Sum L spki);
             w4 = w3\<lparr>entropy := Suc (entropy w3)\<rparr> in
         case CreateCertificate L (entropy w3) tpl tpl (Public L privKey) (Some privKey) of
           Inl e \<Rightarrow> (Some (Wrap ''zcert.Create: generate CA certificate'' e), ca, w4)
         | Inr der \<Rightarrow>
        (case MarshalPKCS8PrivateKey L privKey of
           Inl e \<Rightarrow> (Some (Wrap ''zcert.Create: encode CA key'' e), ca, w4)
         | Inr privDER \<Rightarrow>
        (case WriteFile sep (is_root w4) (files w4) rootKey
                (pem_EncodeToMemory L ''PRIVATE KEY'' privDER) 256 of
           Inl e \<Rightarrow> (Some (Wrap ''zcert.Create: save CA key'' e), ca, w4)
         | Inr fs5 \<Rightarrow>
        (case WriteFile sep (is_root w4) fs5 rootCert
                (pem_EncodeToMemory L ''CERTIFICATE'' der) 420 of
           Inl e \<Rightarrow> (Some (Wrap ''zcert.Create: save CA certificate'' e), ca, w4\<lparr>files := fs5\<rparr>)
         | Inr fs6 \<Rightarrow>
             (None, ca\<lparr>cert := Some tpl, key := Some privKey\<rparr>, w4\<lparr>files := fs6\<rparr>)))))))))))"

text \<open>\<^verbatim>\<open>Load\<close>: the error and the receiver.\<close>

definition Load :: "stdlib \<Rightarrow> CARoot \<Rightarrow> world \<Rightarrow> error option \<times> CARoot" where
  "Load L ca w =
     (if \<not> Exists w then (Some (Error ''zcert.Load: CA certificate doesn't exist''), ca)
      else
        (case LoadX509KeyPair L (files w) (fst (StorePath w)) (snd (StorePath w)) of
           Inl e \<Rightarrow> (Some (Wrap ''zcert.Load'' e), ca)
         | Inr c \<Rightarrow>
             (case Chain c of
                [] \<Rightarrow> (Some (Error ''zcert.Load: no certificates in rootCA''), ca)
              | der # _ \<Rightarrow>
                  (case ParseCertificate L der of
                     Inl e \<Rightarrow> (Some (Wrap ''zcert.Load'' e), ca)
                   | Inr pc \<Rightarrow> (None, ca\<lparr>cert := Some pc, key := Some (TLSPrivateKey c)\<rparr>)))))"

text \<open>
  \<^verbatim>\<open>Delete\<close>: three removals in turn, each error returned at once with what was removed
  before it staying removed.
\<close>

definition Delete :: "CARoot \<Rightarrow> world \<Rightarrow> error option \<times> world" where
  "Delete ca w =
     (if \<not> Exists w then (None, w)
      else
        (let rootCert = fst (StorePath w); rootKey = snd (StorePath w); sep = Separator (GOOS w) in
         case Remove sep (files w) rootCert of
           Inl e \<Rightarrow> (Some (Wrap ''zcert.Delete'' e), w)
         | Inr fs1 \<Rightarrow>
             (case Remove sep fs1 rootKey of
                Inl e \<Rightarrow> (Some (Wrap ''zcert.Delete'' e), w\<lparr>files := fs1\<rparr>)
              | Inr fs2 \<Rightarrow>
                  (case Remove sep fs2 (Dir sep rootCert) of
                     Inl e \<Rightarrow> (Some (Wrap ''zcert.Delete'' e), w\<lparr>files := fs2\<rparr>)
                   | Inr fs3 \<Rightarrow> (None, w\<lparr>files := fs3\<rparr>)))))"

text \<open>\<^verbatim>\<open>New\<close>: the authority, \<^verbatim>\<open>created\<close>, the error, and the world.\<close>

definition New :: "stdlib \<Rightarrow> world \<Rightarrow> CARoot \<times> bool \<times> error option \<times> world" where
  "New L w =
     (if \<not> Exists w then
        (case Create L zeroCARoot w of (err, ca, w') \<Rightarrow> (ca, True, err, w'))
      else
        (case Load L zeroCARoot w of (err, ca) \<Rightarrow> (ca, False, err, w)))"

section \<open>Issuing leaf certificates (\<^verbatim>\<open>MakeCert\<close>, \<^verbatim>\<open>MakeTLSCert\<close>, \<^verbatim>\<open>TLSConfig\<close>)\<close>

text \<open>
  An \<^verbatim>\<open>io.Writer\<close>: what was written so far, and the error (if any) that the n-th call of
  \<^verbatim>\<open>Write\<close> returns. A \<^verbatim>\<open>bytes.Buffer\<close> never fails.
\<close>

record Writer =
  buffer :: bytes
  write_errs :: "nat \<Rightarrow> error option"
  writes :: nat

definition Write :: "Writer \<Rightarrow> bytes \<Rightarrow> error option \<times> Writer" where
  "Write out b =
     (case write_errs out (writes out) of
        Some e \<Rightarrow> (Some e, out\<lparr>writes := Suc (writes out)\<rparr>)
      | None \<Rightarrow> (None, out\<lparr>buffer := buffer out @ b, writes := Suc (writes out)\<rparr>))"

definition new_Buffer :: Writer where
  "new_Buffer = \<lparr>buffer = [], write_errs = (\<lambda>n. None), writes = 0\<rparr>"

text \<open>The template of a leaf certificate, before the hosts are added.\<close>

definition leafTemplate :: "stdlib \<Rightarrow> world \<Rightarrow> int \<Rightarrow> Certificate" where
  "leafTemplate L w serial =
     zeroCertificate
       \<lparr>SerialNumber := Some serial,
        Subject := \<lparr>Organization = [''zcert development certificate''],
                    OrganizationalUnit = [userAndHostname w],
                    CommonName = []\<rparr>,
        NotAfter := AddDate L (clock w) 1 0 0,
        NotBefore := clock w,
        KeyUsage := KeyUsageKeyEncipherment OR KeyUsageDigitalSignature,
        BasicConstraintsValid := True\<rparr>"

text \<open>
  The body of the loop over \<^verbatim>\<open>hosts\<close>: the chain of \<^verbatim>\<open>if\<close> / \<^verbatim>\<open>else if\<close> on
  \<^verbatim>\<open>net.ParseIP\<close>, \<^verbatim>\<open>mail.ParseAddress\<close> and \<^verbatim>\<open>url.Parse\<close>.
\<close>

definition addHost :: "stdlib \<Rightarrow> Certificate \<Rightarrow> string \<Rightarrow> Certificate" where
  "addHost L tpl h =
     (case ParseIP L h of
        Some ip \<Rightarrow> tpl\<lparr>IPAddresses := IPAddresses tpl @ [ip]\<rparr>
      | None \<Rightarrow>
          if (case ParseAddress L h of Inr email \<Rightarrow> Address email = h | Inl err \<Rightarrow> False)
          then tpl\<lparr>EmailAddresses := EmailAddresses tpl @ [h]\<rparr>
          else
            (case url_Parse L h of
               Inr uriName \<Rightarrow>
                 if Scheme uriName \<noteq> [] \<and> Host uriName \<noteq> []
                 then tpl\<lparr>URIs := URIs tpl @ [uriName]\<rparr>
                 else tpl\<lparr>DNSNames := DNSNames tpl @ [h]\<rparr>
             | Inl err \<Rightarrow> tpl\<lparr>DNSNames := DNSNames tpl @ [h]\<rparr>))"

definition addHosts :: "stdlib \<Rightarrow> Certificate \<Rightarrow> string list \<Rightarrow> Certificate" where
  "addHosts L tpl hosts = foldl (addHost L) tpl hosts"

text \<open>
  The extended key usages. \<^verbatim>\<open>hosts[0]\<close> on an empty slice panics with an index out of
  range.
\<close>

definition setExtKeyUsage :: "bool \<Rightarrow> string list \<Rightarrow> Certificate \<Rightarrow> Certificate outcome" where
  "setExtKeyUsage clientCert hosts tpl =
     (case
        (if clientCert then
           (case hosts of
              [] \<Rightarrow> Panics ''index out of range [0] with length 0''
            | h # _ \<Rightarrow>
                Returns (tpl\<lparr>ExtKeyUsages := [ExtKeyUsageClientAuth, ExtKeyUsageServerAuth],
                             Subject := (Subject tpl)\<lparr>CommonName := h\<rparr>\<rparr>))
         else if IPAddresses tpl \<noteq> [] \<or> DNSNames tpl \<noteq> [] then
           Returns (tpl\<lparr>ExtKeyUsages := [ExtKeyUsageServerAuth]\<rparr>)
         else Returns tpl)
      of
        Returns tpl1 \<Rightarrow>
          if EmailAddresses tpl1 \<noteq> [] then
            Returns (tpl1\<lparr>ExtKeyUsages :=
                       ExtKeyUsages tpl1 @ [ExtKeyUsageCodeSigning, ExtKeyUsageEmailProtection]\<rparr>)
          else Returns tpl1
      | Panics p \<Rightarrow> Panics p
      | Exits n \<Rightarrow> Exits n)"

text \<open>
  \<^verbatim>\<open>MakeCert\<close>. The receiver is a copy: a \<^verbatim>\<open>Load\<close> made here is not seen by the caller.
  The result is the error, the world and the writer.
\<close>

definition MakeCert ::
  "stdlib \<Rightarrow> CARoot \<Rightarrow> world \<Rightarrow> Writer \<Rightarrow> bool \<Rightarrow> string list
     \<Rightarrow> (error option \<times> world \<times> Writer) outcome" where
  "MakeCert L ca w out clientCert hosts =
     (case (if cert ca = None \<or> key ca = None then Load L ca w else (None, ca)) of
        (Some err, ca1) \<Rightarrow> Returns (Some (Wrap ''zcert.MakeCert'' err), w, out)
      | (None, ca1) \<Rightarrow>
     (case randomSerialNumber L w of
        (Inl e, w1) \<Rightarrow> Returns (Some (Wrap ''zcert.MakeCert: generating serial number'' e), w1, out)
      | (Inr serial, w1) \<Rightarrow>
     (case setExtKeyUsage clientCert hosts (addHosts L (leafTemplate L w1 serial) hosts) of
        Panics p \<Rightarrow> Panics p
      | Exits n \<Rightarrow> Exits n
      | Returns tpl \<Rightarrow>
     (case generateKey L w1 of
        (Inl e, w2) \<Rightarrow> Returns (Some (Wrap ''zcert.MakeCert: generating private key'' e), w2, out)
      | (Inr privKey, w2) \<Rightarrow>
     (case cert ca1 of
        None \<Rightarrow> Panics ''nil pointer dereference''
      | Some parent \<Rightarrow>
     (let w3 = w2\<lparr>entropy := Suc (entropy w2)\<rparr> in
      case CreateCertificate L (entropy w2) tpl parent (Public L privKey) (key ca1) of
        Inl e \<Rightarrow> Returns (Some (Wrap ''zcert.MakeCert: generating certificate'' e), w3, out)
      | Inr der \<Rightarrow>
     (case MarshalPKCS8PrivateKey L privKey of
        Inl e \<Rightarrow> Returns (Some (Wrap ''zcert.MakeCert: failed to encode certificate key'' e), w3, out)
      | Inr privDER \<Rightarrow>
     (case Write out (pem_EncodeToMemory L ''PRIVATE KEY'' privDER) of
        (Some e, out1) \<Rightarrow> Returns (Some (Wrap ''zcert.MakeCert: write private key'' e), w3, out1)
      | (None, out1) \<Rightarrow>
     (case Write out1 (pem_EncodeToMemory L ''CERTIFICATE'' der) of
        (Some e, out2) \<Rightarrow> Returns (Some (Wrap ''zcert.MakeCert: write certificate key'' e), w3, out2)
      | (None, out2) \<Rightarrow> Returns (None, w3, out2))))))))))"

text \<open>
  What a successful \<^verbatim>\<open>MakeCert\<close> has done with a template: \<^verbatim>\<open>x509.CreateCertificate\<close>
  signed it (third draw of the entropy source, after the serial number and the key) for the
  public half of \<^verbatim>\<open>privKey\<close>, and the writer received the PEM block of the key followed by
  the PEM block of that certificate.
\<close>

definition signed_leaf ::
  "stdlib \<Rightarrow> world \<Rightarrow> Writer \<Rightarrow> Writer \<Rightarrow> Certificate \<Rightarrow> Certificate
     \<Rightarrow> PrivateKey option \<Rightarrow> PrivateKey \<Rightarrow> bool" where
  "signed_leaf L w out out' tpl parent signer privKey =
     (case CreateCertificate L (Suc (Suc (entropy w))) tpl parent (Public L privKey) signer of
        Inl e \<Rightarrow> False
      | Inr der \<Rightarrow>
     (case MarshalPKCS8PrivateKey L privKey of
        Inl e \<Rightarrow> False
      | Inr privDER \<Rightarrow>
          buffer out' = buffer out @ pem_EncodeToMemory L ''PRIVATE KEY'' privDER
                          @ pem_EncodeToMemory L ''CERTIFICATE'' der))"

text \<open>
  \<^verbatim>\<open>MakeTLSCert\<close> returns \<^verbatim>\<open>&t\<close> for a local \<^verbatim>\<open>t\<close>: a new cell of the heap, whose
  address is the length of the heap before.
\<close>

definition MakeTLSCert ::
  "stdlib \<Rightarrow> CARoot \<Rightarrow> world \<Rightarrow> bool \<Rightarrow> string list \<Rightarrow> ((error + nat) \<times> world) outcome" where
  "MakeTLSCert L ca w clientCert hosts =
     (case MakeCert L ca w new_Buffer clientCert hosts of
        Panics p \<Rightarrow> Panics p
      | Exits n \<Rightarrow> Exits n
      | Returns (Some err, w1, out) \<Rightarrow> Returns (Inl err, w1)
      | Returns (None, w1, out) \<Rightarrow>
          (case X509KeyPair L (buffer out) (buffer out) of
             Inl e \<Rightarrow> Returns (Inl (Wrap ''zcert.MakeTLSCert'' e), w1)
           | Inr t \<Rightarrow> Returns (Inr (length (tls_heap w1)), w1\<lparr>tls_heap := tls_heap w1 @ [t]\<rparr>)))"

text \<open>
  The closure that \<^verbatim>\<open>TLSConfig\<close> stores in \<^verbatim>\<open>GetCertificate\<close>, with its captured map
  \<^verbatim>\<open>certs\<close> (empty when \<^verbatim>\<open>TLSConfig\<close> returns) as explicit state. An entry is only ever
  added for a name that has none.
\<close>

type_synonym certs = "(string \<times> nat) list"

definition TLSConfig_certs :: certs where
  "TLSConfig_certs = []"

definition GetCertificate ::
  "stdlib \<Rightarrow> CARoot \<Rightarrow> certs \<Rightarrow> world \<Rightarrow> string \<Rightarrow> ((error + nat) \<times> certs \<times> world) outcome" where
  "GetCertificate L ca certs w ServerName =
     (case map_of certs ServerName of
        Some c \<Rightarrow> Returns (Inr c, certs, w)
      | None \<Rightarrow>
          (case MakeTLSCert L ca w False [ServerName] of
             Panics p \<Rightarrow> Panics p
           | Exits n \<Rightarrow> Exits n
           | Returns (Inl err, w1) \<Rightarrow> Returns (Inl err, certs, w1)
           | Returns (Inr c, w1) \<Rightarrow> Returns (Inr c, (ServerName, c) # certs, w1)))"

text \<open>
  The states of the closure in a running server: the map is empty at first, the callback
  is invoked for any name, and between two invocations the rest of the process may change
  the world but frees no certificate.
\<close>

inductive serving :: "stdlib \<Rightarrow> CARoot \<Rightarrow> certs \<Rightarrow> world \<Rightarrow> bool" for L ca where
  serving_init: "serving L ca TLSConfig_certs w"
| serving_call:
    "serving L ca certs w \<Longrightarrow> GetCertificate L ca certs w name = Returns (r, certs', w')
       \<Longrightarrow> serving L ca certs' w'"
| serving_other:
    "serving L ca certs w \<Longrightarrow> length (tls_heap w) \<le> length (tls_heap w') \<Longrightarrow> serving L ca certs w'"

text \<open>
  The invariant of the closure: the stored pointers are pairwise distinct and point into
  the heap.
\<close>

definition certs_ok :: "certs \<Rightarrow> world \<Rightarrow> bool" where
  "certs_ok certs w = (distinct (map snd certs) \<and> (\<forall>e \<in> set certs. snd e < length (tls_heap w)))"

text \<open>
  The classification of one identifier in the words of the specification: an IP literal,
  else an exact-match email address, else a URI with scheme and host, else a DNS name.
\<close>

datatype host_kind = IP_entry | Email_entry | URI_entry | DNS_entry

definition spec_classify :: "stdlib \<Rightarrow> string \<Rightarrow> host_kind" where
  "spec_classify L h =
     (if ParseIP L h \<noteq> None then IP_entry
      else if (case ParseAddress L h of Inr a \<Rightarrow> Address a = h | Inl e \<Rightarrow> False) then Email_entry
      else if (case url_Parse L h of Inr u \<Rightarrow> Scheme u \<noteq> [] \<and> Host u \<noteq> [] | Inl e \<Rightarrow> False)
      then URI_entry
      else DNS_entry)"

text \<open>The parsed URI of an identifier classified as a URI.\<close>

definition uri_of :: "stdlib \<Rightarrow> string \<Rightarrow> URL option" where
  "uri_of L h =
     (if spec_classify L h = URI_entry
      then (case url_Parse L h of Inr u \<Rightarrow> Some u | Inl e \<Rightarrow> None) else None)"

section \<open>Finding the trust stores and fanning out (\<^verbatim>\<open>truststore.Find\<close>, \<^verbatim>\<open>Install\<close>, \<^verbatim>\<open>Uninstall\<close>)\<close>

text \<open>The five implementations of the \<^verbatim>\<open>Store\<close> interface.\<close>

datatype Store = NSS | Java | Unix | Darwin | Windows

definition Store_Name :: "Store \<Rightarrow> string" where
  "Store_Name s =
     (case s of NSS \<Rightarrow> ''NSS'' | Java \<Rightarrow> ''Java'' | Unix \<Rightarrow> ''Unix'' | Darwin \<Rightarrow> ''Darwin''
      | Windows \<Rightarrow> ''Windows'')"

definition nssDBs :: "world \<Rightarrow> string list" where
  "nssDBs w =
     [Join (Separator (GOOS w)) [Getenv w ''HOME'', ''.pki/nssdb''],
      Join (Separator (GOOS w)) [Getenv w ''HOME'', ''snap/chromium/current/.pki/nssdb''],
      ''/etc/pki/nssdb'']"

definition firefoxPaths :: "string list" where
  "firefoxPaths =
     [''/usr/bin/firefox'', ''/usr/bin/firefox-nightly'', ''/usr/bin/firefox-developer-edition'',
      ''/Applications/Firefox.app'', ''/Applications/FirefoxDeveloperEdition.app'',
      ''/Applications/Firefox Developer Edition.app'', ''/Applications/Firefox Nightly.app'',
      [CHR ''C'', CHR '':'', CHR 0x5C] @ ''Program Files'' @ [CHR 0x5C] @ ''Mozilla Firefox'']"

definition keytoolPath :: "world \<Rightarrow> string" where
  "keytoolPath w =
     Join (Separator (GOOS w))
       [Getenv w ''JAVA_HOME'',
        Join (Separator (GOOS w)) [''bin'', ''keytool'']
          @ (if GOOS w = ''windows'' then ''.exe'' else [])]"

text \<open>The targets for which the real \<^verbatim>\<open>Unix\<close> store is compiled (its build constraint).\<close>

definition unix_targets :: "string list" where
  "unix_targets = [''aix'', ''dragonfly'', ''freebsd'', ''linux'', ''netbsd'', ''openbsd'', ''solaris'']"

text \<open>
  \<^verbatim>\<open>OnSystem\<close> of each store. On the other targets the stub of \<^verbatim>\<open>Unix\<close>,
  \<^verbatim>\<open>Darwin\<close> or \<^verbatim>\<open>Windows\<close> is compiled, whose \<^verbatim>\<open>OnSystem\<close> is false.
  \<^verbatim>\<open>hasKeytool\<close> is computed when the package is initialised.
\<close>

definition OnSystem :: "world \<Rightarrow> Store \<Rightarrow> bool" where
  "OnSystem w s =
     (case s of
        NSS \<Rightarrow> list_ex (pathExists w) (nssDBs w @ firefoxPaths)
      | Java \<Rightarrow> pathExists w (keytoolPath w)
      | Unix \<Rightarrow> GOOS w \<in> set unix_targets
      | Darwin \<Rightarrow> GOOS w = ''darwin''
      | Windows \<Rightarrow> GOOS w = ''windows'')"

text \<open>
  \<^verbatim>\<open>Find\<close>: \<^verbatim>\<open>storeEnabled\<close> is always nil, so a store is kept when it is on the
  system. (\<^verbatim>\<open>Verbose\<close> sets a flag that nothing reads.)
\<close>

definition Find :: "world \<Rightarrow> Store list" where
  "Find w = filter (OnSystem w) [NSS, Java, Unix, Darwin, Windows]"

text \<open>
  The methods \<^verbatim>\<open>Install\<close> and \<^verbatim>\<open>Uninstall\<close> of the stores, as the fan-out sees them:
  called with the path of the root certificate and the certificate (a pointer), each
  returns an error or nil and changes the state \<open>'m\<close> of the machine's trust stores.
\<close>

record 'm backends =
  store_Install :: "Store \<Rightarrow> string \<Rightarrow> Certificate option \<Rightarrow> 'm \<Rightarrow> error option \<times> 'm"
  store_Uninstall :: "Store \<Rightarrow> string \<Rightarrow> Certificate option \<Rightarrow> 'm \<Rightarrow> error option \<times> 'm"

text \<open>
  The loop \<^verbatim>\<open>for _, s := range stores\<close> of both functions: \<open>f\<close> is the method
  called, \<open>before\<close> and \<open>after\<close> are the lines printed around the call.
\<close>

fun storesLoop ::
  "(Store \<Rightarrow> 'm \<Rightarrow> error option \<times> 'm) \<Rightarrow> (Store \<Rightarrow> string list) \<Rightarrow> string list
     \<Rightarrow> Store list \<Rightarrow> error Group \<Rightarrow> string list \<Rightarrow> 'm \<Rightarrow> error Group \<times> string list \<times> 'm" where
  "storesLoop f before after [] grp out m = (grp, out, m)"
| "storesLoop f before after (s # stores) grp out m =
     (case f s m of
        (err, m') \<Rightarrow>
          storesLoop f before after stores (snd (Append grp err)) (out @ before s @ after) m')"

definition Install ::
  "stdlib \<Rightarrow> 'm backends \<Rightarrow> CARoot \<Rightarrow> world \<Rightarrow> 'm \<Rightarrow> error option \<times> world \<times> 'm" where
  "Install L B ca w m =
     (case (if cert ca = None then Load L ca w else (None, ca)) of
        (Some err, ca1) \<Rightarrow> (Some err, w, m)
      | (None, ca1) \<Rightarrow>
          (case Find w of
             [] \<Rightarrow> (Some (Error ''no compatible truststores found''), w, m)
           | s # ss \<Rightarrow>
               (case storesLoop (\<lambda>s. store_Install B s (fst (StorePath w)) (cert ca1))
                       (\<lambda>s. [''Installing for '' @ Store_Name s @ ''...'']) [''  done'']
                       (s # ss) (NewGroup 0) [] m of
                  (grp, out, m') \<Rightarrow> (ErrorOrNil grp, w\<lparr>stdout := stdout w @ out\<rparr>, m'))))"

definition Uninstall ::
  "stdlib \<Rightarrow> 'm backends \<Rightarrow> CARoot \<Rightarrow> world \<Rightarrow> 'm \<Rightarrow> error option \<times> world \<times> 'm" where
  "Uninstall L B ca w m =
     (case (if cert ca = None then Load L ca w else (None, ca)) of
        (Some err, ca1) \<Rightarrow> (Some err, w, m)
      | (None, ca1) \<Rightarrow>
          (case Find w of
             [] \<Rightarrow> (Some (Error ''no compatible truststores found''), w, m)
           | s # ss \<Rightarrow>
               (case storesLoop (\<lambda>s. store_Uninstall B s (fst (StorePath w)) (cert ca1))
                       (\<lambda>s. [''Uninstalling for '' @ Store_Name s]) []
                       (s # ss) (NewGroup 0) [] m of
                  (grp, out, m') \<Rightarrow> (ErrorOrNil grp, w\<lparr>stdout := stdout w @ out\<rparr>, m'))))"

text \<open>
  What the backends return when each is invoked once, in the order of the list, on the
  state the one before it left: the store with its result, and the state at the end.
\<close>

fun results :: "(Store \<Rightarrow> 'm \<Rightarrow> error option \<times> 'm) \<Rightarrow> Store list \<Rightarrow> 'm \<Rightarrow> (Store \<times> error option) list" where
  "results f [] m = []"
| "results f (s # stores) m = (s, fst (f s m)) # results f stores (snd (f s m))"

fun final_state :: "(Store \<Rightarrow> 'm \<Rightarrow> error option \<times> 'm) \<Rightarrow> Store list \<Rightarrow> 'm \<Rightarrow> 'm" where
  "final_state f [] m = m"
| "final_state f (s # stores) m = final_state f stores (snd (f s m))"

section \<open>Running external tools (\<^verbatim>\<open>truststore/truststore.go\<close>, \<^verbatim>\<open>truststore/nss.go\<close>)\<close>

text \<open>
  \<^verbatim>\<open>exec.Cmd\<close>: the path of the program, the argument vector, and the error of the
  look-up of the program (a command with such an error is never started).
\<close>

record Cmd =
  Path :: string
  Args :: "string list"
  Env :: "string list"
  Stdin :: bytes
  LookPathErr :: "error option"

text \<open>
  What an external program does when it is started as the n-th command of this process:
  its combined output, its exit error, and the files it leaves.
\<close>

type_synonym runner = "nat \<Rightarrow> Cmd \<Rightarrow> filesystem \<Rightarrow> bytes \<times> error option \<times> filesystem"

definition LookPath :: "world \<Rightarrow> string \<Rightarrow> error + string" where
  "LookPath w name =
     (case map_of (path_bins w) name of
        Some p \<Rightarrow> Inr p
      | None \<Rightarrow> Inl (Error ''exec: executable file not found in $PATH''))"

definition binaryExists :: "world \<Rightarrow> string \<Rightarrow> bool" where
  "binaryExists w name = (case LookPath w name of Inr p \<Rightarrow> True | Inl e \<Rightarrow> False)"

text \<open>
  \<^verbatim>\<open>exec.Command\<close>: a name without a separator is looked up in \<^verbatim>\<open>PATH\<close>; the
  argument vector starts with the name as given.
\<close>

definition Command :: "world \<Rightarrow> string \<Rightarrow> string list \<Rightarrow> Cmd" where
  "Command w name arg =
     (if Separator (GOOS w) \<in> set name \<or> name = []
      then \<lparr>Path = name, Args = name # arg, Env = [], Stdin = [], LookPathErr = None\<rparr>
      else
        (case LookPath w name of
           Inr lp \<Rightarrow> \<lparr>Path = lp, Args = name # arg, Env = [], Stdin = [], LookPathErr = None\<rparr>
         | Inl e \<Rightarrow> \<lparr>Path = name, Args = name # arg, Env = [], Stdin = [], LookPathErr = Some e\<rparr>))"

definition CombinedOutput :: "runner \<Rightarrow> Cmd \<Rightarrow> world \<Rightarrow> (bytes \<times> error option) \<times> world" where
  "CombinedOutput R cmd w =
     (case LookPathErr cmd of
        Some e \<Rightarrow> (([], Some e), w)
      | None \<Rightarrow>
          (case R (length (executed_cmds w)) cmd (files w) of
             (out, err, fs') \<Rightarrow> ((out, err), w\<lparr>files := fs', executed_cmds := executed_cmds w @ [Args cmd]\<rparr>)))"

definition priv_warning :: string where
  "priv_warning = ''zcert: sudo or doas not available and not running as root; the (un)install might fail''"

text \<open>
  \<^verbatim>\<open>privCmd(cmd...)\<close>, with \<^verbatim>\<open>cmd[0]\<close> and \<^verbatim>\<open>cmd[1:]\<close> as two arguments (every caller
  passes at least the program). \<^verbatim>\<open>privWarning\<close> is a \<^verbatim>\<open>sync.Once\<close>: the flag
  \<open>privWarning_done\<close> of the process.
\<close>

definition privCmd :: "world \<Rightarrow> string \<Rightarrow> string list \<Rightarrow> Cmd \<times> world" where
  "privCmd w name args =
     (if is_root w then (Command w name args, w)
      else if binaryExists w ''sudo'' then
        (Command w ''sudo'' ([''--prompt=Sudo password:'', ''--''] @ name # args), w)
      else if binaryExists w ''doas'' then
        (Command w ''doas'' ([''--''] @ name # args), w)
      else
        (Command w name args,
         if privWarning_done w then w
         else w\<lparr>privWarning_done := True, stderr := stderr w @ [priv_warning]\<rparr>))"

text \<open>\<^verbatim>\<open>bytes.Contains\<close>.\<close>

fun Contains :: "bytes \<Rightarrow> bytes \<Rightarrow> bool" where
  "Contains [] sub = (sub = [])"
| "Contains (x # xs) sub = (take (length sub) (x # xs) = sub \<or> Contains xs sub)"

text \<open>
  \<^verbatim>\<open>NSS.execCertutil\<close>. \<^verbatim>\<open>cmd.Args[1:]\<close> panics on an empty argument vector (a command
  made by \<^verbatim>\<open>exec.Command\<close> has at least the name).
\<close>

definition execCertutil :: "runner \<Rightarrow> Cmd \<Rightarrow> world \<Rightarrow> ((bytes \<times> error option) \<times> world) outcome" where
  "execCertutil R cmd w =
     (case CombinedOutput R cmd w of
        ((out, err), w1) \<Rightarrow>
          if err \<noteq> None \<and> Contains out ''SEC_ERROR_READ_ONLY'' \<and> GOOS w1 \<noteq> ''windows'' then
            (case Args cmd of
               [] \<Rightarrow> Panics ''slice bounds out of range [1:0]''
             | a # origArgs \<Rightarrow>
                 (case privCmd w1 (Path cmd) [] of
                    (cmd2, w2) \<Rightarrow> Returns (CombinedOutput R (cmd2\<lparr>Args := Args cmd2 @ origArgs\<rparr>) w2)))
          else Returns ((out, err), w1))"

text \<open>
  \<^verbatim>\<open>Java.execKeytool\<close>: the same retry on its own marker, with \<^verbatim>\<open>JAVA_HOME\<close> in the
  environment of the retried command, and the final error wrapped.
\<close>

definition execKeytool :: "runner \<Rightarrow> Cmd \<Rightarrow> world \<Rightarrow> ((bytes \<times> error option) \<times> world) outcome" where
  "execKeytool R cmd w =
     (case CombinedOutput R cmd w of
        ((out, err), w1) \<Rightarrow>
          (case
             (if err \<noteq> None \<and> Contains out ''java.io.FileNotFoundException''
                 \<and> GOOS w1 \<noteq> ''windows'' then
                (case Args cmd of
                   [] \<Rightarrow> Panics ''slice bounds out of range [1:0]''
                 | a # origArgs \<Rightarrow>
                     (case privCmd w1 (Path cmd) [] of
                        (cmd2, w2) \<Rightarrow>
                          Returns (CombinedOutput R
                                     (cmd2\<lparr>Args := Args cmd2 @ origArgs,
                                           Env := [''JAVA_HOME='' @ Getenv w1 ''JAVA_HOME'']\<rparr>) w2)))
              else Returns ((out, err), w1))
           of
             Returns ((out', Some err'), w') \<Rightarrow> Returns ((out', Some (Wrap ''truststore.Java'' err')), w')
           | Returns ((out', None), w') \<Rightarrow> Returns ((out', None), w')
           | Panics p \<Rightarrow> Panics p
           | Exits n \<Rightarrow> Exits n))"

text \<open>
  The states of a process that runs tools: at its start nothing was written to the
  standard error and the warning was not given; then it builds privileged commands and
  runs commands, in any order.
\<close>

inductive running :: "runner \<Rightarrow> world \<Rightarrow> bool" for R where
  running_start: "\<not> privWarning_done w \<Longrightarrow> stderr w = [] \<Longrightarrow> running R w"
| running_privCmd: "running R w \<Longrightarrow> privCmd w name args = (c, w') \<Longrightarrow> running R w'"
| running_output: "running R w \<Longrightarrow> CombinedOutput R c w = (r, w') \<Longrightarrow> running R w'"
| running_certutil: "running R w \<Longrightarrow> execCertutil R c w = Returns (r, w') \<Longrightarrow> running R w'"

section \<open>The macOS keychain (\<^verbatim>\<open>truststore/ts_darwin.go\<close>)\<close>

text \<open>
  A decoded property list, as \<^verbatim>\<open>plist.Unmarshal\<close> fills an \<^verbatim>\<open>interface{}\<close>: an
  unsigned integer is a \<^verbatim>\<open>uint64\<close>, a data element a \<^verbatim>\<open>[]byte\<close>, a dictionary a
  \<^verbatim>\<open>map[string]interface{}\<close> (here with its entries in the order the loop visits them).
\<close>

datatype plist =
  PUint nat | PInt int | PBool bool | PString string | PData bytes
| PArray "plist list" | PDict "(string \<times> plist) list"

text \<open>
  The library functions of the backend: \<^verbatim>\<open>plist.Unmarshal\<close> into the map
  \<^verbatim>\<open>plistRoot\<close> (the error, and the map as far as it was filled; a nil map reads as
  empty), \<^verbatim>\<open>plist.MarshalIndent\<close>, \<^verbatim>\<open>asn1.Marshal\<close> of the subject's RDN sequence, and
  the name that \<^verbatim>\<open>ioutil.TempFile\<close> picks as the n-th command is about to start.
\<close>

record darwin_lib =
  plist_Unmarshal :: "bytes \<Rightarrow> error option \<times> (string \<times> plist) list"
  plist_MarshalIndent :: "(string \<times> plist) list \<Rightarrow> error + bytes"
  asn1_Marshal :: "pkix_Name \<Rightarrow> bytes"
  TempFile :: "nat \<Rightarrow> error + string"

text \<open>
  The package variable \<^verbatim>\<open>trustSettings\<close>, decoded from \<^verbatim>\<open>trustSettingsData\<close>; the two
  policies are the bytes of the base64 texts \<^verbatim>\<open>KoZIhvdjZAED\<close> and \<^verbatim>\<open>KoZIhvdjZAEC\<close>.
\<close>

definition trustSettings :: plist where
  "trustSettings =
     PArray
       [PDict [(''kSecTrustSettingsPolicy'',
                PData [CHR 0x2A, CHR 0x86, CHR 0x48, CHR 0x86, CHR 0xF7, CHR 0x63, CHR 0x64, CHR 0x01, CHR 0x03]),
               (''kSecTrustSettingsPolicyName'', PString ''sslServer''),
               (''kSecTrustSettingsResult'', PUint 1)],
        PDict [(''kSecTrustSettingsPolicy'',
                PData [CHR 0x2A, CHR 0x86, CHR 0x48, CHR 0x86, CHR 0xF7, CHR 0x63, CHR 0x64, CHR 0x01, CHR 0x02]),
               (''kSecTrustSettingsPolicyName'', PString ''basicX509''),
               (''kSecTrustSettingsResult'', PUint 1)]]"

text \<open>
  The loop over \<^verbatim>\<open>trustList\<close>: the first entry whose \<^verbatim>\<open>issuerName\<close> is the root's
  subject gets the trust settings. The three type assertions have no \<^verbatim>\<open>ok\<close> result, so
  each panics on a value of another type.
\<close>

fun patchTrustList :: "bytes \<Rightarrow> (string \<times> plist) list \<Rightarrow> (string \<times> plist) list outcome" where
  "patchTrustList rootSubjectASN1 [] = Returns []"
| "patchTrustList rootSubjectASN1 ((k, v) # rest) =
     (case v of
        PDict entry \<Rightarrow>
          (case map_of entry ''issuerName'' of
             None \<Rightarrow>
               (case patchTrustList rootSubjectASN1 rest of
                  Returns rest' \<Rightarrow> Returns ((k, v) # rest')
                | Panics p \<Rightarrow> Panics p
                | Exits n \<Rightarrow> Exits n)
           | Some (PData issuerName) \<Rightarrow>
               if issuerName \<noteq> rootSubjectASN1 then
                 (case patchTrustList rootSubjectASN1 rest of
                    Returns rest' \<Rightarrow> Returns ((k, v) # rest')
                  | Panics p \<Rightarrow> Panics p
                  | Exits n \<Rightarrow> Exits n)
               else
                 Returns ((k, PDict ((''trustSettings'', trustSettings)
                                      # filter (\<lambda>e. fst e \<noteq> ''trustSettings'') entry)) # rest)
           | Some other \<Rightarrow> Panics ''interface conversion: interface {} is not []uint8'')
      | other \<Rightarrow> Panics ''interface conversion: interface {} is not map[string]interface {}'')"

text \<open>The deferred \<^verbatim>\<open>os.Remove(plistFile.Name())\<close>: it runs at every return, its error is dropped.\<close>

definition remove_deferred :: "string \<Rightarrow> world \<Rightarrow> world" where
  "remove_deferred name w =
     (case Remove (Separator (GOOS w)) (files w) name of Inl e \<Rightarrow> w | Inr fs \<Rightarrow> w\<lparr>files := fs\<rparr>)"

text \<open>
  The part of \<^verbatim>\<open>Darwin.Install\<close> after the export of the trust settings was read:
  \<^verbatim>\<open>log.Fatalln\<close> ends the process with status 1 and runs no deferred call.
\<close>

definition patchTrustSettings ::
  "darwin_lib \<Rightarrow> bytes \<Rightarrow> Certificate option \<Rightarrow> (error + bytes) outcome" where
  "patchTrustSettings D plistData caCert =
     (let plistRoot = snd (plist_Unmarshal D plistData) in
      case caCert of
        None \<Rightarrow> Panics ''nil pointer dereference''
      | Some c \<Rightarrow>
          (case map_of plistRoot ''trustVersion'' of
             Some (PUint trustVersion) \<Rightarrow>
               if trustVersion \<noteq> 1 then Exits 1
               else
                 (case map_of plistRoot ''trustList'' of
                    Some (PDict trustList) \<Rightarrow>
                      (case patchTrustList (asn1_Marshal D (Subject c)) trustList of
                         Returns trustList' \<Rightarrow>
                           Returns (plist_MarshalIndent D
                                      (map (\<lambda>e. if fst e = ''trustList'' then (fst e, PDict trustList') else e)
                                         plistRoot))
                       | Panics p \<Rightarrow> Panics p
                       | Exits n \<Rightarrow> Exits n)
                  | other \<Rightarrow> Panics ''interface conversion: interface {} is not map[string]interface {}'')
           | other \<Rightarrow> Panics ''interface conversion: interface {} is not uint64''))"

text \<open>\<^verbatim>\<open>Darwin.Install\<close> (mode 0600 = 384).\<close>

definition Darwin_Install ::
  "runner \<Rightarrow> darwin_lib \<Rightarrow> world \<Rightarrow> string \<Rightarrow> Certificate option \<Rightarrow> (error option \<times> world) outcome" where
  "Darwin_Install R D w rootCert caCert =
     (case privCmd w ''security''
             [''add-trusted-cert'', ''-d'', ''-k'', ''/Library/Keychains/System.keychain'', rootCert] of
        (cmd1, w1) \<Rightarrow>
     (case CombinedOutput R cmd1 w1 of
        ((out1, Some err), w2) \<Rightarrow> Returns (Some err, w2)
      | ((out1, None), w2) \<Rightarrow>
     (case TempFile D (length (executed_cmds w2)) of
        Inl err \<Rightarrow> Returns (Some err, w2)
      | Inr name \<Rightarrow>
     (case privCmd (w2\<lparr>files := fs_update name (File [] 384) (files w2)\<rparr>) ''security''
             [''trust-settings-export'', ''-d'', name] of
        (cmd2, w3) \<Rightarrow>
     (case CombinedOutput R cmd2 w3 of
        ((out2, Some err), w4) \<Rightarrow> Returns (Some err, remove_deferred name w4)
      | ((out2, None), w4) \<Rightarrow>
     (case ReadFile (files w4) name of
        Inl err \<Rightarrow> Returns (Some (Wrap ''read trust settings'' err), remove_deferred name w4)
      | Inr plistData \<Rightarrow>
     (case patchTrustSettings D plistData caCert of
        Panics p \<Rightarrow> Panics p
      | Exits n \<Rightarrow> Exits n
      | Returns (Inl err) \<Rightarrow> Returns (Some err, remove_deferred name w4)
      | Returns (Inr plistData') \<Rightarrow>
     (case WriteFile (Separator (GOOS w4)) (is_root w4) (files w4) name plistData' 384 of
        Inl err \<Rightarrow> Returns (Some err, remove_deferred name w4)
      | Inr fs5 \<Rightarrow>
     (case privCmd (w4\<lparr>files := fs5\<rparr>) ''security'' [''trust-settings-import'', ''-d'', name] of
        (cmd3, w6) \<Rightarrow>
     (case CombinedOutput R cmd3 w6 of
        ((out3, Some err), w7) \<Rightarrow> Returns (Some err, remove_deferred name w7)
      | ((out3, None), w7) \<Rightarrow> Returns (None, remove_deferred name w7)))))))))))"

section \<open>What the program relies on in the standard library\<close>

text \<open>
  \<^verbatim>\<open>x509.ParseCertificate\<close> reads back what \<^verbatim>\<open>x509.CreateCertificate\<close> wrote for a
  self-signed template \<open>tpl\<close> and the key \<open>priv\<close>: the serial number, the subject and
  the public key.
\<close>

definition x509_roundtrip :: "stdlib \<Rightarrow> nat \<Rightarrow> Certificate \<Rightarrow> PrivateKey \<Rightarrow> bool" where
  "x509_roundtrip L n tpl priv =
     (\<forall>der. CreateCertificate L n tpl tpl (Public L priv) (Some priv) = Inr der \<longrightarrow>
        (\<exists>c. ParseCertificate L der = Inr c \<and> SerialNumber c = SerialNumber tpl
             \<and> Subject c = Subject tpl \<and> CertPublicKey c = Some (Public L priv)))"

text \<open>
  \<^verbatim>\<open>tls.X509KeyPair\<close> accepts the PEM block of that certificate together with the PEM
  block of the PKCS#8 encoding of its key, and returns the certificate's bytes and the key.
\<close>

definition keypair_roundtrip :: "stdlib \<Rightarrow> nat \<Rightarrow> Certificate \<Rightarrow> PrivateKey \<Rightarrow> bool" where
  "keypair_roundtrip L n tpl priv =
     (\<forall>der privDER.
        CreateCertificate L n tpl tpl (Public L priv) (Some priv) = Inr der \<longrightarrow>
        MarshalPKCS8PrivateKey L priv = Inr privDER \<longrightarrow>
        X509KeyPair L (pem_EncodeToMemory L ''CERTIFICATE'' der)
          (pem_EncodeToMemory L ''PRIVATE KEY'' privDER) = Inr \<lparr>Chain = [der], TLSPrivateKey = priv\<rparr>)"

section \<open>A sample machine\<close>

text \<open>
  One concrete standard library and one concrete machine, on which the theorems below are
  run. The sample library encodes a certificate as \<^verbatim>\<open>der\<close> followed by its serial number
  in unary, and a key as \<^verbatim>\<open>key\<close> followed by its number in unary; a PEM block is the
  block type, a colon and the bytes; a key pair is read from two such blocks, or from one
  buffer that holds the key block followed by the certificate block.
\<close>

definition sample_user :: User where
  "sample_user = \<lparr>Uid = ''1000'', Username = ''dev'', FullName = ''Dev''\<rparr>"

definition sample_subject :: pkix_Name where
  "sample_subject =
     \<lparr>Organization = [''zcert development CA''],
      OrganizationalUnit = [''dev@box (Dev)''],
      CommonName = ''zcert dev@box (Dev)''\<rparr>"

definition sample_stdlib :: stdlib where
  "sample_stdlib =
     \<lparr>rand_Int = (\<lambda>n. Inr (int n)),
      ecdsa_GenerateKey = (\<lambda>n. Inr (PrivateKey n)),
      Public = (\<lambda>k. case k of PrivateKey d \<Rightarrow> PublicKey d),
      MarshalPKIXPublicKey = (\<lambda>k. case k of PublicKey d \<Rightarrow> Inr (''spki'' @ replicate d CHR ''#'')),
      asn1_Unmarshal = (\<lambda>b. Inr (drop 4 b)),
      sha1_Sum = (\<lambda>b. ''sha1'' @ b),
      AddDate = (\<lambda>t y m d. t + 365 * nat y + 30 * nat m + nat d),
      CreateCertificate =
        (\<lambda>n tpl parent pub priv.
           case SerialNumber tpl of
             None \<Rightarrow> Inl (Error ''x509: no SerialNumber given'')
           | Some s \<Rightarrow> Inr (''der'' @ replicate (nat s) CHR ''#'')),
      ParseCertificate =
        (\<lambda>b. if take 3 b = ''der'' then
               Inr (zeroCertificate
                      \<lparr>SerialNumber := Some (int (length b - 3)),
                       Subject := sample_subject,
                       CertPublicKey := Some (PublicKey 0)\<rparr>)
             else Inl (Error ''x509: malformed certificate'')),
      MarshalPKCS8PrivateKey = (\<lambda>k. case k of PrivateKey d \<Rightarrow> Inr (''key'' @ replicate d CHR ''#'')),
      pem_EncodeToMemory = (\<lambda>ty b. ty @ '':'' @ b),
      X509KeyPair =
        (\<lambda>c k. if take 12 c = ''CERTIFICATE:'' \<and> take 12 k = ''PRIVATE KEY:'' then
                 Inr \<lparr>Chain = [drop 12 c], TLSPrivateKey = PrivateKey (length k - 15)\<rparr>
               else if take 12 c = ''PRIVATE KEY:'' \<and> k = c then
                 Inr \<lparr>Chain = [dropWhile (\<lambda>x. x \<noteq> CHR ''d'') c],
                      TLSPrivateKey = PrivateKey (length (takeWhile (\<lambda>x. x = CHR ''#'') (drop 15 k)))\<rparr>
               else Inl (Error ''tls: failed to find PEM block'')),
      ParseIP = (\<lambda>h. if h = ''10.0.0.1'' then Some [CHR 0x0A, CHR 0x00, CHR 0x00, CHR 0x01] else None),
      ParseAddress =
        (\<lambda>h. if h = ''user@example.com'' then Inr \<lparr>Name = [], Address = h\<rparr>
             else Inl (Error ''mail: missing '@' or angle-addr'')),
      url_Parse =
        (\<lambda>h. if h = ''https://example.com/path''
             then Inr \<lparr>Scheme = ''https'', Host = ''example.com'', Rest = ''/path''\<rparr>
             else Inr \<lparr>Scheme = [], Host = [], Rest = h\<rparr>)\<rparr>"

text \<open>A Linux machine with \<^verbatim>\<open>CAROOT=/ca\<close>, an empty directory.\<close>

definition sample_world :: world where
  "sample_world =
     \<lparr>environ = [(''CAROOT'', ''/ca'')], GOOS = ''linux'',
      current_user = Some sample_user, hostname = Some ''box'',
      files = [(''/ca'', Directory 493)],
      entropy = 0, clock = 100, tls_heap = [], stdout = [], stderr = [],
      path_bins = [(''certutil'', ''/usr/bin/certutil'')], executed_cmds = [],
      privWarning_done = False\<rparr>"

text \<open>The same machine with only the key file of an authority left.\<close>

definition orphan_key_world :: world where
  "orphan_key_world =
     sample_world
       \<lparr>files := [(''/ca/zcert/rootCA-key.pem'', File ''PRIVATE KEY:key'' 256),
                  (''/ca/zcert'', Directory 493), (''/ca'', Directory 493)]\<rparr>"

text \<open>What \<^verbatim>\<open>Create\<close> makes of the sample machine: the authority and the files.\<close>

definition sample_root :: Certificate where
  "sample_root =
     zeroCertificate
       \<lparr>SerialNumber := Some 1, Subject := sample_subject, SubjectKeyId := ''sha1'',
        NotAfter := 3750, NotBefore := 100, KeyUsage := 32, BasicConstraintsValid := True,
        IsCA := True, MaxPathLenZero := True\<rparr>"

definition sample_ca :: CARoot where
  "sample_ca = \<lparr>Verbose = False, cert = Some sample_root, key = Some (PrivateKey 0)\<rparr>"

definition created_world :: world where
  "created_world =
     sample_world
       \<lparr>files := [(''/ca/zcert/rootCA.pem'', File ''CERTIFICATE:der#'' 420),
                  (''/ca/zcert/rootCA-key.pem'', File ''PRIVATE KEY:key'' 256),
                  (''/ca/zcert'', Directory 493), (''/ca'', Directory 493)],
        entropy := 3\<rparr>"

text \<open>What \<^verbatim>\<open>Load\<close> reads back from the files of the created machine.\<close>

definition loaded_root :: Certificate where
  "loaded_root =
     zeroCertificate
       \<lparr>SerialNumber := Some 1, Subject := sample_subject, CertPublicKey := Some (PublicKey 0)\<rparr>"

definition loaded_ca :: CARoot where
  "loaded_ca = \<lparr>Verbose = False, cert = Some loaded_root, key = Some (PrivateKey 0)\<rparr>"

text \<open>The created machine after \<^verbatim>\<open>Delete\<close>.\<close>

definition deleted_world :: world where
  "deleted_world = sample_world\<lparr>entropy := 3\<rparr>"

text \<open>
  The created machine with the key file missing, and with one more file beside the two of
  the authority.
\<close>

definition keyless_world :: world where
  "keyless_world =
     created_world
       \<lparr>files := [(''/ca/zcert/rootCA.pem'', File ''CERTIFICATE:der#'' 420),
                  (''/ca/zcert'', Directory 493), (''/ca'', Directory 493)]\<rparr>"

definition cluttered_world :: world where
  "cluttered_world =
     created_world
       \<lparr>files := [(''/ca/zcert/notes.txt'', File ''notes'' 420),
                  (''/ca/zcert/rootCA.pem'', File ''CERTIFICATE:der#'' 420),
                  (''/ca/zcert/rootCA-key.pem'', File ''PRIVATE KEY:key'' 256),
                  (''/ca/zcert'', Directory 493), (''/ca'', Directory 493)]\<rparr>"

text \<open>The sample library with an entropy source that gives the same number at every draw.\<close>

definition repeating_stdlib :: stdlib where
  "repeating_stdlib = sample_stdlib\<lparr>rand_Int := (\<lambda>n. Inr 1)\<rparr>"

text \<open>Identifiers of every kind, in mixed order.\<close>

definition sample_hosts :: "string list" where
  "sample_hosts =
     [''example.com'', ''10.0.0.1'', ''user@example.com'', ''*.example.com'',
      ''https://example.com/path'']"

text \<open>
  The template that \<^verbatim>\<open>MakeCert\<close> signs for these identifiers on the created machine, and
  the buffer it leaves.
\<close>

definition sample_leaf :: Certificate where
  "sample_leaf =
     zeroCertificate
       \<lparr>SerialNumber := Some 3,
        Subject := \<lparr>Organization = [''zcert development certificate''],
                    OrganizationalUnit = [''dev@box (Dev)''], CommonName = []\<rparr>,
        NotAfter := 465, NotBefore := 100, KeyUsage := 5,
        ExtKeyUsages := [ExtKeyUsageServerAuth, ExtKeyUsageCodeSigning, ExtKeyUsageEmailProtection],
        BasicConstraintsValid := True,
        IPAddresses := [[CHR 0x0A, CHR 0x00, CHR 0x00, CHR 0x01]],
        EmailAddresses := [''user@example.com''],
        URIs := [\<lparr>Scheme = ''https'', Host = ''example.com'', Rest = ''/path''\<rparr>],
        DNSNames := [''example.com'', ''*.example.com'']\<rparr>"

definition issued_buffer :: Writer where
  "issued_buffer = new_Buffer\<lparr>buffer := ''PRIVATE KEY:key####CERTIFICATE:der###'', writes := 2\<rparr>"

text \<open>What a call returned, if it returned.\<close>

definition returned :: "'a outcome \<Rightarrow> 'a option" where
  "returned r = (case r of Returns x \<Rightarrow> Some x | Panics p \<Rightarrow> None | Exits n \<Rightarrow> None)"

text \<open>The created machine after one and after two certificates were issued by the callback.\<close>

definition served_world :: world where
  "served_world =
     created_world
       \<lparr>entropy := 6, tls_heap := [\<lparr>Chain = [''der###''], TLSPrivateKey = PrivateKey 4\<rparr>]\<rparr>"

definition served_world2 :: world where
  "served_world2 =
     created_world
       \<lparr>entropy := 9,
        tls_heap := [\<lparr>Chain = [''der###''], TLSPrivateKey = PrivateKey 4\<rparr>,
                     \<lparr>Chain = [''der######''], TLSPrivateKey = PrivateKey 7\<rparr>]\<rparr>"

text \<open>
  The created machine with Firefox installed (two stores are found), the same machine
  under a target with no store, and backends that log their invocations, of which the NSS
  one fails to install.
\<close>

definition trust_world :: world where
  "trust_world = created_world\<lparr>files := (''/usr/bin/firefox'', File [] 493) # files created_world\<rparr>"

definition no_store_world :: world where
  "no_store_world = created_world\<lparr>GOOS := ''plan9''\<rparr>"

definition sample_backends :: "Store list backends" where
  "sample_backends =
     \<lparr>store_Install =
        (\<lambda>s rootCert c m.
           (if s = NSS then Some (Error ''truststore.NSS: no security database found'') else None,
            m @ [s])),
      store_Uninstall = (\<lambda>s rootCert c m. (None, m @ [s]))\<rparr>"

text \<open>
  The invariant of the warning: it was printed at most once, and not at all while the
  \<^verbatim>\<open>sync.Once\<close> has not fired.
\<close>

definition warned_once :: "world \<Rightarrow> bool" where
  "warned_once w =
     (count_list (stderr w) priv_warning \<le> 1
      \<and> (\<not> privWarning_done w \<longrightarrow> count_list (stderr w) priv_warning = 0))"

text \<open>
  A \<^verbatim>\<open>certutil\<close> that fails on a read-only database at every direct attempt and works
  at every retry, on the created machine (no \<^verbatim>\<open>sudo\<close>, no \<^verbatim>\<open>doas\<close>, not root), and
  the machine after one and after two calls of \<^verbatim>\<open>execCertutil\<close>.
\<close>

definition sample_runner :: runner where
  "sample_runner =
     (\<lambda>n cmd fs. if even n
        then (''certutil: function failed: SEC_ERROR_READ_ONLY: security library: read-only database.'',
              Some (Error ''exit status 255''), fs)
        else (''ok'', None, fs))"

definition sample_cmd :: Cmd where
  "sample_cmd = Command created_world ''certutil'' [''-A'', ''-d'', ''sql:/etc/pki/nssdb'']"

definition escalated_world :: world where
  "escalated_world =
     created_world
       \<lparr>stderr := [priv_warning],
        executed_cmds := [[''certutil'', ''-A'', ''-d'', ''sql:/etc/pki/nssdb''],
                          [''/usr/bin/certutil'', ''-A'', ''-d'', ''sql:/etc/pki/nssdb'']],
        privWarning_done := True\<rparr>"

definition escalated_world2 :: world where
  "escalated_world2 =
     escalated_world
       \<lparr>executed_cmds := executed_cmds escalated_world
          @ [[''certutil'', ''-A'', ''-d'', ''sql:/etc/pki/nssdb''],
             [''/usr/bin/certutil'', ''-A'', ''-d'', ''sql:/etc/pki/nssdb'']]\<rparr>"

text \<open>
  A Mac whose \<^verbatim>\<open>security trust-settings-export\<close> writes a property list of trust
  settings version 2, and one whose export is not a property list at all.
\<close>

definition darwin_world :: world where
  "darwin_world =
     created_world
       \<lparr>GOOS := ''darwin'',
        path_bins := [(''security'', ''/usr/bin/security''), (''sudo'', ''/usr/bin/sudo'')]\<rparr>"

definition darwin_runner :: "bytes \<Rightarrow> runner" where
  "darwin_runner exported =
     (\<lambda>n cmd fs.
        if ''trust-settings-export'' \<in> set (Args cmd)
        then ([], None, fs_update (last (Args cmd)) (File exported 384) fs)
        else ([], None, fs))"

definition sample_darwin_lib :: darwin_lib where
  "sample_darwin_lib =
     \<lparr>plist_Unmarshal =
        (\<lambda>b. if b = ''<plist version 2>''
             then (None, [(''trustVersion'', PUint 2), (''trustList'', PDict [])])
             else if b = ''<plist version 1>''
             then (None, [(''trustVersion'', PUint 1), (''trustList'', PDict [])])
             else (Some (Error ''plist: type mismatch''), [])),
      plist_MarshalIndent = (\<lambda>m. Inr ''<plist version 1>''),
      asn1_Marshal = (\<lambda>n. CommonName n),
      TempFile = (\<lambda>n. Inr ''/tmp/trust-settings123456'')\<rparr>"

section \<open>Properties\<close>

subsection \<open>Paths and files\<close>

lemma length_parentPrefix: "length (parentPrefix sep p) \<le> length p"
proof -
  have "length (dropWhile (\<lambda>c. c \<noteq> sep) (dropWhile (\<lambda>c. c = sep) (rev p)))
          \<le> length (dropWhile (\<lambda>c. c = sep) (rev p))"
    by (rule length_dropWhile_le)
  also have "\<dots> \<le> length (rev p)"
    by (rule length_dropWhile_le)
  finally show ?thesis
    by (simp add: parentPrefix_def)
qed

termination MkdirAll
proof (relation "measure (\<lambda>(sep, fs, p, perm). length p)")
  show "wf (measure (\<lambda>(sep, fs, p, perm). length p))"
    by simp
next
  fix sep :: char and fs :: filesystem and p :: string and perm :: nat
  assume "1 < length (parentPrefix sep p)"
  moreover have "length (parentPrefix sep p) \<le> length p"
    by (rule length_parentPrefix)
  ultimately show "((sep, fs, butlast (parentPrefix sep p), perm), (sep, fs, p, perm))
                     \<in> measure (\<lambda>(sep, fs, p, perm). length p)"
    by simp
qed

declare MkdirAll.simps [simp del]

subsection \<open>The Windows store\<close>

lemma Windows_Uninstall_nil_after_enumeration:
  "deleteCertsWithSerial parse (store\<lparr>open_ok := True\<rparr>) (SerialNumber caCert) = Returns (d, None) \<Longrightarrow>
   Windows_Uninstall parse (store\<lparr>open_ok := True\<rparr>) rootCert caCert = Returns None"
  by (simp add: Windows_Uninstall_def)

text \<open>
  C5. Claimed: when the enumeration of the store completes and no certificate with the
  root's serial number was deleted, \<^verbatim>\<open>Uninstall\<close> returns a non-nil error. The code
  returns nil there. The store below holds one certificate, of serial 5; the root's serial
  is 7; the enumeration ends with \<^verbatim>\<open>CRYPT_E_NOT_FOUND\<close>: \<^verbatim>\<open>deleteCertsWithSerial\<close>
  returns \<^verbatim>\<open>(false, nil)\<close> and \<^verbatim>\<open>Uninstall\<close> returns nil.
\<close>

theorem Windows_Uninstall_not_found_returns_nil:
  "deleteCertsWithSerial (\<lambda>b. Inr (zeroCertificate\<lparr>SerialNumber := Some 5\<rparr>))
     \<lparr>open_ok = True,
      contexts = [\<lparr>EncodedCert = ''der5'', dup_ok = True, del_ok = True\<rparr>],
      enum_errno = CRYPT_E_NOT_FOUND\<rparr> (Some 7) = Returns (False, None)
   \<and> Windows_Uninstall (\<lambda>b. Inr (zeroCertificate\<lparr>SerialNumber := Some 5\<rparr>))
     \<lparr>open_ok = True,
      contexts = [\<lparr>EncodedCert = ''der5'', dup_ok = True, del_ok = True\<rparr>],
      enum_errno = CRYPT_E_NOT_FOUND\<rparr> ''/ca/zcert/rootCA.pem''
     (zeroCertificate\<lparr>SerialNumber := Some 7\<rparr>) = Returns None"
  by (simp add: Windows_Uninstall_def deleteCertsWithSerial_def zeroCertificate_def)

subsection \<open>The authority's files\<close>

lemma StorePath_sample: "StorePath sample_world = (''/ca/zcert/rootCA.pem'', ''/ca/zcert/rootCA-key.pem'')"
  by (simp add: StorePath_def sample_world_def Getenv_def Separator_def Let_def)

lemma StorePath_orphan:
  "StorePath orphan_key_world = (''/ca/zcert/rootCA.pem'', ''/ca/zcert/rootCA-key.pem'')"
  by (simp add: StorePath_def orphan_key_world_def sample_world_def Getenv_def Separator_def Let_def)

text \<open>
  C10. The existence of the authority is decided by the certificate file alone:
  \<^verbatim>\<open>Exists\<close> is \<^verbatim>\<open>pathExists\<close> of the first component of \<^verbatim>\<open>StorePath\<close>. In every state
  where the certificate file is absent and the key file \<^verbatim>\<open>rootCA-key.pem\<close> is present,
  \<^verbatim>\<open>Exists\<close> reports false, \<^verbatim>\<open>Delete\<close> returns nil and leaves the world (so the orphan
  key file) as it is, and \<^verbatim>\<open>New\<close> takes the branch of \<^verbatim>\<open>Create\<close>, with
  \<^verbatim>\<open>created = true\<close>, never that of \<^verbatim>\<open>Load\<close>.
\<close>

theorem Exists_decided_by_certificate_file:
  assumes "map_of (files w) (fst (StorePath w)) = None"
    and "map_of (files w) (snd (StorePath w)) = Some (File k mode)"
  shows "Exists w = stat_ok (files w) (fst (StorePath w))
       \<and> \<not> Exists w
       \<and> Delete ca w = (None, w)
       \<and> map_of (files (snd (Delete ca w))) (snd (StorePath w)) = Some (File k mode)
       \<and> New L w = (fst (snd (Create L zeroCARoot w)), True, fst (Create L zeroCARoot w),
                     snd (snd (Create L zeroCARoot w)))"
proof -
  have ex: "\<not> Exists w"
    using assms(1) by (simp add: Exists_def pathExists_def stat_ok_def)
  have del: "Delete ca w = (None, w)"
    using ex by (simp add: Delete_def)
  have new: "New L w = (fst (snd (Create L zeroCARoot w)), True, fst (Create L zeroCARoot w),
                     snd (snd (Create L zeroCARoot w)))"
    using ex by (simp add: New_def split: prod.splits)
  show ?thesis
    using ex del new assms(2) by (simp add: Exists_def pathExists_def)
qed

theorem Exists_decided_by_certificate_file_witness:
  "map_of (files orphan_key_world) (fst (StorePath orphan_key_world)) = None
   \<and> map_of (files orphan_key_world) (snd (StorePath orphan_key_world))
       = Some (File ''PRIVATE KEY:key'' 256)
   \<and> \<not> Exists orphan_key_world
   \<and> Delete zeroCARoot orphan_key_world = (None, orphan_key_world)
   \<and> fst (snd (New sample_stdlib orphan_key_world))"
proof -
  have h1: "map_of (files orphan_key_world) (fst (StorePath orphan_key_world)) = None"
    by (simp add: StorePath_orphan) (simp add: orphan_key_world_def)
  have h2: "map_of (files orphan_key_world) (snd (StorePath orphan_key_world))
              = Some (File ''PRIVATE KEY:key'' 256)"
    by (simp add: StorePath_orphan) (simp add: orphan_key_world_def)
  note t = Exists_decided_by_certificate_file [OF h1 h2, of zeroCARoot sample_stdlib]
  have c1: "\<not> Exists orphan_key_world"
    using t by blast
  have c2: "Delete zeroCARoot orphan_key_world = (None, orphan_key_world)"
    using t by blast
  have c3: "fst (snd (New sample_stdlib orphan_key_world))"
    using t by simp
  show ?thesis
    using h1 h2 c1 c2 c3 by blast
qed

subsection \<open>Creating and loading the authority\<close>

lemma map_of_fs_update: "map_of (fs_update p n fs) q = (if q = p then Some n else map_of fs q)"
  by (induction fs) (auto simp: fs_update_def)

lemma map_of_fs_delete: "map_of (fs_delete p fs) q = (if q = p then None else map_of fs q)"
  by (induction fs) (auto simp: fs_delete_def)

lemma Join_two: "a \<noteq> [] \<Longrightarrow> b \<noteq> [] \<Longrightarrow> Join sep [a, b] = a @ sep # b"
  by (cases b) auto

lemma StorePath_shape:
  "fst (StorePath w) \<noteq> [] \<Longrightarrow>
   \<exists>d. d \<noteq> [] \<and> fst (StorePath w) = d @ Separator (GOOS w) # ''rootCA.pem''
              \<and> snd (StorePath w) = d @ Separator (GOOS w) # ''rootCA-key.pem''"
  by (auto simp: StorePath_def Let_def Join_two split: if_splits option.splits)

lemma StorePath_distinct: "fst (StorePath w) \<noteq> [] \<Longrightarrow> fst (StorePath w) \<noteq> snd (StorePath w)"
  using StorePath_shape [of w] by auto

lemma StorePath_cong: "environ w' = environ w \<Longrightarrow> GOOS w' = GOOS w \<Longrightarrow> StorePath w' = StorePath w"
  by (simp add: StorePath_def Getenv_def Let_def)

lemma WriteFile_success:
  "WriteFile sep r fs p d perm = Inr fs' \<Longrightarrow> \<exists>m. fs' = fs_update p (File d m) fs"
  by (auto simp: WriteFile_def split: option.splits node.splits if_splits)

lemma rootTemplate_files [simp]: "rootTemplate L (w\<lparr>files := f\<rparr>) = rootTemplate L w"
  by (simp add: rootTemplate_def userAndHostname_def fun_eq_iff)

lemma rootTemplate_entropy [simp]: "rootTemplate L (w\<lparr>entropy := n\<rparr>) = rootTemplate L w"
  by (simp add: rootTemplate_def userAndHostname_def fun_eq_iff)

lemma is_root_upd [simp]: "is_root (w\<lparr>files := f\<rparr>) = is_root w" "is_root (w\<lparr>entropy := n\<rparr>) = is_root w"
  by (simp_all add: is_root_def)

lemma Create_success:
  assumes c: "Create L ca w = (None, ca', w')"
  shows "\<exists>privKey serial spkiASN1 spki der privDER mk mc.
      ecdsa_GenerateKey L (entropy w) = Inr privKey
    \<and> rand_Int L (Suc (entropy w)) = Inr serial
    \<and> MarshalPKIXPublicKey L (Public L privKey) = Inr spkiASN1
    \<and> asn1_Unmarshal L spkiASN1 = Inr spki
    \<and> CreateCertificate L (Suc (Suc (entropy w))) (rootTemplate L w serial (sha1_Sum L spki))
        (rootTemplate L w serial (sha1_Sum L spki)) (Public L privKey) (Some privKey) = Inr der
    \<and> MarshalPKCS8PrivateKey L privKey = Inr privDER
    \<and> ca' = ca\<lparr>cert := Some (rootTemplate L w serial (sha1_Sum L spki)), key := Some privKey\<rparr>
    \<and> map_of (files w') (snd (StorePath w)) = Some (File (pem_EncodeToMemory L ''PRIVATE KEY'' privDER) mk)
    \<and> map_of (files w') (fst (StorePath w)) = Some (File (pem_EncodeToMemory L ''CERTIFICATE'' der) mc)
    \<and> environ w' = environ w \<and> GOOS w' = GOOS w \<and> entropy w' = entropy w + 3
    \<and> tls_heap w' = tls_heap w \<and> fst (StorePath w) \<noteq> [] \<and> \<not> Exists w"
proof -
  let ?rc = "fst (StorePath w)" and ?rk = "snd (StorePath w)" and ?sep = "Separator (GOOS w)"
  have ne: "?rc \<noteq> []"
    using c by (auto simp: Create_def Let_def)
  have ex: "\<not> Exists w"
    using c ne by (auto simp: Create_def Let_def)
  note base = Create_def Let_def generateKey_def randomSerialNumber_def
  obtain fs1 where mk: "MkdirAll ?sep (files w) (Dir ?sep ?rc) 493 = Inr fs1"
    using c ne ex by (cases "MkdirAll ?sep (files w) (Dir ?sep ?rc) 493") (simp_all add: base)
  obtain privKey where gk: "ecdsa_GenerateKey L (entropy w) = Inr privKey"
    using c ne ex mk by (cases "ecdsa_GenerateKey L (entropy w)") (simp_all add: base)
  obtain spkiASN1 where mp: "MarshalPKIXPublicKey L (Public L privKey) = Inr spkiASN1"
    using c ne ex mk gk by (cases "MarshalPKIXPublicKey L (Public L privKey)") (simp_all add: base)
  obtain spki where un: "asn1_Unmarshal L spkiASN1 = Inr spki"
    using c ne ex mk gk mp by (cases "asn1_Unmarshal L spkiASN1") (simp_all add: base)
  obtain serial where rs: "rand_Int L (Suc (entropy w)) = Inr serial"
    using c ne ex mk gk mp un by (cases "rand_Int L (Suc (entropy w))") (simp_all add: base)
  let ?tpl = "rootTemplate L w serial (sha1_Sum L spki)"
  obtain der where cc: "CreateCertificate L (Suc (Suc (entropy w))) ?tpl ?tpl (Public L privKey) (Some privKey) = Inr der"
    using c ne ex mk gk mp un rs
    by (cases "CreateCertificate L (Suc (Suc (entropy w))) ?tpl ?tpl (Public L privKey) (Some privKey)")
       (simp_all add: base)
  obtain privDER where p8: "MarshalPKCS8PrivateKey L privKey = Inr privDER"
    using c ne ex mk gk mp un rs cc by (cases "MarshalPKCS8PrivateKey L privKey") (simp_all add: base)
  let ?kp = "pem_EncodeToMemory L ''PRIVATE KEY'' privDER"
  let ?cp = "pem_EncodeToMemory L ''CERTIFICATE'' der"
  obtain fs5 where wk: "WriteFile ?sep (is_root w) fs1 ?rk ?kp 256 = Inr fs5"
    using c ne ex mk gk mp un rs cc p8
    by (cases "WriteFile ?sep (is_root w) fs1 ?rk ?kp 256") (simp_all add: base)
  obtain fs6 where wc: "WriteFile ?sep (is_root w) fs5 ?rc ?cp 420 = Inr fs6"
    using c ne ex mk gk mp un rs cc p8 wk
    by (cases "WriteFile ?sep (is_root w) fs5 ?rc ?cp 420") (simp_all add: base)
  have res: "ca' = ca\<lparr>cert := Some ?tpl, key := Some privKey\<rparr>"
      "w' = w\<lparr>files := fs1, entropy := Suc (entropy w), entropy := Suc (Suc (entropy w)),
               entropy := Suc (Suc (Suc (entropy w))), files := fs6\<rparr>"
    using c ne ex mk gk mp un rs cc p8 wk wc by (simp_all add: base)
  obtain mk' where f5: "fs5 = fs_update ?rk (File ?kp mk') fs1"
    using WriteFile_success [OF wk] by blast
  obtain mc' where f6: "fs6 = fs_update ?rc (File ?cp mc') fs5"
    using WriteFile_success [OF wc] by blast
  have d: "?rc \<noteq> ?rk"
    using StorePath_distinct [OF ne] .
  have k: "map_of (files w') ?rk = Some (File ?kp mk')"
    using d by (simp add: res f5 f6 map_of_fs_update)
  have ce: "map_of (files w') ?rc = Some (File ?cp mc')"
    by (simp add: res f6 map_of_fs_update)
  show ?thesis
    using gk rs mp un cc p8 res(1) k ce ne ex by (simp add: res(2))
qed

lemma Create_sample: "Create sample_stdlib zeroCARoot sample_world = (None, sample_ca, created_world)"
  by code_simp

text \<open>
  \<^verbatim>\<open>Create\<close> stores the template it signed (\<^verbatim>\<open>ca.cert = tpl\<close>), not the parsed
  certificate: the serial number and the subject are set in it, the public key is not.
\<close>

lemma Create_keeps_template:
  assumes "Create L ca w = (None, ca', w')"
  shows "\<exists>tpl serial. cert ca' = Some tpl \<and> SerialNumber tpl = Some serial
           \<and> rand_Int L (Suc (entropy w)) = Inr serial \<and> CertPublicKey tpl = None"
proof -
  from Create_success [OF assms] obtain privKey serial spki where
    "rand_Int L (Suc (entropy w)) = Inr serial"
    "ca' = ca\<lparr>cert := Some (rootTemplate L w serial (sha1_Sum L spki)), key := Some privKey\<rparr>"
    by blast
  then show ?thesis
    by (simp add: rootTemplate_def zeroCertificate_def)
qed

text \<open>
  C3. Round trip: when \<^verbatim>\<open>Create\<close> has succeeded, with certificate \<open>tpl\<close> and key
  \<open>priv\<close> in the authority, \<^verbatim>\<open>Load\<close> on a new \<^verbatim>\<open>CARoot\<close> over the same files and
  environment succeeds and holds a certificate with the serial number and the subject of
  \<open>tpl\<close>, the public key of \<open>priv\<close>, and the private key \<open>priv\<close> itself. The
  certificate that the created authority holds is the template that was signed
  (\<^verbatim>\<open>ca.cert = tpl\<close>), in which no public key is set: the public key of the loaded
  certificate is the one of the created key pair, not a field of \<open>tpl\<close>. The standard
  library is assumed to read back what it wrote for this template and key
  (\<open>x509_roundtrip\<close>, \<open>keypair_roundtrip\<close>).
\<close>

theorem Create_Load_roundtrip:
  assumes c: "Create L ca w = (None, ca1, w1)"
    and t: "cert ca1 = Some tpl" and k: "key ca1 = Some priv"
    and x: "x509_roundtrip L (Suc (Suc (entropy w))) tpl priv"
    and kp: "keypair_roundtrip L (Suc (Suc (entropy w))) tpl priv"
    and same: "files w2 = files w1" "environ w2 = environ w1" "GOOS w2 = GOOS w1"
  shows "\<exists>c. Load L zeroCARoot w2 = (None, \<lparr>Verbose = False, cert = Some c, key = Some priv\<rparr>)
           \<and> SerialNumber c = SerialNumber tpl \<and> Subject c = Subject tpl
           \<and> CertPublicKey c = Some (Public L priv) \<and> CertPublicKey tpl = None
           \<and> CertPublicKey c \<noteq> CertPublicKey tpl"
proof -
  from Create_success [OF c] obtain privKey serial spki der privDER mk mc where
    cc: "CreateCertificate L (Suc (Suc (entropy w))) (rootTemplate L w serial (sha1_Sum L spki))
           (rootTemplate L w serial (sha1_Sum L spki)) (Public L privKey) (Some privKey) = Inr der"
    and p8: "MarshalPKCS8PrivateKey L privKey = Inr privDER"
    and ca1: "ca1 = ca\<lparr>cert := Some (rootTemplate L w serial (sha1_Sum L spki)), key := Some privKey\<rparr>"
    and fk: "map_of (files w1) (snd (StorePath w)) = Some (File (pem_EncodeToMemory L ''PRIVATE KEY'' privDER) mk)"
    and fc: "map_of (files w1) (fst (StorePath w)) = Some (File (pem_EncodeToMemory L ''CERTIFICATE'' der) mc)"
    and env: "environ w1 = environ w" "GOOS w1 = GOOS w"
    and ne: "fst (StorePath w) \<noteq> []"
    by blast
  have tpl: "tpl = rootTemplate L w serial (sha1_Sum L spki)" and priv: "priv = privKey"
    using t k ca1 by simp_all
  have sp: "StorePath w2 = StorePath w"
    using StorePath_cong [of w2 w] same env by simp
  have ex: "Exists w2"
    using fc sp same(1) ne by (simp add: Exists_def pathExists_def stat_ok_def)
  have xk: "X509KeyPair L (pem_EncodeToMemory L ''CERTIFICATE'' der)
              (pem_EncodeToMemory L ''PRIVATE KEY'' privDER) = Inr \<lparr>Chain = [der], TLSPrivateKey = priv\<rparr>"
    using kp cc p8 unfolding keypair_roundtrip_def tpl priv by blast
  have pair: "LoadX509KeyPair L (files w2) (fst (StorePath w2)) (snd (StorePath w2))
                = Inr \<lparr>Chain = [der], TLSPrivateKey = priv\<rparr>"
    using xk fk fc by (simp add: LoadX509KeyPair_def ReadFile_def sp same(1))
  obtain c' where pc: "ParseCertificate L der = Inr c'" and
    eqs: "SerialNumber c' = SerialNumber tpl" "Subject c' = Subject tpl"
         "CertPublicKey c' = Some (Public L priv)"
    using x cc unfolding x509_roundtrip_def tpl priv by blast
  have nopub: "CertPublicKey tpl = None"
    unfolding tpl by (simp add: rootTemplate_def zeroCertificate_def)
  have "Load L zeroCARoot w2 = (None, \<lparr>Verbose = False, cert = Some c', key = Some priv\<rparr>)"
    using ex pair pc by (simp add: Load_def zeroCARoot_def)
  then show ?thesis
    using eqs nopub by auto
qed

theorem Create_Load_roundtrip_witness:
  "Create sample_stdlib zeroCARoot sample_world = (None, sample_ca, created_world)
   \<and> x509_roundtrip sample_stdlib 2 sample_root (PrivateKey 0)
   \<and> keypair_roundtrip sample_stdlib 2 sample_root (PrivateKey 0)
   \<and> (\<exists>c. Load sample_stdlib zeroCARoot created_world
              = (None, \<lparr>Verbose = False, cert = Some c, key = Some (PrivateKey 0)\<rparr>)
          \<and> SerialNumber c = Some 1 \<and> Subject c = sample_subject
          \<and> CertPublicKey c = Some (PublicKey 0) \<and> CertPublicKey sample_root = None
          \<and> CertPublicKey c \<noteq> CertPublicKey sample_root)"
proof -
  have h1: "cert sample_ca = Some sample_root" and h2: "key sample_ca = Some (PrivateKey 0)"
    by (simp_all add: sample_ca_def)
  have e: "Suc (Suc (entropy sample_world)) = 2"
    by (simp add: sample_world_def)
  have h3: "x509_roundtrip sample_stdlib (Suc (Suc (entropy sample_world))) sample_root (PrivateKey 0)"
    by (simp add: x509_roundtrip_def sample_stdlib_def sample_root_def zeroCertificate_def)
  have h4: "keypair_roundtrip sample_stdlib (Suc (Suc (entropy sample_world))) sample_root (PrivateKey 0)"
    by (simp add: keypair_roundtrip_def sample_stdlib_def sample_root_def zeroCertificate_def)
  have s: "SerialNumber sample_root = Some 1" "Subject sample_root = sample_subject"
      "Public sample_stdlib (PrivateKey 0) = PublicKey 0"
    by (simp_all add: sample_root_def sample_stdlib_def zeroCertificate_def)
  show ?thesis
    using Create_Load_roundtrip [OF Create_sample h1 h2 h3 h4 refl refl refl] h3 h4 Create_sample
    by (simp add: s e)
qed

text \<open>
  With the public key compared too, the round trip fails on the sample machine: the
  certificate of the created authority has no public key, the loaded one has.
\<close>

theorem Create_Load_roundtrip_counterexample:
  "Create sample_stdlib zeroCARoot sample_world = (None, sample_ca, created_world)
   \<and> Load sample_stdlib zeroCARoot created_world = (None, loaded_ca)
   \<and> map_option SerialNumber (cert loaded_ca) = map_option SerialNumber (cert sample_ca)
   \<and> map_option Subject (cert loaded_ca) = map_option Subject (cert sample_ca)
   \<and> map_option CertPublicKey (cert sample_ca) = Some None
   \<and> map_option CertPublicKey (cert loaded_ca) = Some (Some (PublicKey 0))
   \<and> map_option CertPublicKey (cert loaded_ca) \<noteq> map_option CertPublicKey (cert sample_ca)"
  by code_simp

subsection \<open>Deleting the authority\<close>

lemma Remove_success:
  "Remove sep fs p = Inr fs' \<Longrightarrow> fs' = fs_delete p fs \<and> map_of fs p \<noteq> None"
  by (auto simp: Remove_def split: option.splits node.splits if_splits)

lemma Delete_success:
  assumes d: "Delete ca w = (None, w1)" and ex: "Exists w"
  shows "files w1 = fs_delete (Dir (Separator (GOOS w)) (fst (StorePath w)))
                      (fs_delete (snd (StorePath w)) (fs_delete (fst (StorePath w)) (files w)))
       \<and> w1 = w\<lparr>files := files w1\<rparr>
       \<and> map_of (files w) (snd (StorePath w)) \<noteq> None"
proof -
  let ?sep = "Separator (GOOS w)" and ?rc = "fst (StorePath w)" and ?rk = "snd (StorePath w)"
  obtain fs1 where r1: "Remove ?sep (files w) ?rc = Inr fs1"
    using d ex by (cases "Remove ?sep (files w) ?rc") (simp_all add: Delete_def Let_def)
  obtain fs2 where r2: "Remove ?sep fs1 ?rk = Inr fs2"
    using d ex r1 by (cases "Remove ?sep fs1 ?rk") (simp_all add: Delete_def Let_def)
  obtain fs3 where r3: "Remove ?sep fs2 (Dir ?sep ?rc) = Inr fs3"
    using d ex r1 r2 by (cases "Remove ?sep fs2 (Dir ?sep ?rc)") (simp_all add: Delete_def Let_def)
  have w1: "w1 = w\<lparr>files := fs3\<rparr>"
    using d ex r1 r2 r3 by (simp add: Delete_def Let_def)
  have k: "map_of (files w) ?rk \<noteq> None"
    using Remove_success [OF r1] Remove_success [OF r2] by (auto simp: map_of_fs_delete split: if_splits)
  show ?thesis
    using Remove_success [OF r1] Remove_success [OF r2] Remove_success [OF r3] w1 k by simp
qed

text \<open>A store as \<^verbatim>\<open>Create\<close> leaves it can be deleted.\<close>

lemma Delete_total:
  assumes c: "map_of (files w) (fst (StorePath w)) = Some (File cd cm)"
    and k: "map_of (files w) (snd (StorePath w)) = Some (File kd km)"
    and d: "map_of (files w) (Dir (Separator (GOOS w)) (fst (StorePath w))) = Some (Directory dm)"
    and only: "\<forall>e \<in> set (files w). Dir (Separator (GOOS w)) (fst e) = Dir (Separator (GOOS w)) (fst (StorePath w))
                 \<longrightarrow> fst e = fst (StorePath w) \<or> fst e = snd (StorePath w)
                      \<or> fst e = Dir (Separator (GOOS w)) (fst (StorePath w))"
    and ne: "fst (StorePath w) \<noteq> []"
  shows "fst (Delete ca w) = None"
proof -
  let ?sep = "Separator (GOOS w)" and ?rc = "fst (StorePath w)" and ?rk = "snd (StorePath w)"
  let ?d = "Dir ?sep ?rc"
  have ex: "Exists w"
    using c ne by (simp add: Exists_def pathExists_def stat_ok_def)
  have dist: "?rc \<noteq> ?rk" "?d \<noteq> ?rc" "?d \<noteq> ?rk"
    using StorePath_distinct [OF ne] c k d by auto
  have r1: "Remove ?sep (files w) ?rc = Inr (fs_delete ?rc (files w))"
    using c by (simp add: Remove_def)
  have r2: "Remove ?sep (fs_delete ?rc (files w)) ?rk = Inr (fs_delete ?rk (fs_delete ?rc (files w)))"
    using k dist by (simp add: Remove_def map_of_fs_delete)
  have empty: "\<not> list_ex (\<lambda>e. fst e \<noteq> ?d \<and> Dir ?sep (fst e) = ?d) (fs_delete ?rk (fs_delete ?rc (files w)))"
    using only by (auto simp: list_ex_iff fs_delete_def)
  have r3: "Remove ?sep (fs_delete ?rk (fs_delete ?rc (files w))) ?d
              = Inr (fs_delete ?d (fs_delete ?rk (fs_delete ?rc (files w))))"
    using d dist empty by (simp add: Remove_def map_of_fs_delete)
  show ?thesis
    using ex r1 r2 r3 by (simp add: Delete_def Let_def)
qed

text \<open>With the key file missing, the certificate file is removed and the error returned.\<close>

lemma Delete_key_missing:
  assumes c: "map_of (files w) (fst (StorePath w)) = Some (File cd cm)"
    and k: "map_of (files w) (snd (StorePath w)) = None"
    and ne: "fst (StorePath w) \<noteq> []"
  shows "Delete ca w = (Some (Wrap ''zcert.Delete'' (Error ''remove: no such file or directory'')),
                        w\<lparr>files := fs_delete (fst (StorePath w)) (files w)\<rparr>)"
proof -
  let ?sep = "Separator (GOOS w)" and ?rc = "fst (StorePath w)" and ?rk = "snd (StorePath w)"
  have ex: "Exists w"
    using c ne by (simp add: Exists_def pathExists_def stat_ok_def)
  have r1: "Remove ?sep (files w) ?rc = Inr (fs_delete ?rc (files w))"
    using c by (simp add: Remove_def)
  have r2: "Remove ?sep (fs_delete ?rc (files w)) ?rk = Inl (Error ''remove: no such file or directory'')"
    using k by (simp add: Remove_def map_of_fs_delete)
  show ?thesis
    using ex r1 r2 by (simp add: Delete_def Let_def)
qed

text \<open>
  With both files there, \<^verbatim>\<open>Delete\<close> returns nil exactly when nothing else is in the
  directory; otherwise both files are removed and the directory stays.
\<close>

lemma Delete_layout:
  assumes c: "map_of (files w) (fst (StorePath w)) = Some (File cd cm)"
    and k: "map_of (files w) (snd (StorePath w)) = Some (File kd km)"
    and d: "map_of (files w) (Dir (Separator (GOOS w)) (fst (StorePath w))) = Some (Directory dm)"
    and ne: "fst (StorePath w) \<noteq> []"
  shows "(fst (Delete ca w) = None \<longleftrightarrow>
            (\<forall>e \<in> set (files w).
               Dir (Separator (GOOS w)) (fst e) = Dir (Separator (GOOS w)) (fst (StorePath w))
               \<longrightarrow> fst e = fst (StorePath w) \<or> fst e = snd (StorePath w)
                    \<or> fst e = Dir (Separator (GOOS w)) (fst (StorePath w))))
       \<and> (fst (Delete ca w) \<noteq> None \<longrightarrow>
            Delete ca w = (Some (Wrap ''zcert.Delete'' (Error ''remove: directory not empty'')),
                           w\<lparr>files := fs_delete (snd (StorePath w))
                                        (fs_delete (fst (StorePath w)) (files w))\<rparr>))"
proof -
  let ?sep = "Separator (GOOS w)" and ?rc = "fst (StorePath w)" and ?rk = "snd (StorePath w)"
  let ?d = "Dir ?sep ?rc"
  let ?fs2 = "fs_delete ?rk (fs_delete ?rc (files w))"
  let ?only = "\<forall>e \<in> set (files w). Dir ?sep (fst e) = ?d \<longrightarrow> fst e = ?rc \<or> fst e = ?rk \<or> fst e = ?d"
  have ex: "Exists w"
    using c ne by (simp add: Exists_def pathExists_def stat_ok_def)
  have dist: "?rc \<noteq> ?rk" "?d \<noteq> ?rc" "?d \<noteq> ?rk"
    using StorePath_distinct [OF ne] c k d by auto
  have r1: "Remove ?sep (files w) ?rc = Inr (fs_delete ?rc (files w))"
    using c by (simp add: Remove_def)
  have r2: "Remove ?sep (fs_delete ?rc (files w)) ?rk = Inr ?fs2"
    using k dist by (simp add: Remove_def map_of_fs_delete)
  have entries: "list_ex (\<lambda>e. fst e \<noteq> ?d \<and> Dir ?sep (fst e) = ?d) ?fs2 \<longleftrightarrow> \<not> ?only"
    by (force simp: list_ex_iff fs_delete_def)
  have r3: "Remove ?sep ?fs2 ?d
              = (if ?only then Inr (fs_delete ?d ?fs2) else Inl (Error ''remove: directory not empty''))"
    using d dist entries by (simp add: Remove_def map_of_fs_delete)
  have del: "Delete ca w
      = (if ?only then (None, w\<lparr>files := fs_delete ?d ?fs2\<rparr>)
         else (Some (Wrap ''zcert.Delete'' (Error ''remove: directory not empty'')), w\<lparr>files := ?fs2\<rparr>))"
    using ex r1 r2 r3 by (simp add: Delete_def Let_def)
  show ?thesis
    unfolding del by simp
qed

text \<open>After a \<^verbatim>\<open>Delete\<close> that returned nil, nothing of the root is left.\<close>

lemma Delete_gone:
  assumes ex: "Exists w" and d: "Delete ca w = (None, wd)"
  shows "map_of (files wd) (fst (StorePath w)) = None
       \<and> map_of (files wd) (snd (StorePath w)) = None
       \<and> map_of (files wd) (Dir (Separator (GOOS w)) (fst (StorePath w))) = None
       \<and> \<not> Exists wd \<and> entropy wd = entropy w"
proof -
  have f: "files wd = fs_delete (Dir (Separator (GOOS w)) (fst (StorePath w)))
                    (fs_delete (snd (StorePath w)) (fs_delete (fst (StorePath w)) (files w)))"
    and wd: "wd = w\<lparr>files := files wd\<rparr>"
    using Delete_success [OF d ex] by blast+
  have g1: "map_of (files wd) (fst (StorePath w)) = None"
    by (simp add: f map_of_fs_delete)
  have sp: "StorePath wd = StorePath w"
    by (subst wd) (simp add: StorePath_def Getenv_def Let_def)
  have nex: "\<not> Exists wd"
    using g1 by (simp add: Exists_def pathExists_def stat_ok_def sp)
  have en: "entropy wd = entropy w"
    by (subst wd) simp
  show ?thesis
    using g1 nex en by (simp add: f map_of_fs_delete)
qed

text \<open>\<^verbatim>\<open>New\<close> where no root exists creates one, with the next draw as its serial number.\<close>

lemma New_creates:
  assumes nex: "\<not> Exists wd" and n: "New L wd = (ca', created, None, w')"
  shows "created \<and> Exists w'
       \<and> (\<exists>c s. cert ca' = Some c \<and> SerialNumber c = Some s
                \<and> rand_Int L (Suc (entropy wd)) = Inr s)"
proof -
  from n nex have cr: "Create L zeroCARoot wd = (None, ca', w')" and crd: created
    by (auto simp: New_def split: prod.splits)
  from Create_success [OF cr] obtain serial spki mc der privKey where
    rs: "rand_Int L (Suc (entropy wd)) = Inr serial"
    and ca': "ca' = zeroCARoot\<lparr>cert := Some (rootTemplate L wd serial (sha1_Sum L spki)), key := Some privKey\<rparr>"
    and fc: "map_of (files w') (fst (StorePath wd)) = Some (File (pem_EncodeToMemory L ''CERTIFICATE'' der) mc)"
    and env: "environ w' = environ wd" "GOOS w' = GOOS wd"
    and ne: "fst (StorePath wd) \<noteq> []"
    by blast
  have "StorePath w' = StorePath wd"
    using StorePath_cong [of w' wd] env by simp
  then have e2: "Exists w'"
    using fc ne by (simp add: Exists_def pathExists_def stat_ok_def)
  have c: "cert ca' = Some (rootTemplate L wd serial (sha1_Sum L spki))"
    by (subst ca') simp
  have s: "SerialNumber (rootTemplate L wd serial (sha1_Sum L spki)) = Some serial"
    by (simp add: rootTemplate_def)
  show ?thesis
    using crd e2 c s rs by simp
qed

text \<open>
  The serial number of a root made by \<^verbatim>\<open>Create\<close> is the second draw of that call, and
  \<^verbatim>\<open>Create\<close> draws three times: the serial number of the next root is the fifth draw.
\<close>

lemma Create_serial_draws:
  assumes cr: "Create L cz wz = (None, ca_old, w)" and co: "cert ca_old = Some c_old"
  shows "(\<exists>old. SerialNumber c_old = Some old \<and> rand_Int L (Suc (entropy wz)) = Inr old)
       \<and> Suc (entropy w) = entropy wz + 4"
proof -
  from Create_success [OF cr] obtain privKey serial spki where
    rs: "rand_Int L (Suc (entropy wz)) = Inr serial"
    and ca: "ca_old = cz\<lparr>cert := Some (rootTemplate L wz serial (sha1_Sum L spki)), key := Some privKey\<rparr>"
    and en: "entropy w = entropy wz + 3"
    by blast
  have "c_old = rootTemplate L wz serial (sha1_Sum L spki)"
    using co ca by simp
  then have "SerialNumber c_old = Some serial"
    by (simp add: rootTemplate_def)
  then show ?thesis
    using rs en by simp
qed

text \<open>
  C8. \<^verbatim>\<open>Delete\<close> on a root that does not exist returns nil and changes nothing. On an
  existing root it removes the certificate file, then the key file, then their directory,
  and returns the error of the first removal that fails, with what it removed before staying
  removed: with the key file missing it returns an error after removing the certificate
  file; with both files there it returns nil exactly when nothing else is in the directory,
  and otherwise returns an error after removing both files, the directory staying. Whenever
  it returns nil on an existing root, the certificate file, the key file and their
  directory are gone and \<^verbatim>\<open>Exists\<close> is false. \<^verbatim>\<open>New\<close> then takes the branch of
  \<^verbatim>\<open>Create\<close>: when it succeeds, \<^verbatim>\<open>created\<close> is true, the root exists again, and its
  serial number is the next value drawn from the entropy source. For a deleted root that
  \<^verbatim>\<open>Create\<close> had made, the new serial number differs from the deleted one exactly when
  these two draws of the entropy source differ; the code compares no serial numbers.
\<close>

theorem Delete_then_New:
  shows "(\<not> Exists w \<longrightarrow> Delete ca w = (None, w))
       \<and> (fst (StorePath w) \<noteq> []
          \<and> map_of (files w) (fst (StorePath w)) = Some (File cd cm)
          \<and> map_of (files w) (snd (StorePath w)) = None
          \<longrightarrow> Exists w
            \<and> Delete ca w
                = (Some (Wrap ''zcert.Delete'' (Error ''remove: no such file or directory'')),
                   w\<lparr>files := fs_delete (fst (StorePath w)) (files w)\<rparr>))
       \<and> (fst (StorePath w) \<noteq> []
          \<and> map_of (files w) (fst (StorePath w)) = Some (File cd cm)
          \<and> map_of (files w) (snd (StorePath w)) = Some (File kd km)
          \<and> map_of (files w) (Dir (Separator (GOOS w)) (fst (StorePath w))) = Some (Directory dm)
          \<longrightarrow> Exists w
            \<and> (fst (Delete ca w) = None \<longleftrightarrow>
                 (\<forall>e \<in> set (files w).
                    Dir (Separator (GOOS w)) (fst e) = Dir (Separator (GOOS w)) (fst (StorePath w))
                    \<longrightarrow> fst e = fst (StorePath w) \<or> fst e = snd (StorePath w)
                         \<or> fst e = Dir (Separator (GOOS w)) (fst (StorePath w))))
            \<and> (fst (Delete ca w) \<noteq> None \<longrightarrow>
                 Delete ca w
                   = (Some (Wrap ''zcert.Delete'' (Error ''remove: directory not empty'')),
                      w\<lparr>files := fs_delete (snd (StorePath w))
                                   (fs_delete (fst (StorePath w)) (files w))\<rparr>)))
       \<and> (Exists w \<and> Delete ca w = (None, wd) \<longrightarrow>
            map_of (files wd) (fst (StorePath w)) = None
          \<and> map_of (files wd) (snd (StorePath w)) = None
          \<and> map_of (files wd) (Dir (Separator (GOOS w)) (fst (StorePath w))) = None
          \<and> \<not> Exists wd
          \<and> (New L wd = (ca', created, None, w') \<longrightarrow>
                created \<and> Exists w'
              \<and> (\<exists>c s. cert ca' = Some c \<and> SerialNumber c = Some s
                       \<and> rand_Int L (Suc (entropy w)) = Inr s
                       \<and> (Create L cz wz = (None, ca_old, w) \<and> cert ca_old = Some c_old \<longrightarrow>
                            (\<exists>old. SerialNumber c_old = Some old
                                  \<and> rand_Int L (Suc (entropy wz)) = Inr old
                                  \<and> rand_Int L (entropy wz + 4) = Inr s
                                  \<and> (s \<noteq> old \<longleftrightarrow>
                                       rand_Int L (entropy wz + 4) \<noteq> rand_Int L (Suc (entropy wz))))))))"
proof -
  have noop: "Delete ca w = (None, w)" if "\<not> Exists w"
    using that by (simp add: Delete_def)
  have missing: "Exists w
            \<and> Delete ca w
                = (Some (Wrap ''zcert.Delete'' (Error ''remove: no such file or directory'')),
                   w\<lparr>files := fs_delete (fst (StorePath w)) (files w)\<rparr>)"
    if "fst (StorePath w) \<noteq> []
          \<and> map_of (files w) (fst (StorePath w)) = Some (File cd cm)
          \<and> map_of (files w) (snd (StorePath w)) = None"
    using that Delete_key_missing [of w cd cm ca]
    by (simp add: Exists_def pathExists_def stat_ok_def)
  have layout: "Exists w
            \<and> (fst (Delete ca w) = None \<longleftrightarrow>
                 (\<forall>e \<in> set (files w).
                    Dir (Separator (GOOS w)) (fst e) = Dir (Separator (GOOS w)) (fst (StorePath w))
                    \<longrightarrow> fst e = fst (StorePath w) \<or> fst e = snd (StorePath w)
                         \<or> fst e = Dir (Separator (GOOS w)) (fst (StorePath w))))
            \<and> (fst (Delete ca w) \<noteq> None \<longrightarrow>
                 Delete ca w
                   = (Some (Wrap ''zcert.Delete'' (Error ''remove: directory not empty'')),
                      w\<lparr>files := fs_delete (snd (StorePath w))
                                   (fs_delete (fst (StorePath w)) (files w))\<rparr>))"
    if a: "fst (StorePath w) \<noteq> []
          \<and> map_of (files w) (fst (StorePath w)) = Some (File cd cm)
          \<and> map_of (files w) (snd (StorePath w)) = Some (File kd km)
          \<and> map_of (files w) (Dir (Separator (GOOS w)) (fst (StorePath w))) = Some (Directory dm)"
  proof -
    have ex: "Exists w"
      using a by (simp add: Exists_def pathExists_def stat_ok_def)
    from a have c: "map_of (files w) (fst (StorePath w)) = Some (File cd cm)"
      and k: "map_of (files w) (snd (StorePath w)) = Some (File kd km)"
      and d: "map_of (files w) (Dir (Separator (GOOS w)) (fst (StorePath w))) = Some (Directory dm)"
      and ne: "fst (StorePath w) \<noteq> []"
      by simp_all
    show ?thesis
      using ex Delete_layout [OF c k d ne, of ca] by blast
  qed
  have after: "map_of (files wd) (fst (StorePath w)) = None
          \<and> map_of (files wd) (snd (StorePath w)) = None
          \<and> map_of (files wd) (Dir (Separator (GOOS w)) (fst (StorePath w))) = None
          \<and> \<not> Exists wd
          \<and> (New L wd = (ca', created, None, w') \<longrightarrow>
                created \<and> Exists w'
              \<and> (\<exists>c s. cert ca' = Some c \<and> SerialNumber c = Some s
                       \<and> rand_Int L (Suc (entropy w)) = Inr s
                       \<and> (Create L cz wz = (None, ca_old, w) \<and> cert ca_old = Some c_old \<longrightarrow>
                            (\<exists>old. SerialNumber c_old = Some old
                                  \<and> rand_Int L (Suc (entropy wz)) = Inr old
                                  \<and> rand_Int L (entropy wz + 4) = Inr s
                                  \<and> (s \<noteq> old \<longleftrightarrow>
                                       rand_Int L (entropy wz + 4) \<noteq> rand_Int L (Suc (entropy wz)))))))"
    if ex: "Exists w" and del: "Delete ca w = (None, wd)"
  proof -
    note g = Delete_gone [OF ex del]
    have nex: "\<not> Exists wd" and en: "entropy wd = entropy w"
      using g by simp_all
    have fresh: "created \<and> Exists w'
              \<and> (\<exists>c s. cert ca' = Some c \<and> SerialNumber c = Some s
                       \<and> rand_Int L (Suc (entropy w)) = Inr s
                       \<and> (Create L cz wz = (None, ca_old, w) \<and> cert ca_old = Some c_old \<longrightarrow>
                            (\<exists>old. SerialNumber c_old = Some old
                                  \<and> rand_Int L (Suc (entropy wz)) = Inr old
                                  \<and> rand_Int L (entropy wz + 4) = Inr s
                                  \<and> (s \<noteq> old \<longleftrightarrow>
                                       rand_Int L (entropy wz + 4) \<noteq> rand_Int L (Suc (entropy wz))))))"
      if n: "New L wd = (ca', created, None, w')"
    proof -
      from New_creates [OF nex n] obtain c s where
        crd: "created" "Exists w'" and c: "cert ca' = Some c" "SerialNumber c = Some s"
        and rs: "rand_Int L (Suc (entropy w)) = Inr s"
        unfolding en by blast
      have tie: "\<exists>old. SerialNumber c_old = Some old
                      \<and> rand_Int L (Suc (entropy wz)) = Inr old
                      \<and> rand_Int L (entropy wz + 4) = Inr s
                      \<and> (s \<noteq> old \<longleftrightarrow> rand_Int L (entropy wz + 4) \<noteq> rand_Int L (Suc (entropy wz)))"
        if cr: "Create L cz wz = (None, ca_old, w)" and co: "cert ca_old = Some c_old"
      proof -
        from Create_serial_draws [OF cr co] obtain old where
          o: "SerialNumber c_old = Some old" "rand_Int L (Suc (entropy wz)) = Inr old"
          and e: "Suc (entropy w) = entropy wz + 4"
          by blast
        have n: "rand_Int L (entropy wz + 4) = Inr s"
          using rs e by simp
        show ?thesis
          using o n by simp
      qed
      show ?thesis
        using crd c rs tie by blast
    qed
    show ?thesis
      using g fresh by blast
  qed
  show ?thesis
    using noop missing layout after by blast
qed

theorem Delete_then_New_witness:
  "Exists created_world
   \<and> Create sample_stdlib zeroCARoot sample_world = (None, sample_ca, created_world)
   \<and> Delete sample_ca created_world = (None, deleted_world)
   \<and> Delete sample_ca deleted_world = (None, deleted_world)
   \<and> map_of (files deleted_world) ''/ca/zcert/rootCA.pem'' = None
   \<and> map_of (files deleted_world) ''/ca/zcert/rootCA-key.pem'' = None
   \<and> map_of (files deleted_world) ''/ca/zcert'' = None
   \<and> fst (snd (New sample_stdlib deleted_world))
   \<and> (\<exists>c. cert (fst (New sample_stdlib deleted_world)) = Some c \<and> SerialNumber c = Some 4
          \<and> SerialNumber c \<noteq> SerialNumber sample_root)
   \<and> SerialNumber sample_root = Some 1
   \<and> Delete sample_ca keyless_world
       = (Some (Wrap ''zcert.Delete'' (Error ''remove: no such file or directory'')),
          keyless_world\<lparr>files := [(''/ca/zcert'', Directory 493), (''/ca'', Directory 493)]\<rparr>)
   \<and> Delete sample_ca cluttered_world
       = (Some (Wrap ''zcert.Delete'' (Error ''remove: directory not empty'')),
          cluttered_world\<lparr>files := [(''/ca/zcert/notes.txt'', File ''notes'' 420),
                                     (''/ca/zcert'', Directory 493), (''/ca'', Directory 493)]\<rparr>)"
proof -
  let ?N = "New sample_stdlib deleted_world"
  have h1: "Exists created_world"
    by code_simp
  have h2: "Delete sample_ca created_world = (None, deleted_world)"
    by code_simp
  have h0: "\<not> Exists deleted_world"
    by code_simp
  have "fst (snd ?N) = True" "fst (snd (snd ?N)) = None"
    by code_simp+
  then have h3: "?N = (fst ?N, True, None, snd (snd (snd ?N)))"
    by (metis prod.collapse)
  have h4: "cert sample_ca = Some sample_root"
    by (simp add: sample_ca_def)
  have sp: "StorePath created_world = (''/ca/zcert/rootCA.pem'', ''/ca/zcert/rootCA-key.pem'')"
    by code_simp
  have d: "Dir (Separator (GOOS created_world)) ''/ca/zcert/rootCA.pem'' = ''/ca/zcert''"
    by code_simp
  have old: "SerialNumber sample_root = Some 1"
    by (simp add: sample_root_def)
  have hk: "fst (StorePath keyless_world) \<noteq> []
     \<and> map_of (files keyless_world) (fst (StorePath keyless_world)) = Some (File ''CERTIFICATE:der#'' 420)
     \<and> map_of (files keyless_world) (snd (StorePath keyless_world)) = None"
    by code_simp
  have fk: "fs_delete (fst (StorePath keyless_world)) (files keyless_world)
              = [(''/ca/zcert'', Directory 493), (''/ca'', Directory 493)]"
    by code_simp
  have hc: "fst (StorePath cluttered_world) \<noteq> []
     \<and> map_of (files cluttered_world) (fst (StorePath cluttered_world)) = Some (File ''CERTIFICATE:der#'' 420)
     \<and> map_of (files cluttered_world) (snd (StorePath cluttered_world)) = Some (File ''PRIVATE KEY:key'' 256)
     \<and> map_of (files cluttered_world)
          (Dir (Separator (GOOS cluttered_world)) (fst (StorePath cluttered_world))) = Some (Directory 493)"
    by code_simp
  have more: "\<not> (\<forall>e \<in> set (files cluttered_world).
           Dir (Separator (GOOS cluttered_world)) (fst e)
             = Dir (Separator (GOOS cluttered_world)) (fst (StorePath cluttered_world))
           \<longrightarrow> fst e = fst (StorePath cluttered_world) \<or> fst e = snd (StorePath cluttered_world)
                \<or> fst e = Dir (Separator (GOOS cluttered_world)) (fst (StorePath cluttered_world)))"
    by code_simp
  have fc: "fs_delete (snd (StorePath cluttered_world))
              (fs_delete (fst (StorePath cluttered_world)) (files cluttered_world))
              = [(''/ca/zcert/notes.txt'', File ''notes'' 420),
                 (''/ca/zcert'', Directory 493), (''/ca'', Directory 493)]"
    by code_simp
  note t = Delete_then_New [where w = created_world and ca = sample_ca
      and cd = "''CERTIFICATE:der#''" and cm = 420 and kd = "''PRIVATE KEY:key''" and km = 256
      and dm = 493 and wd = deleted_world and L = sample_stdlib
      and ca' = "fst ?N" and created = True and w' = "snd (snd (snd ?N))"
      and cz = zeroCARoot and wz = sample_world and ca_old = sample_ca and c_old = sample_root]
  note t0 = Delete_then_New [where w = deleted_world and ca = sample_ca,
      THEN conjunct1, THEN mp, OF h0]
  note tk = Delete_then_New [where w = keyless_world and ca = sample_ca
      and cd = "''CERTIFICATE:der#''" and cm = 420,
      THEN conjunct2, THEN conjunct1, THEN mp, OF hk, THEN conjunct2]
  note tc = Delete_then_New [where w = cluttered_world and ca = sample_ca
      and cd = "''CERTIFICATE:der#''" and cm = 420 and kd = "''PRIVATE KEY:key''" and km = 256
      and dm = 493,
      THEN conjunct2, THEN conjunct2, THEN conjunct1, THEN mp, OF hc, THEN conjunct2]
  have kless: "Delete sample_ca keyless_world
       = (Some (Wrap ''zcert.Delete'' (Error ''remove: no such file or directory'')),
          keyless_world\<lparr>files := [(''/ca/zcert'', Directory 493), (''/ca'', Directory 493)]\<rparr>)"
    using tk by (simp only: fk)
  have failed: "fst (Delete sample_ca cluttered_world) \<noteq> None"
    using tc [THEN conjunct1] more by blast
  have clut: "Delete sample_ca cluttered_world
       = (Some (Wrap ''zcert.Delete'' (Error ''remove: directory not empty'')),
          cluttered_world\<lparr>files := [(''/ca/zcert/notes.txt'', File ''notes'' 420),
                                     (''/ca/zcert'', Directory 493), (''/ca'', Directory 493)]\<rparr>)"
    using tc [THEN conjunct2, THEN mp, OF failed] by (simp only: fc)
  note g = t [THEN conjunct2, THEN conjunct2, THEN conjunct2, THEN mp, OF conjI [OF h1 h2]]
  note g1 = g [THEN conjunct1]
  note g2 = g [THEN conjunct2, THEN conjunct1]
  note g3 = g [THEN conjunct2, THEN conjunct2, THEN conjunct1]
  note fr = g [THEN conjunct2, THEN conjunct2, THEN conjunct2, THEN conjunct2, THEN mp, OF h3]
  from fr obtain c s where c: "cert (fst ?N) = Some c" "SerialNumber c = Some s"
    and tie: "Create sample_stdlib zeroCARoot sample_world = (None, sample_ca, created_world)
                \<and> cert sample_ca = Some sample_root \<longrightarrow>
              (\<exists>old. SerialNumber sample_root = Some old
                    \<and> rand_Int sample_stdlib (Suc (entropy sample_world)) = Inr old
                    \<and> rand_Int sample_stdlib (entropy sample_world + 4) = Inr s
                    \<and> (s \<noteq> old \<longleftrightarrow>
                         rand_Int sample_stdlib (entropy sample_world + 4)
                           \<noteq> rand_Int sample_stdlib (Suc (entropy sample_world))))"
    by blast
  from tie Create_sample h4 have s: "rand_Int sample_stdlib (entropy sample_world + 4) = Inr s"
    by blast
  have "rand_Int sample_stdlib (entropy sample_world + 4) = Inr 4"
    by (simp add: sample_stdlib_def sample_world_def)
  then have "s = 4"
    using s by simp
  then have new: "\<exists>c. cert (fst ?N) = Some c \<and> SerialNumber c = Some 4
          \<and> SerialNumber c \<noteq> SerialNumber sample_root"
    using c old by simp
  have n: "fst (snd ?N)"
    using fr h3 by (metis fst_conv snd_conv)
  have files: "map_of (files deleted_world) ''/ca/zcert/rootCA.pem'' = None
   \<and> map_of (files deleted_world) ''/ca/zcert/rootCA-key.pem'' = None
   \<and> map_of (files deleted_world) ''/ca/zcert'' = None"
    using g1 g2 g3 by (simp add: sp d)
  show ?thesis
    using h1 Create_sample h2 t0 files n new old kless clut by blast
qed

text \<open>
  As stated, the claim fails on the sample machine. \<^verbatim>\<open>Delete\<close> on an existing root does
  not always remove the directory: with another file in it, and with the key file missing,
  it returns an error and the directory stays. And a new root can have the serial number of
  the deleted one: with an entropy source that repeats itself, create, delete and create
  again give the serial number 1 twice.
\<close>

theorem Delete_then_New_counterexample:
  "Exists cluttered_world
   \<and> fst (Delete sample_ca cluttered_world)
       = Some (Wrap ''zcert.Delete'' (Error ''remove: directory not empty''))
   \<and> map_of (files (snd (Delete sample_ca cluttered_world))) ''/ca/zcert'' = Some (Directory 493)
   \<and> Exists keyless_world
   \<and> fst (Delete sample_ca keyless_world)
       = Some (Wrap ''zcert.Delete'' (Error ''remove: no such file or directory''))
   \<and> map_of (files (snd (Delete sample_ca keyless_world))) ''/ca/zcert'' = Some (Directory 493)
   \<and> Create repeating_stdlib zeroCARoot sample_world = (None, sample_ca, created_world)
   \<and> Delete sample_ca created_world = (None, deleted_world)
   \<and> fst (snd (New repeating_stdlib deleted_world))
   \<and> fst (snd (snd (New repeating_stdlib deleted_world))) = None
   \<and> map_option SerialNumber (cert (fst (New repeating_stdlib deleted_world))) = Some (Some 1)
   \<and> map_option SerialNumber (cert sample_ca) = Some (Some 1)"
  by code_simp

subsection \<open>Classifying the identifiers\<close>

lemma addHost_lists:
  "IPAddresses (addHost L tpl h) = IPAddresses tpl @ List.map_filter (ParseIP L) [h]"
  "EmailAddresses (addHost L tpl h) = EmailAddresses tpl @ filter (\<lambda>h. spec_classify L h = Email_entry) [h]"
  "URIs (addHost L tpl h) = URIs tpl @ List.map_filter (uri_of L) [h]"
  "DNSNames (addHost L tpl h) = DNSNames tpl @ filter (\<lambda>h. spec_classify L h = DNS_entry) [h]"
  by (auto simp: addHost_def spec_classify_def uri_of_def List.map_filter_simps split: option.splits sum.splits)

lemma addHosts_lists:
  "IPAddresses (addHosts L tpl hosts) = IPAddresses tpl @ List.map_filter (ParseIP L) hosts
 \<and> EmailAddresses (addHosts L tpl hosts) = EmailAddresses tpl @ filter (\<lambda>h. spec_classify L h = Email_entry) hosts
 \<and> URIs (addHosts L tpl hosts) = URIs tpl @ List.map_filter (uri_of L) hosts
 \<and> DNSNames (addHosts L tpl hosts) = DNSNames tpl @ filter (\<lambda>h. spec_classify L h = DNS_entry) hosts"
proof (induction hosts arbitrary: tpl)
  case Nil
  then show ?case by (simp add: addHosts_def List.map_filter_simps)
next
  case (Cons h hosts)
  have step: "addHosts L tpl (h # hosts) = addHosts L (addHost L tpl h) hosts"
    by (simp add: addHosts_def)
  show ?case
    unfolding step using Cons.IH [of "addHost L tpl h"]
    by (simp add: addHost_lists List.map_filter_simps split: option.splits)
qed


subsection \<open>Issuing for an empty list of identifiers\<close>


lemma leafTemplate_entropy [simp]: "leafTemplate L (w\<lparr>entropy := n\<rparr>) = leafTemplate L w"
  by (simp add: leafTemplate_def userAndHostname_def fun_eq_iff)

lemma setExtKeyUsage_empty:
  "setExtKeyUsage False [] (addHosts L (leafTemplate L w serial) []) = Returns (leafTemplate L w serial)"
  by (simp add: setExtKeyUsage_def addHosts_def leafTemplate_def zeroCertificate_def)

text \<open>
  C4, as the code has it. \<^verbatim>\<open>MakeCert\<close> does not check that the list of identifiers is
  not empty. Called with an empty list and \<^verbatim>\<open>clientCert = false\<close>, it returns nil once
  every step succeeds (the load when the authority is not in memory, the serial number, the
  key, the signature, the encoding of the key and the two writes), after signing a leaf
  template with no IP address, no email address, no URI, no DNS name and no extended key
  usage, and writing the key and the certificate to \<^verbatim>\<open>out\<close>.
\<close>

theorem MakeCert_empty_hosts:
  assumes ld: "(if cert ca = None \<or> key ca = None then Load L ca w else (None, ca)) = (None, ca1)"
    and p: "cert ca1 = Some parent"
    and rs: "rand_Int L (entropy w) = Inr serial"
    and gk: "ecdsa_GenerateKey L (Suc (entropy w)) = Inr privKey"
    and cc: "CreateCertificate L (Suc (Suc (entropy w))) (leafTemplate L w serial) parent
               (Public L privKey) (key ca1) = Inr der"
    and p8: "MarshalPKCS8PrivateKey L privKey = Inr privDER"
    and w1: "write_errs out (writes out) = None" and w2: "write_errs out (Suc (writes out)) = None"
  shows "MakeCert L ca w out False [] =
           Returns (None, w\<lparr>entropy := Suc (Suc (Suc (entropy w)))\<rparr>,
                    out\<lparr>buffer := buffer out @ pem_EncodeToMemory L ''PRIVATE KEY'' privDER
                                     @ pem_EncodeToMemory L ''CERTIFICATE'' der,
                        writes := Suc (Suc (writes out))\<rparr>)
       \<and> IPAddresses (leafTemplate L w serial) = [] \<and> EmailAddresses (leafTemplate L w serial) = []
       \<and> URIs (leafTemplate L w serial) = [] \<and> DNSNames (leafTemplate L w serial) = []
       \<and> ExtKeyUsages (leafTemplate L w serial) = []"
proof -
  have "MakeCert L ca w out False [] =
           Returns (None, w\<lparr>entropy := Suc (Suc (Suc (entropy w)))\<rparr>,
                    out\<lparr>buffer := buffer out @ pem_EncodeToMemory L ''PRIVATE KEY'' privDER
                                     @ pem_EncodeToMemory L ''CERTIFICATE'' der,
                        writes := Suc (Suc (writes out))\<rparr>)"
    unfolding MakeCert_def ld
    using p rs gk cc p8 w1 w2
    by (simp add: randomSerialNumber_def generateKey_def setExtKeyUsage_empty Let_def Write_def)
  then show ?thesis
    by (simp add: leafTemplate_def zeroCertificate_def)
qed


theorem MakeCert_empty_hosts_witness:
  "MakeCert sample_stdlib sample_ca created_world new_Buffer False [] =
     Returns (None, created_world\<lparr>entropy := 6\<rparr>,
              new_Buffer\<lparr>buffer := ''PRIVATE KEY:key####CERTIFICATE:der###'', writes := 2\<rparr>)"
proof -
  have ld: "(if cert sample_ca = None \<or> key sample_ca = None
             then Load sample_stdlib sample_ca created_world else (None, sample_ca)) = (None, sample_ca)"
    by (simp add: sample_ca_def)
  have p: "cert sample_ca = Some sample_root"
    by (simp add: sample_ca_def)
  have e: "entropy created_world = 3"
    by (simp add: created_world_def)
  have rs: "rand_Int sample_stdlib (entropy created_world) = Inr 3"
    by (simp add: sample_stdlib_def e)
  have gk: "ecdsa_GenerateKey sample_stdlib (Suc (entropy created_world)) = Inr (PrivateKey 4)"
    by (simp add: sample_stdlib_def e)
  have cc: "CreateCertificate sample_stdlib (Suc (Suc (entropy created_world)))
              (leafTemplate sample_stdlib created_world 3) sample_root
              (Public sample_stdlib (PrivateKey 4)) (key sample_ca) = Inr ''der###''"
    by (simp add: sample_stdlib_def leafTemplate_def numeral_3_eq_3)
  have p8: "MarshalPKCS8PrivateKey sample_stdlib (PrivateKey 4) = Inr ''key####''"
    by (simp add: sample_stdlib_def numeral_Bit0 [of Num.One] numeral_Bit0 [of "Num.Bit0 Num.One"])
  have w1: "write_errs new_Buffer (writes new_Buffer) = None"
    and w2: "write_errs new_Buffer (Suc (writes new_Buffer)) = None"
    by (simp_all add: new_Buffer_def)
  show ?thesis
    using MakeCert_empty_hosts [OF ld p rs gk cc p8 w1 w2]
    by (simp add: e sample_stdlib_def new_Buffer_def)
qed

text \<open>
  The claim as stated (an empty list always makes \<^verbatim>\<open>MakeCert\<close> return an error) fails on
  the sample machine: the call returns nil and has written a key and a certificate.
\<close>

theorem MakeCert_empty_hosts_counterexample:
  "map_option fst (returned (MakeCert sample_stdlib sample_ca created_world new_Buffer False []))
     = Some None
   \<and> map_option (\<lambda>r. buffer (snd (snd r)))
        (returned (MakeCert sample_stdlib sample_ca created_world new_Buffer False []))
     = Some ''PRIVATE KEY:key####CERTIFICATE:der###''"
  by code_simp

text \<open>With \<^verbatim>\<open>clientCert = true\<close> the same call panics at \<^verbatim>\<open>hosts[0]\<close>.\<close>

lemma MakeCert_client_empty_hosts_panics:
  "(case MakeCert sample_stdlib sample_ca created_world new_Buffer True [] of
      Panics p \<Rightarrow> p = ''index out of range [0] with length 0''
    | Returns r \<Rightarrow> False
    | Exits n \<Rightarrow> False)"
  by code_simp

subsection \<open>The certificate that is signed for a list of identifiers\<close>

lemma setExtKeyUsage_lists:
  assumes "setExtKeyUsage clientCert hosts t = Returns tpl"
  shows "IPAddresses tpl = IPAddresses t \<and> EmailAddresses tpl = EmailAddresses t
       \<and> URIs tpl = URIs t \<and> DNSNames tpl = DNSNames t \<and> SerialNumber tpl = SerialNumber t"
  using assms
  by (auto simp: setExtKeyUsage_def split: if_splits list.splits)

lemma Write_ok:
  "Write out b = (None, out1) \<Longrightarrow> buffer out1 = buffer out @ b \<and> writes out1 = Suc (writes out)
     \<and> write_errs out1 = write_errs out"
  by (auto simp: Write_def split: option.splits)

text \<open>
  Every step of a \<^verbatim>\<open>MakeCert\<close> that returned nil: the authority was there or was loaded,
  the serial number and the key were drawn, the template went through the loop over the
  identifiers and the key usages, and was signed with the authority's certificate and key.
\<close>

lemma MakeCert_success:
  assumes m: "MakeCert L ca w out clientCert hosts = Returns (None, w', out')"
  shows "\<exists>ca1 serial tpl privKey parent.
      (if cert ca = None \<or> key ca = None then Load L ca w else (None, ca)) = (None, ca1)
    \<and> rand_Int L (entropy w) = Inr serial
    \<and> setExtKeyUsage clientCert hosts (addHosts L (leafTemplate L w serial) hosts) = Returns tpl
    \<and> ecdsa_GenerateKey L (Suc (entropy w)) = Inr privKey
    \<and> cert ca1 = Some parent
    \<and> signed_leaf L w out out' tpl parent (key ca1) privKey"
proof -
  note base = MakeCert_def Let_def randomSerialNumber_def generateKey_def
  obtain e0 ca1 where ld0: "(if cert ca = None \<or> key ca = None then Load L ca w else (None, ca)) = (e0, ca1)"
    by (metis prod.exhaust)
  have e0: "e0 = None"
    using m ld0 by (cases e0) (simp_all add: base)
  note ld = ld0 [unfolded e0]
  obtain serial where rs: "rand_Int L (entropy w) = Inr serial"
    using m ld by (cases "rand_Int L (entropy w)") (simp_all add: base)
  obtain tpl where se: "setExtKeyUsage clientCert hosts (addHosts L (leafTemplate L w serial) hosts) = Returns tpl"
    using m ld rs
    by (cases "setExtKeyUsage clientCert hosts (addHosts L (leafTemplate L w serial) hosts)")
       (simp_all add: base)
  obtain privKey where gk: "ecdsa_GenerateKey L (Suc (entropy w)) = Inr privKey"
    using m ld rs se by (cases "ecdsa_GenerateKey L (Suc (entropy w))") (simp_all add: base)
  obtain parent where p: "cert ca1 = Some parent"
    using m ld rs se gk by (cases "cert ca1") (simp_all add: base)
  obtain der where cc: "CreateCertificate L (Suc (Suc (entropy w))) tpl parent (Public L privKey) (key ca1) = Inr der"
    using m ld rs se gk p
    by (cases "CreateCertificate L (Suc (Suc (entropy w))) tpl parent (Public L privKey) (key ca1)")
       (simp_all add: base)
  obtain privDER where p8: "MarshalPKCS8PrivateKey L privKey = Inr privDER"
    using m ld rs se gk p cc by (cases "MarshalPKCS8PrivateKey L privKey") (simp_all add: base)
  obtain e1 out1 where w1: "Write out (pem_EncodeToMemory L ''PRIVATE KEY'' privDER) = (e1, out1)"
    by (metis prod.exhaust)
  have e1: "e1 = None"
    using m ld rs se gk p cc p8 w1 by (cases e1) (simp_all add: base)
  obtain e2 out2 where w2: "Write out1 (pem_EncodeToMemory L ''CERTIFICATE'' der) = (e2, out2)"
    by (metis prod.exhaust)
  have e2: "e2 = None"
    using m ld rs se gk p cc p8 w1 e1 w2 by (cases e2) (simp_all add: base)
  have o: "out' = out2"
    using m ld rs se gk p cc p8 w1 e1 w2 e2 by (simp add: base)
  have b: "buffer out' = buffer out @ pem_EncodeToMemory L ''PRIVATE KEY'' privDER
                        @ pem_EncodeToMemory L ''CERTIFICATE'' der"
    using Write_ok [OF w1 [unfolded e1]] Write_ok [OF w2 [unfolded e2]] o by simp
  have sl: "signed_leaf L w out out' tpl parent (key ca1) privKey"
    using cc p8 b by (simp add: signed_leaf_def)
  show ?thesis
    using ld rs se gk p sl by blast
qed

lemma MakeCert_returns_nil:
  assumes ld: "(if cert ca = None \<or> key ca = None then Load L ca w else (None, ca)) = (None, ca1)"
    and rs: "rand_Int L (entropy w) = Inr serial"
    and se: "setExtKeyUsage clientCert hosts (addHosts L (leafTemplate L w serial) hosts) = Returns tpl"
    and gk: "ecdsa_GenerateKey L (Suc (entropy w)) = Inr privKey"
    and p: "cert ca1 = Some parent"
    and cc: "CreateCertificate L (Suc (Suc (entropy w))) tpl parent (Public L privKey) (key ca1) = Inr der"
    and p8: "MarshalPKCS8PrivateKey L privKey = Inr privDER"
    and w1: "write_errs out (writes out) = None" and w2: "write_errs out (Suc (writes out)) = None"
  shows "MakeCert L ca w out clientCert hosts =
           Returns (None, w\<lparr>entropy := Suc (Suc (Suc (entropy w)))\<rparr>,
                    out\<lparr>buffer := buffer out @ pem_EncodeToMemory L ''PRIVATE KEY'' privDER
                                     @ pem_EncodeToMemory L ''CERTIFICATE'' der,
                        writes := Suc (Suc (writes out))\<rparr>)"
  unfolding MakeCert_def ld
  using rs se gk p cc p8 w1 w2
  by (simp add: randomSerialNumber_def generateKey_def Let_def Write_def)

lemma MakeCert_signs_classified:
  assumes m: "MakeCert L ca w out clientCert hosts = Returns (None, w', out')"
  shows "\<exists>tpl parent signer privKey. signed_leaf L w out out' tpl parent signer privKey
           \<and> IPAddresses tpl = List.map_filter (ParseIP L) hosts
           \<and> EmailAddresses tpl = filter (\<lambda>h. spec_classify L h = Email_entry) hosts
           \<and> URIs tpl = List.map_filter (uri_of L) hosts
           \<and> DNSNames tpl = filter (\<lambda>h. spec_classify L h = DNS_entry) hosts"
proof -
  have "\<exists>serial tpl parent signer privKey.
      setExtKeyUsage clientCert hosts (addHosts L (leafTemplate L w serial) hosts) = Returns tpl
    \<and> signed_leaf L w out out' tpl parent signer privKey"
    using MakeCert_success [OF m] by (elim exE conjE) (intro exI conjI)
  then obtain serial tpl parent signer privKey where
    se: "setExtKeyUsage clientCert hosts (addHosts L (leafTemplate L w serial) hosts) = Returns tpl"
    and sl: "signed_leaf L w out out' tpl parent signer privKey"
    by (elim exE conjE)
  have empty: "IPAddresses (leafTemplate L w serial) = []" "EmailAddresses (leafTemplate L w serial) = []"
      "URIs (leafTemplate L w serial) = []" "DNSNames (leafTemplate L w serial) = []"
    by (simp_all add: leafTemplate_def zeroCertificate_def)
  note gen = addHosts_lists [of L "leafTemplate L w serial" hosts, unfolded empty append_Nil]
  note keep = setExtKeyUsage_lists [OF se]
  have "signed_leaf L w out out' tpl parent signer privKey
           \<and> IPAddresses tpl = List.map_filter (ParseIP L) hosts
           \<and> EmailAddresses tpl = filter (\<lambda>h. spec_classify L h = Email_entry) hosts
           \<and> URIs tpl = List.map_filter (uri_of L) hosts
           \<and> DNSNames tpl = filter (\<lambda>h. spec_classify L h = DNS_entry) hosts"
    using sl keep gen by simp
  then show ?thesis
    by (intro exI)
qed

text \<open>
  C1. Whenever \<^verbatim>\<open>MakeCert\<close> returns nil for a list of identifiers, the writer holds the PEM
  of a certificate that \<^verbatim>\<open>x509.CreateCertificate\<close> signed from a template in which each
  identifier was classified on its own and in the order of the list: the IP addresses are the
  parsed IP literals, the email addresses the identifiers that are not IP literals and parse
  as an address equal to the input, the URIs the parsed identifiers that are neither and have
  a scheme and a host, and the DNS names all the others. With what \<^verbatim>\<open>net.ParseIP\<close>,
  \<^verbatim>\<open>mail.ParseAddress\<close> and \<^verbatim>\<open>url.Parse\<close> return on them, the certificate issued for
  \<^verbatim>\<open>10.0.0.1\<close> has an IP entry and no DNS name, the one for \<^verbatim>\<open>user@example.com\<close> an email
  entry, the one for \<^verbatim>\<open>https://example.com/path\<close> a URI entry, and the one for
  \<^verbatim>\<open>example.com\<close> and \<^verbatim>\<open>*.example.com\<close> two DNS entries.
\<close>

theorem MakeCert_signs_classified_hosts:
  assumes ip: "ParseIP L ''10.0.0.1'' = Some ip"
    and em: "ParseIP L ''user@example.com'' = None"
            "ParseAddress L ''user@example.com'' = Inr a" "Address a = ''user@example.com''"
    and ur: "ParseIP L ''https://example.com/path'' = None"
            "case ParseAddress L ''https://example.com/path'' of
               Inr a1 \<Rightarrow> Address a1 \<noteq> ''https://example.com/path'' | Inl e1 \<Rightarrow> True"
            "url_Parse L ''https://example.com/path'' = Inr u" "Scheme u \<noteq> []" "Host u \<noteq> []"
    and d1: "ParseIP L ''example.com'' = None"
            "case ParseAddress L ''example.com'' of
               Inr a2 \<Rightarrow> Address a2 \<noteq> ''example.com'' | Inl e2 \<Rightarrow> True"
            "case url_Parse L ''example.com'' of
               Inr u2 \<Rightarrow> Scheme u2 = [] \<or> Host u2 = [] | Inl e2 \<Rightarrow> True"
    and d2: "ParseIP L ''*.example.com'' = None"
            "case ParseAddress L ''*.example.com'' of
               Inr a3 \<Rightarrow> Address a3 \<noteq> ''*.example.com'' | Inl e3 \<Rightarrow> True"
            "case url_Parse L ''*.example.com'' of
               Inr u3 \<Rightarrow> Scheme u3 = [] \<or> Host u3 = [] | Inl e3 \<Rightarrow> True"
  shows "(MakeCert L ca w out clientCert hosts = Returns (None, w', out') \<longrightarrow>
            (\<exists>tpl parent signer privKey. signed_leaf L w out out' tpl parent signer privKey
               \<and> IPAddresses tpl = List.map_filter (ParseIP L) hosts
               \<and> IPAddresses tpl
                   = map (\<lambda>h. the (ParseIP L h)) (filter (\<lambda>h. spec_classify L h = IP_entry) hosts)
               \<and> EmailAddresses tpl = filter (\<lambda>h. spec_classify L h = Email_entry) hosts
               \<and> URIs tpl = List.map_filter (uri_of L) hosts
               \<and> DNSNames tpl = filter (\<lambda>h. spec_classify L h = DNS_entry) hosts))
       \<and> spec_classify L ''10.0.0.1'' = IP_entry
       \<and> (MakeCert L ca w out clientCert [''10.0.0.1''] = Returns (None, w', out') \<longrightarrow>
            (\<exists>tpl parent signer privKey. signed_leaf L w out out' tpl parent signer privKey
               \<and> IPAddresses tpl = [ip]
               \<and> EmailAddresses tpl = [] \<and> URIs tpl = [] \<and> DNSNames tpl = []))
       \<and> spec_classify L ''user@example.com'' = Email_entry
       \<and> (MakeCert L ca w out clientCert [''user@example.com''] = Returns (None, w', out') \<longrightarrow>
            (\<exists>tpl parent signer privKey. signed_leaf L w out out' tpl parent signer privKey
               \<and> IPAddresses tpl = []
               \<and> EmailAddresses tpl = [''user@example.com''] \<and> URIs tpl = [] \<and> DNSNames tpl = []))
       \<and> spec_classify L ''https://example.com/path'' = URI_entry
       \<and> (MakeCert L ca w out clientCert [''https://example.com/path''] = Returns (None, w', out') \<longrightarrow>
            (\<exists>tpl parent signer privKey. signed_leaf L w out out' tpl parent signer privKey
               \<and> IPAddresses tpl = []
               \<and> EmailAddresses tpl = [] \<and> URIs tpl = [u] \<and> DNSNames tpl = []))
       \<and> spec_classify L ''example.com'' = DNS_entry
       \<and> spec_classify L ''*.example.com'' = DNS_entry
       \<and> (MakeCert L ca w out clientCert [''example.com'', ''*.example.com''] = Returns (None, w', out') \<longrightarrow>
            (\<exists>tpl parent signer privKey. signed_leaf L w out out' tpl parent signer privKey
               \<and> IPAddresses tpl = []
               \<and> EmailAddresses tpl = [] \<and> URIs tpl = []
               \<and> DNSNames tpl = [''example.com'', ''*.example.com'']))"
proof -
  have ipf: "List.map_filter (ParseIP L) hs
      = map (\<lambda>h. the (ParseIP L h)) (filter (\<lambda>h. spec_classify L h = IP_entry) hs)" for hs
    by (induction hs) (auto simp: List.map_filter_simps spec_classify_def split: option.splits)
  have k1: "spec_classify L ''10.0.0.1'' = IP_entry"
    using ip by (simp add: spec_classify_def)
  have k2: "spec_classify L ''user@example.com'' = Email_entry"
    using em by (simp add: spec_classify_def)
  have k3: "spec_classify L ''https://example.com/path'' = URI_entry"
    using ur by (auto simp: spec_classify_def split: sum.splits)
  have k4: "spec_classify L ''example.com'' = DNS_entry"
    using d1 by (auto simp: spec_classify_def split: sum.splits)
  have k5: "spec_classify L ''*.example.com'' = DNS_entry"
    using d2 by (auto simp: spec_classify_def split: sum.splits)
  have u: "uri_of L ''10.0.0.1'' = None" "uri_of L ''user@example.com'' = None"
      "uri_of L ''https://example.com/path'' = Some u"
      "uri_of L ''example.com'' = None" "uri_of L ''*.example.com'' = None"
    using k1 k2 k3 k4 k5 ur(3) by (simp_all add: uri_of_def)
  have g: "\<exists>tpl parent signer privKey. signed_leaf L w out out' tpl parent signer privKey
               \<and> IPAddresses tpl = List.map_filter (ParseIP L) hosts
               \<and> IPAddresses tpl
                   = map (\<lambda>h. the (ParseIP L h)) (filter (\<lambda>h. spec_classify L h = IP_entry) hosts)
               \<and> EmailAddresses tpl = filter (\<lambda>h. spec_classify L h = Email_entry) hosts
               \<and> URIs tpl = List.map_filter (uri_of L) hosts
               \<and> DNSNames tpl = filter (\<lambda>h. spec_classify L h = DNS_entry) hosts"
    if "MakeCert L ca w out clientCert hosts = Returns (None, w', out')"
    using MakeCert_signs_classified [OF that] ipf [of hosts] by auto
  have x1: "\<exists>tpl parent signer privKey. signed_leaf L w out out' tpl parent signer privKey
               \<and> IPAddresses tpl = [ip]
               \<and> EmailAddresses tpl = [] \<and> URIs tpl = [] \<and> DNSNames tpl = []"
    if "MakeCert L ca w out clientCert [''10.0.0.1''] = Returns (None, w', out')"
    using MakeCert_signs_classified [OF that] ip k1 u by (simp add: List.map_filter_simps)
  have x2: "\<exists>tpl parent signer privKey. signed_leaf L w out out' tpl parent signer privKey
               \<and> IPAddresses tpl = []
               \<and> EmailAddresses tpl = [''user@example.com''] \<and> URIs tpl = [] \<and> DNSNames tpl = []"
    if "MakeCert L ca w out clientCert [''user@example.com''] = Returns (None, w', out')"
    using MakeCert_signs_classified [OF that] em k2 u by (simp add: List.map_filter_simps)
  have x3: "\<exists>tpl parent signer privKey. signed_leaf L w out out' tpl parent signer privKey
               \<and> IPAddresses tpl = []
               \<and> EmailAddresses tpl = [] \<and> URIs tpl = [u] \<and> DNSNames tpl = []"
    if "MakeCert L ca w out clientCert [''https://example.com/path''] = Returns (None, w', out')"
    using MakeCert_signs_classified [OF that] ur(1) k3 u by (simp add: List.map_filter_simps)
  have x4: "\<exists>tpl parent signer privKey. signed_leaf L w out out' tpl parent signer privKey
               \<and> IPAddresses tpl = []
               \<and> EmailAddresses tpl = [] \<and> URIs tpl = []
               \<and> DNSNames tpl = [''example.com'', ''*.example.com'']"
    if "MakeCert L ca w out clientCert [''example.com'', ''*.example.com''] = Returns (None, w', out')"
    using MakeCert_signs_classified [OF that] d1(1) d2(1) k4 k5 u by (simp add: List.map_filter_simps)
  show ?thesis
    using g x1 x2 x3 x4 k1 k2 k3 k4 k5 by blast
qed

theorem MakeCert_signs_classified_hosts_witness:
  "MakeCert sample_stdlib sample_ca created_world new_Buffer False sample_hosts
     = Returns (None, created_world\<lparr>entropy := 6\<rparr>, issued_buffer)
   \<and> signed_leaf sample_stdlib created_world new_Buffer issued_buffer
       sample_leaf sample_root (Some (PrivateKey 0)) (PrivateKey 4)
   \<and> (\<exists>tpl parent signer privKey.
          signed_leaf sample_stdlib created_world new_Buffer issued_buffer tpl parent signer privKey
          \<and> IPAddresses tpl = [[CHR 0x0A, CHR 0x00, CHR 0x00, CHR 0x01]]
          \<and> EmailAddresses tpl = [''user@example.com'']
          \<and> URIs tpl = [\<lparr>Scheme = ''https'', Host = ''example.com'', Rest = ''/path''\<rparr>]
          \<and> DNSNames tpl = [''example.com'', ''*.example.com''])"
proof -
  have ip: "ParseIP sample_stdlib ''10.0.0.1'' = Some [CHR 0x0A, CHR 0x00, CHR 0x00, CHR 0x01]"
    by (simp add: sample_stdlib_def)
  have em: "ParseIP sample_stdlib ''user@example.com'' = None"
      "ParseAddress sample_stdlib ''user@example.com'' = Inr \<lparr>Name = [], Address = ''user@example.com''\<rparr>"
      "Address \<lparr>Name = [], Address = ''user@example.com''\<rparr> = ''user@example.com''"
    by (simp_all add: sample_stdlib_def)
  have ur: "ParseIP sample_stdlib ''https://example.com/path'' = None"
      "case ParseAddress sample_stdlib ''https://example.com/path'' of
         Inr a1 \<Rightarrow> Address a1 \<noteq> ''https://example.com/path'' | Inl e1 \<Rightarrow> True"
      "url_Parse sample_stdlib ''https://example.com/path''
         = Inr \<lparr>Scheme = ''https'', Host = ''example.com'', Rest = ''/path''\<rparr>"
      "Scheme \<lparr>Scheme = ''https'', Host = ''example.com'', Rest = ''/path''\<rparr> \<noteq> []"
      "Host \<lparr>Scheme = ''https'', Host = ''example.com'', Rest = ''/path''\<rparr> \<noteq> []"
    by (simp_all add: sample_stdlib_def)
  have d1: "ParseIP sample_stdlib ''example.com'' = None"
      "case ParseAddress sample_stdlib ''example.com'' of
         Inr a2 \<Rightarrow> Address a2 \<noteq> ''example.com'' | Inl e2 \<Rightarrow> True"
      "case url_Parse sample_stdlib ''example.com'' of
         Inr u2 \<Rightarrow> Scheme u2 = [] \<or> Host u2 = [] | Inl e2 \<Rightarrow> True"
    by (simp_all add: sample_stdlib_def)
  have d2: "ParseIP sample_stdlib ''*.example.com'' = None"
      "case ParseAddress sample_stdlib ''*.example.com'' of
         Inr a3 \<Rightarrow> Address a3 \<noteq> ''*.example.com'' | Inl e3 \<Rightarrow> True"
      "case url_Parse sample_stdlib ''*.example.com'' of
         Inr u3 \<Rightarrow> Scheme u3 = [] \<or> Host u3 = [] | Inl e3 \<Rightarrow> True"
    by (simp_all add: sample_stdlib_def)
  have ld: "(if cert sample_ca = None \<or> key sample_ca = None
             then Load sample_stdlib sample_ca created_world else (None, sample_ca)) = (None, sample_ca)"
    by (simp add: sample_ca_def)
  have p: "cert sample_ca = Some sample_root"
    by (simp add: sample_ca_def)
  have e: "entropy created_world = 3"
    by (simp add: created_world_def)
  have rs: "rand_Int sample_stdlib (entropy created_world) = Inr 3"
    by (simp add: sample_stdlib_def e)
  have se: "setExtKeyUsage False sample_hosts
              (addHosts sample_stdlib (leafTemplate sample_stdlib created_world 3) sample_hosts)
            = Returns sample_leaf"
    by code_simp
  have gk: "ecdsa_GenerateKey sample_stdlib (Suc (entropy created_world)) = Inr (PrivateKey 4)"
    by (simp add: sample_stdlib_def e)
  have cc: "CreateCertificate sample_stdlib (Suc (Suc (entropy created_world))) sample_leaf sample_root
              (Public sample_stdlib (PrivateKey 4)) (key sample_ca) = Inr ''der###''"
    by (simp add: sample_stdlib_def sample_leaf_def numeral_3_eq_3)
  have p8: "MarshalPKCS8PrivateKey sample_stdlib (PrivateKey 4) = Inr ''key####''"
    by (simp add: sample_stdlib_def numeral_Bit0 [of Num.One] numeral_Bit0 [of "Num.Bit0 Num.One"])
  have w1: "write_errs new_Buffer (writes new_Buffer) = None"
    and w2: "write_errs new_Buffer (Suc (writes new_Buffer)) = None"
    by (simp_all add: new_Buffer_def)
  have run: "MakeCert sample_stdlib sample_ca created_world new_Buffer False sample_hosts
     = Returns (None, created_world\<lparr>entropy := 6\<rparr>, issued_buffer)"
    using MakeCert_returns_nil [OF ld rs se gk p cc p8 w1 w2]
    by (simp add: e sample_stdlib_def new_Buffer_def issued_buffer_def)
  have sl: "signed_leaf sample_stdlib created_world new_Buffer issued_buffer
       sample_leaf sample_root (Some (PrivateKey 0)) (PrivateKey 4)"
    by code_simp
  note t = MakeCert_signs_classified_hosts [OF ip em ur d1 d2,
      where ca = sample_ca and w = created_world and out = new_Buffer and clientCert = False
        and hosts = sample_hosts and w' = "created_world\<lparr>entropy := 6\<rparr>" and out' = issued_buffer,
      THEN conjunct1, THEN mp, OF run]
  have c: "spec_classify sample_stdlib ''10.0.0.1'' = IP_entry"
      "spec_classify sample_stdlib ''user@example.com'' = Email_entry"
      "spec_classify sample_stdlib ''https://example.com/path'' = URI_entry"
      "spec_classify sample_stdlib ''example.com'' = DNS_entry"
      "spec_classify sample_stdlib ''*.example.com'' = DNS_entry"
    using MakeCert_signs_classified_hosts [OF ip em ur d1 d2] by blast+
  have u: "uri_of sample_stdlib ''https://example.com/path''
             = Some \<lparr>Scheme = ''https'', Host = ''example.com'', Rest = ''/path''\<rparr>"
      "uri_of sample_stdlib ''example.com'' = None" "uri_of sample_stdlib ''10.0.0.1'' = None"
      "uri_of sample_stdlib ''user@example.com'' = None" "uri_of sample_stdlib ''*.example.com'' = None"
    using c ur(3) by (simp_all add: uri_of_def)
  have "\<exists>tpl parent signer privKey.
          signed_leaf sample_stdlib created_world new_Buffer issued_buffer tpl parent signer privKey
          \<and> IPAddresses tpl = [[CHR 0x0A, CHR 0x00, CHR 0x00, CHR 0x01]]
          \<and> EmailAddresses tpl = [''user@example.com'']
          \<and> URIs tpl = [\<lparr>Scheme = ''https'', Host = ''example.com'', Rest = ''/path''\<rparr>]
          \<and> DNSNames tpl = [''example.com'', ''*.example.com'']"
    using t by (simp add: sample_hosts_def c u ip em ur d1 d2 List.map_filter_simps)
  then show ?thesis
    using run sl by blast
qed

subsection \<open>The certificate cache of the TLS callback\<close>

lemma MakeCert_world:
  "MakeCert L ca w out clientCert hosts = Returns (e, w1, out1) \<Longrightarrow> \<exists>k. w1 = w\<lparr>entropy := k\<rparr>"
  unfolding MakeCert_def randomSerialNumber_def generateKey_def Let_def
  by (simp split: prod.splits option.splits sum.splits outcome.splits if_splits)
     (metis world.surjective world.update_convs(6))+


lemma MakeTLSCert_result:
  assumes "MakeTLSCert L ca w clientCert hosts = Returns (r, w1)"
  shows "length (tls_heap w) \<le> length (tls_heap w1)
       \<and> (\<forall>c. r = Inr c \<longrightarrow> c = length (tls_heap w) \<and> c < length (tls_heap w1))"
proof (cases "MakeCert L ca w new_Buffer clientCert hosts")
  case (Returns x)
  obtain e w0 out where x: "x = (e, w0, out)"
    by (cases x) auto
  from MakeCert_world [of L ca w new_Buffer clientCert hosts e w0 out] Returns x
  have h: "tls_heap w0 = tls_heap w"
    by auto
  show ?thesis
    using assms Returns x h
    by (auto simp: MakeTLSCert_def split: option.splits sum.splits)
next
  case (Panics p)
  then show ?thesis using assms by (simp add: MakeTLSCert_def)
next
  case (Exits n)
  then show ?thesis using assms by (simp add: MakeTLSCert_def)
qed

lemma GetCertificate_cases:
  assumes "GetCertificate L ca certs w name = Returns (r, certs', w')"
  shows "(\<exists>c. map_of certs name = Some c \<and> r = Inr c \<and> certs' = certs \<and> w' = w)
       \<or> (map_of certs name = None \<and> MakeTLSCert L ca w False [name] = Returns (r, w')
           \<and> (case r of Inl e \<Rightarrow> certs' = certs | Inr c \<Rightarrow> certs' = (name, c) # certs))"
  using assms
  by (auto simp: GetCertificate_def split: option.splits outcome.splits sum.splits)

lemma GetCertificate_certs_ok:
  assumes g: "GetCertificate L ca certs w name = Returns (r, certs', w')" and ok: "certs_ok certs w"
  shows "certs_ok certs' w'"
proof -
  from GetCertificate_cases [OF g] show ?thesis
  proof
    assume "\<exists>c. map_of certs name = Some c \<and> r = Inr c \<and> certs' = certs \<and> w' = w"
    then show ?thesis using ok by auto
  next
    assume m: "map_of certs name = None \<and> MakeTLSCert L ca w False [name] = Returns (r, w')
           \<and> (case r of Inl e \<Rightarrow> certs' = certs | Inr c \<Rightarrow> certs' = (name, c) # certs)"
    then have t: "MakeTLSCert L ca w False [name] = Returns (r, w')"
      by simp
    note h = MakeTLSCert_result [OF t]
    show ?thesis
    proof (cases r)
      case (Inl e)
      then show ?thesis
        using m h ok by (fastforce simp: certs_ok_def)
    next
      case (Inr c)
      then have c: "c = length (tls_heap w)" "c < length (tls_heap w')" and cs: "certs' = (name, c) # certs"
        using h m by auto
      have "c \<notin> snd ` set certs"
        using ok c(1) by (auto simp: certs_ok_def)
      then show ?thesis
        using ok c h cs by (fastforce simp: certs_ok_def)
    qed
  qed
qed

lemma serving_certs_ok: "serving L ca certs w \<Longrightarrow> certs_ok certs w"
proof (induction rule: serving.induct)
  case (serving_init w)
  then show ?case by (simp add: certs_ok_def TLSConfig_certs_def)
next
  case (serving_call certs w name r certs' w')
  then show ?case by (blast intro: GetCertificate_certs_ok)
next
  case (serving_other certs w w')
  then show ?case by (fastforce simp: certs_ok_def)
qed

lemma map_of_distinct_snd:
  "distinct (map snd xs) \<Longrightarrow> map_of xs a = Some c \<Longrightarrow> map_of xs b = Some c \<Longrightarrow> a = b"
proof (induction xs)
  case Nil
  then show ?case by simp
next
  case (Cons x xs)
  then show ?case
    by (cases x) (auto split: if_splits dest: map_of_SomeD intro: rev_image_eqI)
qed

text \<open>
  C2. In every state of a serving closure: an invocation that returns a certificate for a
  name leaves that name bound to it in the map, and when the name had no entry the
  certificate is the one that \<^verbatim>\<open>MakeTLSCert(false, name)\<close> issued for that single name;
  an invocation for a name that has an entry returns the stored certificate and changes
  neither the map nor the world (nothing is issued); and an invocation for a different name
  returns a different pointer and keeps the first entry.
\<close>

theorem GetCertificate_memoizes:
  assumes s: "serving L ca certs w"
  shows "(GetCertificate L ca certs w name = Returns (Inr c, certs', w') \<longrightarrow>
            map_of certs' name = Some c \<and> serving L ca certs' w'
          \<and> (map_of certs name = None \<longrightarrow>
                MakeTLSCert L ca w False [name] = Returns (Inr c, w') \<and> certs' = (name, c) # certs))
       \<and> (map_of certs name = Some c \<longrightarrow> GetCertificate L ca certs w name = Returns (Inr c, certs, w))
       \<and> (map_of certs name = Some c \<and> name' \<noteq> name
            \<and> GetCertificate L ca certs w name' = Returns (Inr c', certs', w') \<longrightarrow>
            c' \<noteq> c \<and> map_of certs' name = Some c)"
proof (intro conjI)
  show "GetCertificate L ca certs w name = Returns (Inr c, certs', w') \<longrightarrow>
            map_of certs' name = Some c \<and> serving L ca certs' w'
          \<and> (map_of certs name = None \<longrightarrow>
                MakeTLSCert L ca w False [name] = Returns (Inr c, w') \<and> certs' = (name, c) # certs)"
  proof
    assume g: "GetCertificate L ca certs w name = Returns (Inr c, certs', w')"
    have sv: "serving L ca certs' w'"
      using s g by (rule serving_call)
    from GetCertificate_cases [OF g] show "map_of certs' name = Some c \<and> serving L ca certs' w'
          \<and> (map_of certs name = None \<longrightarrow>
                MakeTLSCert L ca w False [name] = Returns (Inr c, w') \<and> certs' = (name, c) # certs)"
      using sv by auto
  qed
next
  show "map_of certs name = Some c \<longrightarrow> GetCertificate L ca certs w name = Returns (Inr c, certs, w)"
    by (simp add: GetCertificate_def)
next
  show "map_of certs name = Some c \<and> name' \<noteq> name
            \<and> GetCertificate L ca certs w name' = Returns (Inr c', certs', w') \<longrightarrow>
            c' \<noteq> c \<and> map_of certs' name = Some c"
  proof
    assume a: "map_of certs name = Some c \<and> name' \<noteq> name
            \<and> GetCertificate L ca certs w name' = Returns (Inr c', certs', w')"
    then have m: "map_of certs name = Some c" and ne: "name' \<noteq> name"
      and g: "GetCertificate L ca certs w name' = Returns (Inr c', certs', w')"
      by simp_all
    have ok: "certs_ok certs w"
      using s by (rule serving_certs_ok)
    have "(name, c) \<in> set certs"
      using m by (rule map_of_SomeD)
    then have lt: "c < length (tls_heap w)"
      using ok by (fastforce simp: certs_ok_def)
    from GetCertificate_cases [OF g] show "c' \<noteq> c \<and> map_of certs' name = Some c"
    proof
      assume "\<exists>x. map_of certs name' = Some x \<and> Inr c' = Inr x \<and> certs' = certs \<and> w' = w"
      then have h: "map_of certs name' = Some c'" "certs' = certs"
        by auto
      have "c' \<noteq> c"
        using map_of_distinct_snd [of certs name c name'] ok m h(1) ne by (auto simp: certs_ok_def)
      then show ?thesis
        using m h by simp
    next
      assume h: "map_of certs name' = None \<and> MakeTLSCert L ca w False [name'] = Returns (Inr c', w')
           \<and> (case Inr c' of Inl e \<Rightarrow> certs' = certs | Inr x \<Rightarrow> certs' = (name', x) # certs)"
      then have "c' = length (tls_heap w)"
        using MakeTLSCert_result [of L ca w False "[name']" "Inr c'" w'] by simp
      then show ?thesis
        using lt h m ne by simp
    qed
  qed
qed

theorem GetCertificate_memoizes_witness:
  "GetCertificate sample_stdlib sample_ca TLSConfig_certs created_world ''a.test''
     = Returns (Inr 0, [(''a.test'', 0)], served_world)
   \<and> MakeTLSCert sample_stdlib sample_ca created_world False [''a.test''] = Returns (Inr 0, served_world)
   \<and> serving sample_stdlib sample_ca [(''a.test'', 0)] served_world
   \<and> GetCertificate sample_stdlib sample_ca [(''a.test'', 0)] served_world ''a.test''
       = Returns (Inr 0, [(''a.test'', 0)], served_world)
   \<and> GetCertificate sample_stdlib sample_ca [(''a.test'', 0)] served_world ''b.test''
       = Returns (Inr 1, [(''b.test'', 1), (''a.test'', 0)], served_world2)
   \<and> (1::nat) \<noteq> 0"
proof -
  have g1: "GetCertificate sample_stdlib sample_ca TLSConfig_certs created_world ''a.test''
     = Returns (Inr 0, [(''a.test'', 0)], served_world)"
    by code_simp
  have g3: "GetCertificate sample_stdlib sample_ca [(''a.test'', 0)] served_world ''b.test''
       = Returns (Inr 1, [(''b.test'', 1), (''a.test'', 0)], served_world2)"
    by code_simp
  have m0: "map_of TLSConfig_certs ''a.test'' = None"
    by (simp add: TLSConfig_certs_def)
  note t1 = GetCertificate_memoizes [OF serving_init, of sample_stdlib sample_ca created_world
      "''a.test''" 0 "[(''a.test'', 0)]" served_world, THEN conjunct1, THEN mp, OF g1]
  have m1: "map_of [(''a.test'', 0::nat)] ''a.test'' = Some 0"
    using t1 by blast
  have sv: "serving sample_stdlib sample_ca [(''a.test'', 0)] served_world"
    using t1 by blast
  have mk: "MakeTLSCert sample_stdlib sample_ca created_world False [''a.test''] = Returns (Inr 0, served_world)"
    using t1 m0 by blast
  note t2 = GetCertificate_memoizes [OF sv, of "''a.test''" 0
      "[(''b.test'', 1), (''a.test'', 0)]" served_world2 "''b.test''" 1]
  have hit: "GetCertificate sample_stdlib sample_ca [(''a.test'', 0)] served_world ''a.test''
       = Returns (Inr 0, [(''a.test'', 0)], served_world)"
    using t2 [THEN conjunct2, THEN conjunct1] m1 by blast
  have ne: "''b.test'' \<noteq> ''a.test''"
    by simp
  have d: "(1::nat) \<noteq> 0"
    using t2 [THEN conjunct2, THEN conjunct2, THEN mp, OF conjI [OF m1 conjI [OF ne g3]]] by blast
  show ?thesis
    using g1 mk sv hit g3 d by blast
qed

subsection \<open>Installing to and uninstalling from all the trust stores\<close>

lemma map_fst_results [simp]: "map fst (results f stores m) = stores"
  by (induction stores arbitrary: m) simp_all

lemma storesLoop_results:
  "MaxSize grp = 0 \<Longrightarrow>
   storesLoop f before after stores grp out m =
     (Group 0 (errs grp @ List.map_filter snd (results f stores m))
        (nerrs grp + int (length (List.map_filter snd (results f stores m)))),
      out @ concat (map (\<lambda>s. before s @ after) stores),
      final_state f stores m)"
proof (induction stores arbitrary: grp out m)
  case Nil
  then show ?case
    by (cases grp) (simp add: List.map_filter_simps)
next
  case (Cons s stores)
  obtain err m' where f: "f s m = (err, m')"
    by (cases "f s m") auto
  have mx: "MaxSize (snd (Append grp err)) = 0"
    using Cons.prems by (simp add: Append_def split: option.splits)
  show ?case
    using Cons.IH [OF mx, of "out @ before s @ after" m'] Cons.prems f
    by (cases err) (simp_all add: Append_def List.map_filter_simps)
qed

lemma ErrorOrNil_Group:
  "ErrorOrNil (Group 0 es n) = (if es = [] then None else Some (GroupError (Group 0 es n)))"
  by (simp add: ErrorOrNil_def Len_def)

lemma map_filter_snd_empty:
  "List.map_filter snd rs = [] \<longleftrightarrow> (\<forall>r \<in> set rs. snd r = None)"
  by (induction rs) (auto simp: List.map_filter_simps split: option.splits)

lemma fanout:
  assumes st: "stores \<noteq> []"
  shows "(case storesLoop f before after stores (NewGroup 0) [] m of
            (grp, out, m') \<Rightarrow> (ErrorOrNil grp, w\<lparr>stdout := stdout w @ out\<rparr>, m'))
         = (if List.map_filter snd (results f stores m) = [] then None
            else Some (GroupError (Group 0 (List.map_filter snd (results f stores m))
                                     (int (length (List.map_filter snd (results f stores m)))))),
            w\<lparr>stdout := stdout w @ concat (map (\<lambda>s. before s @ after) stores)\<rparr>,
            final_state f stores m)"
  by (simp add: storesLoop_results [of "NewGroup 0", simplified NewGroup_def, simplified]
      NewGroup_def ErrorOrNil_Group)

text \<open>
  C7. With the authority in memory or loaded, \<^verbatim>\<open>Install\<close> and \<^verbatim>\<open>Uninstall\<close> return the
  error \<^verbatim>\<open>no compatible truststores found\<close>, and invoke nothing, when \<^verbatim>\<open>Find\<close> gives
  no store. Otherwise every store found is invoked once, in the order of \<^verbatim>\<open>Find\<close>, each
  on the state left by the one before, whatever the others returned; the error returned is
  nil if and only if every store returned nil, and otherwise it is the group whose errors
  are the errors the stores returned, in that order.
\<close>

theorem Install_fanout:
  assumes ld: "(if cert ca = None then Load L ca w else (None, ca)) = (None, ca')"
  shows "(Find w = [] \<longrightarrow>
            Install L B ca w m = (Some (Error ''no compatible truststores found''), w, m)
          \<and> Uninstall L B ca w m = (Some (Error ''no compatible truststores found''), w, m))
       \<and> (Find w \<noteq> [] \<longrightarrow>
            map fst (results (\<lambda>s. store_Install B s (fst (StorePath w)) (cert ca')) (Find w) m) = Find w
          \<and> snd (snd (Install L B ca w m))
              = final_state (\<lambda>s. store_Install B s (fst (StorePath w)) (cert ca')) (Find w) m
          \<and> (fst (Install L B ca w m) = None \<longleftrightarrow>
               (\<forall>r \<in> set (results (\<lambda>s. store_Install B s (fst (StorePath w)) (cert ca')) (Find w) m).
                  snd r = None))
          \<and> (fst (Install L B ca w m) \<noteq> None \<longrightarrow>
               (\<exists>g. fst (Install L B ca w m) = Some (GroupError g)
                  \<and> errs g = List.map_filter snd
                      (results (\<lambda>s. store_Install B s (fst (StorePath w)) (cert ca')) (Find w) m)))
          \<and> map fst (results (\<lambda>s. store_Uninstall B s (fst (StorePath w)) (cert ca')) (Find w) m) = Find w
          \<and> snd (snd (Uninstall L B ca w m))
              = final_state (\<lambda>s. store_Uninstall B s (fst (StorePath w)) (cert ca')) (Find w) m
          \<and> (fst (Uninstall L B ca w m) = None \<longleftrightarrow>
               (\<forall>r \<in> set (results (\<lambda>s. store_Uninstall B s (fst (StorePath w)) (cert ca')) (Find w) m).
                  snd r = None))
          \<and> (fst (Uninstall L B ca w m) \<noteq> None \<longrightarrow>
               (\<exists>g. fst (Uninstall L B ca w m) = Some (GroupError g)
                  \<and> errs g = List.map_filter snd
                      (results (\<lambda>s. store_Uninstall B s (fst (StorePath w)) (cert ca')) (Find w) m))))"
proof (intro conjI impI)
  assume "Find w = []"
  then show "Install L B ca w m = (Some (Error ''no compatible truststores found''), w, m)"
    unfolding Install_def ld by simp
next
  assume "Find w = []"
  then show "Uninstall L B ca w m = (Some (Error ''no compatible truststores found''), w, m)"
    unfolding Uninstall_def ld by simp
next
  assume ne: "Find w \<noteq> []"
  let ?f = "\<lambda>s. store_Install B s (fst (StorePath w)) (cert ca')"
  let ?rs = "results ?f (Find w) m"
  have i: "Install L B ca w m =
      (if List.map_filter snd ?rs = [] then None
       else Some (GroupError (Group 0 (List.map_filter snd ?rs) (int (length (List.map_filter snd ?rs))))),
       w\<lparr>stdout := stdout w @ concat (map (\<lambda>s. [''Installing for '' @ Store_Name s @ ''...''] @ [''  done'']) (Find w))\<rparr>,
       final_state ?f (Find w) m)"
  proof -
    obtain s ss where fw: "Find w = s # ss"
      using ne by (cases "Find w") auto
    have "Install L B ca w m =
        (case storesLoop ?f (\<lambda>s. [''Installing for '' @ Store_Name s @ ''...'']) [''  done'']
                (Find w) (NewGroup 0) [] m of
           (grp, out, m') \<Rightarrow> (ErrorOrNil grp, w\<lparr>stdout := stdout w @ out\<rparr>, m'))"
      unfolding Install_def ld by (simp add: fw del: storesLoop.simps)
    then show ?thesis
      by (simp only: fanout [OF ne])
  qed
  show "map fst ?rs = Find w"
    by simp
  show "snd (snd (Install L B ca w m)) = final_state ?f (Find w) m"
    by (simp add: i)
  show "fst (Install L B ca w m) = None \<longleftrightarrow> (\<forall>r \<in> set ?rs. snd r = None)"
    by (simp add: i map_filter_snd_empty)
  show "\<exists>g. fst (Install L B ca w m) = Some (GroupError g) \<and> errs g = List.map_filter snd ?rs"
    if "fst (Install L B ca w m) \<noteq> None"
    using that by (simp add: i split: if_splits)
  let ?u = "\<lambda>s. store_Uninstall B s (fst (StorePath w)) (cert ca')"
  let ?us = "results ?u (Find w) m"
  have u: "Uninstall L B ca w m =
      (if List.map_filter snd ?us = [] then None
       else Some (GroupError (Group 0 (List.map_filter snd ?us) (int (length (List.map_filter snd ?us))))),
       w\<lparr>stdout := stdout w @ concat (map (\<lambda>s. [''Uninstalling for '' @ Store_Name s] @ []) (Find w))\<rparr>,
       final_state ?u (Find w) m)"
  proof -
    obtain s ss where fw: "Find w = s # ss"
      using ne by (cases "Find w") auto
    have "Uninstall L B ca w m =
        (case storesLoop ?u (\<lambda>s. [''Uninstalling for '' @ Store_Name s]) []
                (Find w) (NewGroup 0) [] m of
           (grp, out, m') \<Rightarrow> (ErrorOrNil grp, w\<lparr>stdout := stdout w @ out\<rparr>, m'))"
      unfolding Uninstall_def ld by (simp add: fw del: storesLoop.simps)
    then show ?thesis
      by (simp only: fanout [OF ne])
  qed
  show "map fst ?us = Find w"
    by simp
  show "snd (snd (Uninstall L B ca w m)) = final_state ?u (Find w) m"
    by (simp add: u)
  show "fst (Uninstall L B ca w m) = None \<longleftrightarrow> (\<forall>r \<in> set ?us. snd r = None)"
    by (simp add: u map_filter_snd_empty)
  show "\<exists>g. fst (Uninstall L B ca w m) = Some (GroupError g) \<and> errs g = List.map_filter snd ?us"
    if "fst (Uninstall L B ca w m) \<noteq> None"
    using that by (simp add: u split: if_splits)
qed


theorem Install_fanout_witness:
  "Install sample_stdlib sample_backends sample_ca no_store_world []
     = (Some (Error ''no compatible truststores found''), no_store_world, [])
   \<and> Find trust_world = [NSS, Unix]
   \<and> snd (snd (Install sample_stdlib sample_backends sample_ca trust_world [])) = [NSS, Unix]
   \<and> (\<exists>g. fst (Install sample_stdlib sample_backends sample_ca trust_world []) = Some (GroupError g)
          \<and> errs g = [Error ''truststore.NSS: no security database found''])
   \<and> fst (Uninstall sample_stdlib sample_backends sample_ca trust_world []) = None
   \<and> snd (snd (Uninstall sample_stdlib sample_backends sample_ca trust_world [])) = [NSS, Unix]"
proof -
  have ld: "(if cert sample_ca = None then Load sample_stdlib sample_ca w else (None, sample_ca))
              = (None, sample_ca)" for w
    by (simp add: sample_ca_def)
  have f0: "Find no_store_world = []"
    by code_simp
  have f1: "Find trust_world = [NSS, Unix]"
    by code_simp
  let ?f = "\<lambda>s. store_Install sample_backends s (fst (StorePath trust_world)) (cert sample_ca)"
  let ?u = "\<lambda>s. store_Uninstall sample_backends s (fst (StorePath trust_world)) (cert sample_ca)"
  have r: "results ?f [NSS, Unix] []
             = [(NSS, Some (Error ''truststore.NSS: no security database found'')), (Unix, None)]"
    by (simp add: sample_backends_def)
  have ru: "results ?u [NSS, Unix] [] = [(NSS, None), (Unix, None)]"
    by (simp add: sample_backends_def)
  have fs: "final_state ?f [NSS, Unix] [] = [NSS, Unix]" "final_state ?u [NSS, Unix] [] = [NSS, Unix]"
    by (simp_all add: sample_backends_def)
  note t0 = Install_fanout [where L = sample_stdlib and w = no_store_world and B = sample_backends
      and m = "[]" and ca = sample_ca and ca' = sample_ca, OF ld,
      THEN conjunct1, THEN mp, OF f0, THEN conjunct1]
  have ne: "Find trust_world \<noteq> []"
    by (simp add: f1)
  note t1 = Install_fanout [where L = sample_stdlib and w = trust_world and B = sample_backends
      and m = "[]" and ca = sample_ca and ca' = sample_ca, OF ld,
      THEN conjunct2, THEN mp, OF ne, unfolded f1 r ru fs]
  have i_ne: "fst (Install sample_stdlib sample_backends sample_ca trust_world []) \<noteq> None"
    using t1 by simp
  have g: "\<exists>g. fst (Install sample_stdlib sample_backends sample_ca trust_world []) = Some (GroupError g)
          \<and> errs g = [Error ''truststore.NSS: no security database found'']"
    using t1 i_ne by (simp add: List.map_filter_simps)
  show ?thesis
    using t0 f1 t1 g by simp
qed

subsection \<open>The retry with more privileges\<close>

lemma CombinedOutput_world:
  assumes "CombinedOutput R c w = (r, w')"
  shows "stderr w' = stderr w \<and> privWarning_done w' = privWarning_done w
       \<and> current_user w' = current_user w \<and> path_bins w' = path_bins w \<and> GOOS w' = GOOS w
       \<and> length (executed_cmds w') \<le> Suc (length (executed_cmds w))"
  using assms by (auto simp: CombinedOutput_def split: option.splits prod.splits)

lemma privCmd_warned_once:
  "privCmd w name args = (c, w') \<Longrightarrow> warned_once w \<Longrightarrow> warned_once w'"
  by (auto simp: privCmd_def warned_once_def split: if_splits)

lemma CombinedOutput_warned_once:
  "CombinedOutput R c w = (r, w') \<Longrightarrow> warned_once w \<Longrightarrow> warned_once w'"
  using CombinedOutput_world [of R c w r w'] by (simp add: warned_once_def)

lemma execCertutil_warned_once:
  assumes e: "execCertutil R c w = Returns (r, w')" and ok: "warned_once w"
  shows "warned_once w'"
proof -
  obtain out err w1 where f: "CombinedOutput R c w = ((out, err), w1)"
    by (metis prod.exhaust)
  have ok1: "warned_once w1"
    using CombinedOutput_warned_once [OF f ok] .
  show ?thesis
  proof (cases "err \<noteq> None \<and> Contains out ''SEC_ERROR_READ_ONLY'' \<and> GOOS w1 \<noteq> ''windows''")
    case False
    then show ?thesis
      using e f ok1 by (auto simp: execCertutil_def)
  next
    case True
    obtain a origArgs where a: "Args c = a # origArgs"
      using e f True by (cases "Args c") (auto simp: execCertutil_def)
    obtain cmd2 w2 where p: "privCmd w1 (Path c) [] = (cmd2, w2)"
      by (metis prod.exhaust)
    have ok2: "warned_once w2"
      using privCmd_warned_once [OF p ok1] .
    have "CombinedOutput R (cmd2\<lparr>Args := Args cmd2 @ origArgs\<rparr>) w2 = (r, w')"
      using e f True a p by (simp add: execCertutil_def)
    then show ?thesis
      using ok2 by (rule CombinedOutput_warned_once)
  qed
qed

lemma running_warned_once: "running R w \<Longrightarrow> warned_once w"
proof (induction rule: running.induct)
  case (running_start w)
  then show ?case by (simp add: warned_once_def)
next
  case (running_privCmd w name args c w')
  then show ?case by (blast intro: privCmd_warned_once)
next
  case (running_output w c r w')
  then show ?case by (blast intro: CombinedOutput_warned_once)
next
  case (running_certutil w c r w')
  then show ?case by (blast intro: execCertutil_warned_once)
qed

lemma privCmd_Args:
  "Args (fst (privCmd w name args)) =
     (if is_root w then name # args
      else if binaryExists w ''sudo'' then ''sudo'' # ''--prompt=Sudo password:'' # ''--'' # name # args
      else if binaryExists w ''doas'' then ''doas'' # ''--'' # name # args
      else name # args)"
  by (simp add: privCmd_def Command_def split: sum.splits)

text \<open>
  C9. When the direct execution of a \<^verbatim>\<open>certutil\<close> command fails with
  \<^verbatim>\<open>SEC_ERROR_READ_ONLY\<close> in its combined output and the platform is not Windows,
  \<^verbatim>\<open>execCertutil\<close> runs one more command and returns its result: the resolved path of
  the program with the original arguments, as it is when the user is root, else after
  \<^verbatim>\<open>sudo --prompt=... --\<close>, else after \<^verbatim>\<open>doas --\<close>, else as it is again, and only in
  that last case the warning is printed, if it was not printed before. Without the failure,
  the marker or the platform there is no retry. \<^verbatim>\<open>execKeytool\<close> retries in the same way
  on its marker. One call starts at most two commands, and in every state of a running
  process the warning is on the standard error at most once.
\<close>

theorem execCertutil_escalation:
  "(CombinedOutput R cmd w = ((out, Some e), w1) \<and> Contains out ''SEC_ERROR_READ_ONLY''
      \<and> GOOS w \<noteq> ''windows'' \<and> Args cmd = a # origArgs \<longrightarrow>
      execCertutil R cmd w
         = Returns (CombinedOutput R ((fst (privCmd w1 (Path cmd) []))
                                        \<lparr>Args := Args (fst (privCmd w1 (Path cmd) [])) @ origArgs\<rparr>)
                      (snd (privCmd w1 (Path cmd) [])))
    \<and> Args (fst (privCmd w1 (Path cmd) [])) @ origArgs =
        (if is_root w then Path cmd # origArgs
         else if binaryExists w ''sudo'' then
           ''sudo'' # ''--prompt=Sudo password:'' # ''--'' # Path cmd # origArgs
         else if binaryExists w ''doas'' then ''doas'' # ''--'' # Path cmd # origArgs
         else Path cmd # origArgs)
    \<and> snd (privCmd w1 (Path cmd) []) =
        (if is_root w \<or> binaryExists w ''sudo'' \<or> binaryExists w ''doas'' \<or> privWarning_done w
         then w1 else w1\<lparr>privWarning_done := True, stderr := stderr w @ [priv_warning]\<rparr>))
   \<and> (CombinedOutput R cmd w = ((out, err), w1)
        \<and> (err = None \<or> \<not> Contains out ''SEC_ERROR_READ_ONLY'' \<or> GOOS w = ''windows'') \<longrightarrow>
        execCertutil R cmd w = Returns ((out, err), w1))
   \<and> (CombinedOutput R cmd w = ((out, Some e), w1) \<and> Contains out ''java.io.FileNotFoundException''
        \<and> GOOS w \<noteq> ''windows'' \<and> Args cmd = a # origArgs \<longrightarrow>
        map_option (\<lambda>x. (fst (fst x), snd x)) (returned (execKeytool R cmd w))
          = Some (let x = CombinedOutput R ((fst (privCmd w1 (Path cmd) []))
                              \<lparr>Args := Args (fst (privCmd w1 (Path cmd) [])) @ origArgs,
                                Env := [''JAVA_HOME='' @ Getenv w ''JAVA_HOME'']\<rparr>)
                            (snd (privCmd w1 (Path cmd) []))
                  in (fst (fst x), snd x)))
   \<and> (running R w \<and> execCertutil R cmd w = Returns (r, w') \<longrightarrow>
        running R w' \<and> length (executed_cmds w') \<le> length (executed_cmds w) + 2)
   \<and> (running R w \<longrightarrow> count_list (stderr w) priv_warning \<le> 1)"
proof (intro conjI impI)
  assume h: "CombinedOutput R cmd w = ((out, Some e), w1) \<and> Contains out ''SEC_ERROR_READ_ONLY''
      \<and> GOOS w \<noteq> ''windows'' \<and> Args cmd = a # origArgs"
  then have f: "CombinedOutput R cmd w = ((out, Some e), w1)"
    by simp
  note same = CombinedOutput_world [OF f]
  have ir: "is_root w1 = is_root w"
    using same by (simp add: is_root_def)
  have be: "binaryExists w1 n = binaryExists w n" for n
    using same by (simp add: binaryExists_def LookPath_def)
  show "execCertutil R cmd w
         = Returns (CombinedOutput R ((fst (privCmd w1 (Path cmd) []))
                                        \<lparr>Args := Args (fst (privCmd w1 (Path cmd) [])) @ origArgs\<rparr>)
                      (snd (privCmd w1 (Path cmd) [])))"
    using h same by (simp add: execCertutil_def split: prod.splits)
  show "Args (fst (privCmd w1 (Path cmd) [])) @ origArgs =
        (if is_root w then Path cmd # origArgs
         else if binaryExists w ''sudo'' then
           ''sudo'' # ''--prompt=Sudo password:'' # ''--'' # Path cmd # origArgs
         else if binaryExists w ''doas'' then ''doas'' # ''--'' # Path cmd # origArgs
         else Path cmd # origArgs)"
    by (simp add: privCmd_Args ir be)
  show "snd (privCmd w1 (Path cmd) []) =
        (if is_root w \<or> binaryExists w ''sudo'' \<or> binaryExists w ''doas'' \<or> privWarning_done w
         then w1 else w1\<lparr>privWarning_done := True, stderr := stderr w @ [priv_warning]\<rparr>)"
    using same by (simp add: privCmd_def ir be)
next
  assume "CombinedOutput R cmd w = ((out, err), w1)
        \<and> (err = None \<or> \<not> Contains out ''SEC_ERROR_READ_ONLY'' \<or> GOOS w = ''windows'')"
  then show "execCertutil R cmd w = Returns ((out, err), w1)"
    using CombinedOutput_world [of R cmd w "(out, err)" w1] by (auto simp: execCertutil_def)
next
  assume h: "CombinedOutput R cmd w = ((out, Some e), w1) \<and> Contains out ''java.io.FileNotFoundException''
        \<and> GOOS w \<noteq> ''windows'' \<and> Args cmd = a # origArgs"
  then have f: "CombinedOutput R cmd w = ((out, Some e), w1)"
    by simp
  have env: "Getenv w1 ''JAVA_HOME'' = Getenv w ''JAVA_HOME''" "GOOS w1 = GOOS w"
    using f by (auto simp: CombinedOutput_def Getenv_def split: option.splits prod.splits)
  show "map_option (\<lambda>x. (fst (fst x), snd x)) (returned (execKeytool R cmd w))
          = Some (let x = CombinedOutput R ((fst (privCmd w1 (Path cmd) []))
                              \<lparr>Args := Args (fst (privCmd w1 (Path cmd) [])) @ origArgs,
                                Env := [''JAVA_HOME='' @ Getenv w ''JAVA_HOME'']\<rparr>)
                            (snd (privCmd w1 (Path cmd) []))
                  in (fst (fst x), snd x))"
    using h env
    by (simp add: execKeytool_def returned_def Let_def split: prod.splits option.splits)
next
  assume h: "running R w \<and> execCertutil R cmd w = Returns (r, w')"
  then show "running R w'"
    by (blast intro: running_certutil)
next
  assume h: "running R w \<and> execCertutil R cmd w = Returns (r, w')"
  then have e: "execCertutil R cmd w = Returns (r, w')"
    by simp
  obtain out0 err0 w0 where f: "CombinedOutput R cmd w = ((out0, err0), w0)"
    by (metis prod.exhaust)
  have l0: "length (executed_cmds w0) \<le> Suc (length (executed_cmds w))"
    using CombinedOutput_world [OF f] by simp
  show "length (executed_cmds w') \<le> length (executed_cmds w) + 2"
  proof (cases "err0 \<noteq> None \<and> Contains out0 ''SEC_ERROR_READ_ONLY'' \<and> GOOS w0 \<noteq> ''windows''")
    case False
    then show ?thesis
      using e f l0 by (auto simp: execCertutil_def)
  next
    case True
    obtain a' origArgs' where a: "Args cmd = a' # origArgs'"
      using e f True by (cases "Args cmd") (auto simp: execCertutil_def)
    obtain cmd2 w2 where p: "privCmd w0 (Path cmd) [] = (cmd2, w2)"
      by (metis prod.exhaust)
    have l2: "executed_cmds w2 = executed_cmds w0"
      using p by (auto simp: privCmd_def split: if_splits)
    have c: "CombinedOutput R (cmd2\<lparr>Args := Args cmd2 @ origArgs'\<rparr>) w2 = (r, w')"
      using e f True a p by (simp add: execCertutil_def)
    show ?thesis
      using CombinedOutput_world [OF c] l2 l0 by simp
  qed
next
  assume "running R w"
  then show "count_list (stderr w) priv_warning \<le> 1"
    using running_warned_once [of R w] by (simp add: warned_once_def)
qed


theorem execCertutil_escalation_witness:
  "execCertutil sample_runner sample_cmd created_world = Returns ((''ok'', None), escalated_world)
   \<and> stderr escalated_world = [priv_warning]
   \<and> execCertutil sample_runner sample_cmd escalated_world = Returns ((''ok'', None), escalated_world2)
   \<and> running sample_runner escalated_world2
   \<and> stderr escalated_world2 = [priv_warning]
   \<and> count_list (stderr escalated_world2) priv_warning \<le> 1
   \<and> length (executed_cmds escalated_world2) \<le> length (executed_cmds escalated_world) + 2"
proof -
  let ?out = "''certutil: function failed: SEC_ERROR_READ_ONLY: security library: read-only database.''"
  let ?w1 = "created_world\<lparr>executed_cmds := [[''certutil'', ''-A'', ''-d'', ''sql:/etc/pki/nssdb'']]\<rparr>"
  have f: "CombinedOutput sample_runner sample_cmd created_world
             = ((?out, Some (Error ''exit status 255'')), ?w1)"
    by code_simp
  have mk: "Contains ?out ''SEC_ERROR_READ_ONLY''"
    by code_simp
  have os: "GOOS created_world \<noteq> ''windows''"
    by code_simp
  have ar: "Args sample_cmd = ''certutil'' # [''-A'', ''-d'', ''sql:/etc/pki/nssdb'']"
    by code_simp
  note t = execCertutil_escalation [where R = sample_runner and cmd = sample_cmd
      and w = created_world and out = ?out and e = "Error ''exit status 255''" and ?w1.0 = ?w1
      and a = "''certutil''" and origArgs = "[''-A'', ''-d'', ''sql:/etc/pki/nssdb'']",
      THEN conjunct1, THEN mp, OF conjI [OF f conjI [OF mk conjI [OF os ar]]]]
  have retry: "CombinedOutput sample_runner ((fst (privCmd ?w1 (Path sample_cmd) []))
                   \<lparr>Args := Args (fst (privCmd ?w1 (Path sample_cmd) []))
                              @ [''-A'', ''-d'', ''sql:/etc/pki/nssdb'']\<rparr>)
                 (snd (privCmd ?w1 (Path sample_cmd) []))
               = ((''ok'', None), escalated_world)"
    by code_simp
  have e1: "execCertutil sample_runner sample_cmd created_world = Returns ((''ok'', None), escalated_world)"
    using t [THEN conjunct1] by (simp only: retry)
  have e2: "execCertutil sample_runner sample_cmd escalated_world = Returns ((''ok'', None), escalated_world2)"
    by code_simp
  have r0: "running sample_runner created_world"
    by (rule running_start) (simp_all add: created_world_def sample_world_def)
  note u1 = execCertutil_escalation [where R = sample_runner and cmd = sample_cmd
      and w = created_world and r = "(''ok'', None)" and w' = escalated_world,
      THEN conjunct2, THEN conjunct2, THEN conjunct2, THEN conjunct1, THEN mp, OF conjI [OF r0 e1]]
  have r1: "running sample_runner escalated_world"
    using u1 by blast
  note u2 = execCertutil_escalation [where R = sample_runner and cmd = sample_cmd
      and w = escalated_world and r = "(''ok'', None)" and w' = escalated_world2,
      THEN conjunct2, THEN conjunct2, THEN conjunct2, THEN conjunct1, THEN mp, OF conjI [OF r1 e2]]
  note u3 = execCertutil_escalation [where R = sample_runner and w = escalated_world2,
      THEN conjunct2, THEN conjunct2, THEN conjunct2, THEN conjunct2, THEN mp, OF u2 [THEN conjunct1]]
  have s1: "stderr escalated_world = [priv_warning]" "stderr escalated_world2 = [priv_warning]"
    by (simp_all add: escalated_world_def escalated_world2_def)
  show ?thesis
    using e1 e2 u2 u3 s1 by blast
qed

subsection \<open>The macOS backend and the end of the process\<close>

lemma patchTrustSettings_exits:
  "map_of (snd (plist_Unmarshal D plistData)) ''trustVersion'' = Some (PUint n) \<Longrightarrow> n \<noteq> 1 \<Longrightarrow>
   patchTrustSettings D plistData (Some c) = Exits 1"
  by (simp add: patchTrustSettings_def)

lemma patchTrustSettings_panics:
  "map_of (snd (plist_Unmarshal D plistData)) ''trustVersion'' = None \<Longrightarrow>
   patchTrustSettings D plistData (Some c) = Panics ''interface conversion: interface {} is not uint64''"
  by (simp add: patchTrustSettings_def)

text \<open>
  C6. Claimed: no core operation ends the process; every failure of the authority and of
  every backend, \<^verbatim>\<open>Darwin.Install\<close> for every content of the exported trust settings
  included, comes back as an error value. On the Mac below the three \<^verbatim>\<open>security\<close>
  commands succeed and the exported property list has \<^verbatim>\<open>trustVersion\<close> 2:
  \<^verbatim>\<open>Darwin.Install\<close> does not return, it ends the process with status 1
  (\<^verbatim>\<open>log.Fatalln\<close>).
\<close>

theorem Darwin_Install_exits:
  "Darwin_Install (darwin_runner ''<plist version 2>'') sample_darwin_lib darwin_world
     ''/ca/zcert/rootCA.pem'' (Some sample_root) = Exits 1"
  by code_simp

text \<open>
  When the export is not a property list, the error of \<^verbatim>\<open>plist.Unmarshal\<close> is dropped
  and the type assertion on the missing \<^verbatim>\<open>trustVersion\<close> panics; with version 1 the
  call returns nil.
\<close>

lemma Darwin_Install_panics:
  "Darwin_Install (darwin_runner ''not a property list'') sample_darwin_lib darwin_world
     ''/ca/zcert/rootCA.pem'' (Some sample_root) = Panics ''interface conversion: interface {} is not uint64''"
  by code_simp

lemma Darwin_Install_returns:
  "map_option fst (returned (Darwin_Install (darwin_runner ''<plist version 1>'') sample_darwin_lib
     darwin_world ''/ca/zcert/rootCA.pem'' (Some sample_root))) = Some None"
  by code_simp

end
